theory Spec2Isabelle
  imports Main "HOL-Library.AList" "HOL-Library.List_Lexorder" "HOL-Library.Product_Lexorder"
begin

section \<open>Strings and cells\<close>

text \<open>
  Python strings are sequences of Unicode code points, and \<open>len\<close>, slicing and
  \<open>startswith\<close> count code points. A string is therefore a list of code points
  (natural numbers). A spreadsheet cell holds a string or is missing (\<open>NaN\<close>/\<open>None\<close>,
  what \<open>pd.isna\<close> tests); a missing cell is \<open>None\<close>.
\<close>

type_synonym ustring = "nat list"

type_synonym cell = "ustring option"

definition ustr :: "string \<Rightarrow> ustring" where
  "ustr s = map of_char s"

text \<open>
  The code points for which \<open>str.isspace\<close> holds; the regular expression class
  \<open>\s\<close> of a \<open>str\<close> pattern matches the same code points.
\<close>

definition is_space :: "nat \<Rightarrow> bool" where
  "is_space c \<longleftrightarrow>
     c \<in> set [0x9, 0xA, 0xB, 0xC, 0xD, 0x1C, 0x1D, 0x1E, 0x1F, 0x20, 0x85, 0xA0, 0x1680,
              0x2000, 0x2001, 0x2002, 0x2003, 0x2004, 0x2005, 0x2006, 0x2007, 0x2008,
              0x2009, 0x200A, 0x2028, 0x2029, 0x202F, 0x205F, 0x3000]"

text \<open>
  \<open>str.upper\<close> works one code point at a time; the upper-case form of one code point
  may be several code points, as for U+00DF. \<open>upper_table\<close> is its table (Unicode
  14.0, the table of CPython 3.11): every code point whose upper-case form is not the
  code point itself, in ascending order, with that form. It is written in eight parts
  with a single entry between two parts.
\<close>

definition upper_table_0 :: "(nat \<times> nat list) list" where
  "upper_table_0 =
     [(0x61, [0x41]), (0x62, [0x42]), (0x63, [0x43]), (0x64, [0x44]), (0x65, [0x45]),
      (0x66, [0x46]), (0x67, [0x47]), (0x68, [0x48]), (0x69, [0x49]), (0x6A, [0x4A]),
      (0x6B, [0x4B]), (0x6C, [0x4C]), (0x6D, [0x4D]), (0x6E, [0x4E]), (0x6F, [0x4F]),
      (0x70, [0x50]), (0x71, [0x51]), (0x72, [0x52]), (0x73, [0x53]), (0x74, [0x54]),
      (0x75, [0x55]), (0x76, [0x56]), (0x77, [0x57]), (0x78, [0x58]), (0x79, [0x59]),
      (0x7A, [0x5A]), (0xB5, [0x39C]), (0xDF, [0x53, 0x53]), (0xE0, [0xC0]), (0xE1, [0xC1]),
      (0xE2, [0xC2]), (0xE3, [0xC3]), (0xE4, [0xC4]), (0xE5, [0xC5]), (0xE6, [0xC6]),
      (0xE7, [0xC7]), (0xE8, [0xC8]), (0xE9, [0xC9]), (0xEA, [0xCA]), (0xEB, [0xCB]),
      (0xEC, [0xCC]), (0xED, [0xCD]), (0xEE, [0xCE]), (0xEF, [0xCF]), (0xF0, [0xD0]),
      (0xF1, [0xD1]), (0xF2, [0xD2]), (0xF3, [0xD3]), (0xF4, [0xD4]), (0xF5, [0xD5]),
      (0xF6, [0xD6]), (0xF8, [0xD8]), (0xF9, [0xD9]), (0xFA, [0xDA]), (0xFB, [0xDB]),
      (0xFC, [0xDC]), (0xFD, [0xDD]), (0xFE, [0xDE]), (0xFF, [0x178]), (0x101, [0x100]),
      (0x103, [0x102]), (0x105, [0x104]), (0x107, [0x106]), (0x109, [0x108]),
      (0x10B, [0x10A]), (0x10D, [0x10C]), (0x10F, [0x10E]), (0x111, [0x110]),
      (0x113, [0x112]), (0x115, [0x114]), (0x117, [0x116]), (0x119, [0x118]),
      (0x11B, [0x11A]), (0x11D, [0x11C]), (0x11F, [0x11E]), (0x121, [0x120]),
      (0x123, [0x122]), (0x125, [0x124]), (0x127, [0x126]), (0x129, [0x128]),
      (0x12B, [0x12A]), (0x12D, [0x12C]), (0x12F, [0x12E]), (0x131, [0x49]),
      (0x133, [0x132]), (0x135, [0x134]), (0x137, [0x136]), (0x13A, [0x139]),
      (0x13C, [0x13B]), (0x13E, [0x13D]), (0x140, [0x13F]), (0x142, [0x141]),
      (0x144, [0x143]), (0x146, [0x145]), (0x148, [0x147]), (0x149, [0x2BC, 0x4E]),
      (0x14B, [0x14A]), (0x14D, [0x14C]), (0x14F, [0x14E]), (0x151, [0x150]),
      (0x153, [0x152]), (0x155, [0x154]), (0x157, [0x156]), (0x159, [0x158]),
      (0x15B, [0x15A]), (0x15D, [0x15C]), (0x15F, [0x15E]), (0x161, [0x160]),
      (0x163, [0x162]), (0x165, [0x164]), (0x167, [0x166]), (0x169, [0x168]),
      (0x16B, [0x16A]), (0x16D, [0x16C]), (0x16F, [0x16E]), (0x171, [0x170]),
      (0x173, [0x172]), (0x175, [0x174]), (0x177, [0x176]), (0x17A, [0x179]),
      (0x17C, [0x17B]), (0x17E, [0x17D]), (0x17F, [0x53]), (0x180, [0x243]),
      (0x183, [0x182]), (0x185, [0x184]), (0x188, [0x187]), (0x18C, [0x18B]),
      (0x192, [0x191]), (0x195, [0x1F6]), (0x199, [0x198]), (0x19A, [0x23D]),
      (0x19E, [0x220]), (0x1A1, [0x1A0]), (0x1A3, [0x1A2]), (0x1A5, [0x1A4]),
      (0x1A8, [0x1A7]), (0x1AD, [0x1AC]), (0x1B0, [0x1AF]), (0x1B4, [0x1B3]),
      (0x1B6, [0x1B5]), (0x1B9, [0x1B8]), (0x1BD, [0x1BC]), (0x1BF, [0x1F7]),
      (0x1C5, [0x1C4]), (0x1C6, [0x1C4]), (0x1C8, [0x1C7]), (0x1C9, [0x1C7]),
      (0x1CB, [0x1CA]), (0x1CC, [0x1CA]), (0x1CE, [0x1CD]), (0x1D0, [0x1CF]),
      (0x1D2, [0x1D1]), (0x1D4, [0x1D3]), (0x1D6, [0x1D5]), (0x1D8, [0x1D7]),
      (0x1DA, [0x1D9]), (0x1DC, [0x1DB]), (0x1DD, [0x18E]), (0x1DF, [0x1DE]),
      (0x1E1, [0x1E0]), (0x1E3, [0x1E2]), (0x1E5, [0x1E4]), (0x1E7, [0x1E6]),
      (0x1E9, [0x1E8]), (0x1EB, [0x1EA]), (0x1ED, [0x1EC]), (0x1EF, [0x1EE]),
      (0x1F0, [0x4A, 0x30C]), (0x1F2, [0x1F1]), (0x1F3, [0x1F1]), (0x1F5, [0x1F4]),
      (0x1F9, [0x1F8]), (0x1FB, [0x1FA]), (0x1FD, [0x1FC]), (0x1FF, [0x1FE]),
      (0x201, [0x200]), (0x203, [0x202]), (0x205, [0x204]), (0x207, [0x206]),
      (0x209, [0x208]), (0x20B, [0x20A]), (0x20D, [0x20C]), (0x20F, [0x20E]),
      (0x211, [0x210]), (0x213, [0x212]), (0x215, [0x214]), (0x217, [0x216]),
      (0x219, [0x218]), (0x21B, [0x21A])]"

definition upper_table_1 :: "(nat \<times> nat list) list" where
  "upper_table_1 =
     [(0x21F, [0x21E]), (0x223, [0x222]), (0x225, [0x224]), (0x227, [0x226]),
      (0x229, [0x228]), (0x22B, [0x22A]), (0x22D, [0x22C]), (0x22F, [0x22E]),
      (0x231, [0x230]), (0x233, [0x232]), (0x23C, [0x23B]), (0x23F, [0x2C7E]),
      (0x240, [0x2C7F]), (0x242, [0x241]), (0x247, [0x246]), (0x249, [0x248]),
      (0x24B, [0x24A]), (0x24D, [0x24C]), (0x24F, [0x24E]), (0x250, [0x2C6F]),
      (0x251, [0x2C6D]), (0x252, [0x2C70]), (0x253, [0x181]), (0x254, [0x186]),
      (0x256, [0x189]), (0x257, [0x18A]), (0x259, [0x18F]), (0x25B, [0x190]),
      (0x25C, [0xA7AB]), (0x260, [0x193]), (0x261, [0xA7AC]), (0x263, [0x194]),
      (0x265, [0xA78D]), (0x266, [0xA7AA]), (0x268, [0x197]), (0x269, [0x196]),
      (0x26A, [0xA7AE]), (0x26B, [0x2C62]), (0x26C, [0xA7AD]), (0x26F, [0x19C]),
      (0x271, [0x2C6E]), (0x272, [0x19D]), (0x275, [0x19F]), (0x27D, [0x2C64]),
      (0x280, [0x1A6]), (0x282, [0xA7C5]), (0x283, [0x1A9]), (0x287, [0xA7B1]),
      (0x288, [0x1AE]), (0x289, [0x244]), (0x28A, [0x1B1]), (0x28B, [0x1B2]),
      (0x28C, [0x245]), (0x292, [0x1B7]), (0x29D, [0xA7B2]), (0x29E, [0xA7B0]),
      (0x345, [0x399]), (0x371, [0x370]), (0x373, [0x372]), (0x377, [0x376]),
      (0x37B, [0x3FD]), (0x37C, [0x3FE]), (0x37D, [0x3FF]), (0x390, [0x399, 0x308, 0x301]),
      (0x3AC, [0x386]), (0x3AD, [0x388]), (0x3AE, [0x389]), (0x3AF, [0x38A]),
      (0x3B0, [0x3A5, 0x308, 0x301]), (0x3B1, [0x391]), (0x3B2, [0x392]), (0x3B3, [0x393]),
      (0x3B4, [0x394]), (0x3B5, [0x395]), (0x3B6, [0x396]), (0x3B7, [0x397]),
      (0x3B8, [0x398]), (0x3B9, [0x399]), (0x3BA, [0x39A]), (0x3BB, [0x39B]),
      (0x3BC, [0x39C]), (0x3BD, [0x39D]), (0x3BE, [0x39E]), (0x3BF, [0x39F]),
      (0x3C0, [0x3A0]), (0x3C1, [0x3A1]), (0x3C2, [0x3A3]), (0x3C3, [0x3A3]),
      (0x3C4, [0x3A4]), (0x3C5, [0x3A5]), (0x3C6, [0x3A6]), (0x3C7, [0x3A7]),
      (0x3C8, [0x3A8]), (0x3C9, [0x3A9]), (0x3CA, [0x3AA]), (0x3CB, [0x3AB]),
      (0x3CC, [0x38C]), (0x3CD, [0x38E]), (0x3CE, [0x38F]), (0x3D0, [0x392]),
      (0x3D1, [0x398]), (0x3D5, [0x3A6]), (0x3D6, [0x3A0]), (0x3D7, [0x3CF]),
      (0x3D9, [0x3D8]), (0x3DB, [0x3DA]), (0x3DD, [0x3DC]), (0x3DF, [0x3DE]),
      (0x3E1, [0x3E0]), (0x3E3, [0x3E2]), (0x3E5, [0x3E4]), (0x3E7, [0x3E6]),
      (0x3E9, [0x3E8]), (0x3EB, [0x3EA]), (0x3ED, [0x3EC]), (0x3EF, [0x3EE]),
      (0x3F0, [0x39A]), (0x3F1, [0x3A1]), (0x3F2, [0x3F9]), (0x3F3, [0x37F]),
      (0x3F5, [0x395]), (0x3F8, [0x3F7]), (0x3FB, [0x3FA]), (0x430, [0x410]),
      (0x431, [0x411]), (0x432, [0x412]), (0x433, [0x413]), (0x434, [0x414]),
      (0x435, [0x415]), (0x436, [0x416]), (0x437, [0x417]), (0x438, [0x418]),
      (0x439, [0x419]), (0x43A, [0x41A]), (0x43B, [0x41B]), (0x43C, [0x41C]),
      (0x43D, [0x41D]), (0x43E, [0x41E]), (0x43F, [0x41F]), (0x440, [0x420]),
      (0x441, [0x421]), (0x442, [0x422]), (0x443, [0x423]), (0x444, [0x424]),
      (0x445, [0x425]), (0x446, [0x426]), (0x447, [0x427]), (0x448, [0x428]),
      (0x449, [0x429]), (0x44A, [0x42A]), (0x44B, [0x42B]), (0x44C, [0x42C]),
      (0x44D, [0x42D]), (0x44E, [0x42E]), (0x44F, [0x42F]), (0x450, [0x400]),
      (0x451, [0x401]), (0x452, [0x402]), (0x453, [0x403]), (0x454, [0x404]),
      (0x455, [0x405]), (0x456, [0x406]), (0x457, [0x407]), (0x458, [0x408]),
      (0x459, [0x409]), (0x45A, [0x40A]), (0x45B, [0x40B]), (0x45C, [0x40C]),
      (0x45D, [0x40D]), (0x45E, [0x40E]), (0x45F, [0x40F]), (0x461, [0x460]),
      (0x463, [0x462]), (0x465, [0x464]), (0x467, [0x466]), (0x469, [0x468]),
      (0x46B, [0x46A]), (0x46D, [0x46C]), (0x46F, [0x46E]), (0x471, [0x470]),
      (0x473, [0x472]), (0x475, [0x474]), (0x477, [0x476]), (0x479, [0x478]),
      (0x47B, [0x47A]), (0x47D, [0x47C]), (0x47F, [0x47E]), (0x481, [0x480]),
      (0x48B, [0x48A]), (0x48D, [0x48C])]"

definition upper_table_2 :: "(nat \<times> nat list) list" where
  "upper_table_2 =
     [(0x491, [0x490]), (0x493, [0x492]), (0x495, [0x494]), (0x497, [0x496]),
      (0x499, [0x498]), (0x49B, [0x49A]), (0x49D, [0x49C]), (0x49F, [0x49E]),
      (0x4A1, [0x4A0]), (0x4A3, [0x4A2]), (0x4A5, [0x4A4]), (0x4A7, [0x4A6]),
      (0x4A9, [0x4A8]), (0x4AB, [0x4AA]), (0x4AD, [0x4AC]), (0x4AF, [0x4AE]),
      (0x4B1, [0x4B0]), (0x4B3, [0x4B2]), (0x4B5, [0x4B4]), (0x4B7, [0x4B6]),
      (0x4B9, [0x4B8]), (0x4BB, [0x4BA]), (0x4BD, [0x4BC]), (0x4BF, [0x4BE]),
      (0x4C2, [0x4C1]), (0x4C4, [0x4C3]), (0x4C6, [0x4C5]), (0x4C8, [0x4C7]),
      (0x4CA, [0x4C9]), (0x4CC, [0x4CB]), (0x4CE, [0x4CD]), (0x4CF, [0x4C0]),
      (0x4D1, [0x4D0]), (0x4D3, [0x4D2]), (0x4D5, [0x4D4]), (0x4D7, [0x4D6]),
      (0x4D9, [0x4D8]), (0x4DB, [0x4DA]), (0x4DD, [0x4DC]), (0x4DF, [0x4DE]),
      (0x4E1, [0x4E0]), (0x4E3, [0x4E2]), (0x4E5, [0x4E4]), (0x4E7, [0x4E6]),
      (0x4E9, [0x4E8]), (0x4EB, [0x4EA]), (0x4ED, [0x4EC]), (0x4EF, [0x4EE]),
      (0x4F1, [0x4F0]), (0x4F3, [0x4F2]), (0x4F5, [0x4F4]), (0x4F7, [0x4F6]),
      (0x4F9, [0x4F8]), (0x4FB, [0x4FA]), (0x4FD, [0x4FC]), (0x4FF, [0x4FE]),
      (0x501, [0x500]), (0x503, [0x502]), (0x505, [0x504]), (0x507, [0x506]),
      (0x509, [0x508]), (0x50B, [0x50A]), (0x50D, [0x50C]), (0x50F, [0x50E]),
      (0x511, [0x510]), (0x513, [0x512]), (0x515, [0x514]), (0x517, [0x516]),
      (0x519, [0x518]), (0x51B, [0x51A]), (0x51D, [0x51C]), (0x51F, [0x51E]),
      (0x521, [0x520]), (0x523, [0x522]), (0x525, [0x524]), (0x527, [0x526]),
      (0x529, [0x528]), (0x52B, [0x52A]), (0x52D, [0x52C]), (0x52F, [0x52E]),
      (0x561, [0x531]), (0x562, [0x532]), (0x563, [0x533]), (0x564, [0x534]),
      (0x565, [0x535]), (0x566, [0x536]), (0x567, [0x537]), (0x568, [0x538]),
      (0x569, [0x539]), (0x56A, [0x53A]), (0x56B, [0x53B]), (0x56C, [0x53C]),
      (0x56D, [0x53D]), (0x56E, [0x53E]), (0x56F, [0x53F]), (0x570, [0x540]),
      (0x571, [0x541]), (0x572, [0x542]), (0x573, [0x543]), (0x574, [0x544]),
      (0x575, [0x545]), (0x576, [0x546]), (0x577, [0x547]), (0x578, [0x548]),
      (0x579, [0x549]), (0x57A, [0x54A]), (0x57B, [0x54B]), (0x57C, [0x54C]),
      (0x57D, [0x54D]), (0x57E, [0x54E]), (0x57F, [0x54F]), (0x580, [0x550]),
      (0x581, [0x551]), (0x582, [0x552]), (0x583, [0x553]), (0x584, [0x554]),
      (0x585, [0x555]), (0x586, [0x556]), (0x587, [0x535, 0x552]), (0x10D0, [0x1C90]),
      (0x10D1, [0x1C91]), (0x10D2, [0x1C92]), (0x10D3, [0x1C93]), (0x10D4, [0x1C94]),
      (0x10D5, [0x1C95]), (0x10D6, [0x1C96]), (0x10D7, [0x1C97]), (0x10D8, [0x1C98]),
      (0x10D9, [0x1C99]), (0x10DA, [0x1C9A]), (0x10DB, [0x1C9B]), (0x10DC, [0x1C9C]),
      (0x10DD, [0x1C9D]), (0x10DE, [0x1C9E]), (0x10DF, [0x1C9F]), (0x10E0, [0x1CA0]),
      (0x10E1, [0x1CA1]), (0x10E2, [0x1CA2]), (0x10E3, [0x1CA3]), (0x10E4, [0x1CA4]),
      (0x10E5, [0x1CA5]), (0x10E6, [0x1CA6]), (0x10E7, [0x1CA7]), (0x10E8, [0x1CA8]),
      (0x10E9, [0x1CA9]), (0x10EA, [0x1CAA]), (0x10EB, [0x1CAB]), (0x10EC, [0x1CAC]),
      (0x10ED, [0x1CAD]), (0x10EE, [0x1CAE]), (0x10EF, [0x1CAF]), (0x10F0, [0x1CB0]),
      (0x10F1, [0x1CB1]), (0x10F2, [0x1CB2]), (0x10F3, [0x1CB3]), (0x10F4, [0x1CB4]),
      (0x10F5, [0x1CB5]), (0x10F6, [0x1CB6]), (0x10F7, [0x1CB7]), (0x10F8, [0x1CB8]),
      (0x10F9, [0x1CB9]), (0x10FA, [0x1CBA]), (0x10FD, [0x1CBD]), (0x10FE, [0x1CBE]),
      (0x10FF, [0x1CBF]), (0x13F8, [0x13F0]), (0x13F9, [0x13F1]), (0x13FA, [0x13F2]),
      (0x13FB, [0x13F3]), (0x13FC, [0x13F4]), (0x13FD, [0x13F5]), (0x1C80, [0x412]),
      (0x1C81, [0x414]), (0x1C82, [0x41E]), (0x1C83, [0x421]), (0x1C84, [0x422]),
      (0x1C85, [0x422]), (0x1C86, [0x42A]), (0x1C87, [0x462]), (0x1C88, [0xA64A]),
      (0x1D79, [0xA77D]), (0x1D7D, [0x2C63]), (0x1D8E, [0xA7C6]), (0x1E01, [0x1E00]),
      (0x1E03, [0x1E02]), (0x1E05, [0x1E04]), (0x1E07, [0x1E06]), (0x1E09, [0x1E08]),
      (0x1E0B, [0x1E0A]), (0x1E0D, [0x1E0C])]"

definition upper_table_3 :: "(nat \<times> nat list) list" where
  "upper_table_3 =
     [(0x1E11, [0x1E10]), (0x1E13, [0x1E12]), (0x1E15, [0x1E14]), (0x1E17, [0x1E16]),
      (0x1E19, [0x1E18]), (0x1E1B, [0x1E1A]), (0x1E1D, [0x1E1C]), (0x1E1F, [0x1E1E]),
      (0x1E21, [0x1E20]), (0x1E23, [0x1E22]), (0x1E25, [0x1E24]), (0x1E27, [0x1E26]),
      (0x1E29, [0x1E28]), (0x1E2B, [0x1E2A]), (0x1E2D, [0x1E2C]), (0x1E2F, [0x1E2E]),
      (0x1E31, [0x1E30]), (0x1E33, [0x1E32]), (0x1E35, [0x1E34]), (0x1E37, [0x1E36]),
      (0x1E39, [0x1E38]), (0x1E3B, [0x1E3A]), (0x1E3D, [0x1E3C]), (0x1E3F, [0x1E3E]),
      (0x1E41, [0x1E40]), (0x1E43, [0x1E42]), (0x1E45, [0x1E44]), (0x1E47, [0x1E46]),
      (0x1E49, [0x1E48]), (0x1E4B, [0x1E4A]), (0x1E4D, [0x1E4C]), (0x1E4F, [0x1E4E]),
      (0x1E51, [0x1E50]), (0x1E53, [0x1E52]), (0x1E55, [0x1E54]), (0x1E57, [0x1E56]),
      (0x1E59, [0x1E58]), (0x1E5B, [0x1E5A]), (0x1E5D, [0x1E5C]), (0x1E5F, [0x1E5E]),
      (0x1E61, [0x1E60]), (0x1E63, [0x1E62]), (0x1E65, [0x1E64]), (0x1E67, [0x1E66]),
      (0x1E69, [0x1E68]), (0x1E6B, [0x1E6A]), (0x1E6D, [0x1E6C]), (0x1E6F, [0x1E6E]),
      (0x1E71, [0x1E70]), (0x1E73, [0x1E72]), (0x1E75, [0x1E74]), (0x1E77, [0x1E76]),
      (0x1E79, [0x1E78]), (0x1E7B, [0x1E7A]), (0x1E7D, [0x1E7C]), (0x1E7F, [0x1E7E]),
      (0x1E81, [0x1E80]), (0x1E83, [0x1E82]), (0x1E85, [0x1E84]), (0x1E87, [0x1E86]),
      (0x1E89, [0x1E88]), (0x1E8B, [0x1E8A]), (0x1E8D, [0x1E8C]), (0x1E8F, [0x1E8E]),
      (0x1E91, [0x1E90]), (0x1E93, [0x1E92]), (0x1E95, [0x1E94]), (0x1E96, [0x48, 0x331]),
      (0x1E97, [0x54, 0x308]), (0x1E98, [0x57, 0x30A]), (0x1E99, [0x59, 0x30A]),
      (0x1E9A, [0x41, 0x2BE]), (0x1E9B, [0x1E60]), (0x1EA1, [0x1EA0]), (0x1EA3, [0x1EA2]),
      (0x1EA5, [0x1EA4]), (0x1EA7, [0x1EA6]), (0x1EA9, [0x1EA8]), (0x1EAB, [0x1EAA]),
      (0x1EAD, [0x1EAC]), (0x1EAF, [0x1EAE]), (0x1EB1, [0x1EB0]), (0x1EB3, [0x1EB2]),
      (0x1EB5, [0x1EB4]), (0x1EB7, [0x1EB6]), (0x1EB9, [0x1EB8]), (0x1EBB, [0x1EBA]),
      (0x1EBD, [0x1EBC]), (0x1EBF, [0x1EBE]), (0x1EC1, [0x1EC0]), (0x1EC3, [0x1EC2]),
      (0x1EC5, [0x1EC4]), (0x1EC7, [0x1EC6]), (0x1EC9, [0x1EC8]), (0x1ECB, [0x1ECA]),
      (0x1ECD, [0x1ECC]), (0x1ECF, [0x1ECE]), (0x1ED1, [0x1ED0]), (0x1ED3, [0x1ED2]),
      (0x1ED5, [0x1ED4]), (0x1ED7, [0x1ED6]), (0x1ED9, [0x1ED8]), (0x1EDB, [0x1EDA]),
      (0x1EDD, [0x1EDC]), (0x1EDF, [0x1EDE]), (0x1EE1, [0x1EE0]), (0x1EE3, [0x1EE2]),
      (0x1EE5, [0x1EE4]), (0x1EE7, [0x1EE6]), (0x1EE9, [0x1EE8]), (0x1EEB, [0x1EEA]),
      (0x1EED, [0x1EEC]), (0x1EEF, [0x1EEE]), (0x1EF1, [0x1EF0]), (0x1EF3, [0x1EF2]),
      (0x1EF5, [0x1EF4]), (0x1EF7, [0x1EF6]), (0x1EF9, [0x1EF8]), (0x1EFB, [0x1EFA]),
      (0x1EFD, [0x1EFC]), (0x1EFF, [0x1EFE]), (0x1F00, [0x1F08]), (0x1F01, [0x1F09]),
      (0x1F02, [0x1F0A]), (0x1F03, [0x1F0B]), (0x1F04, [0x1F0C]), (0x1F05, [0x1F0D]),
      (0x1F06, [0x1F0E]), (0x1F07, [0x1F0F]), (0x1F10, [0x1F18]), (0x1F11, [0x1F19]),
      (0x1F12, [0x1F1A]), (0x1F13, [0x1F1B]), (0x1F14, [0x1F1C]), (0x1F15, [0x1F1D]),
      (0x1F20, [0x1F28]), (0x1F21, [0x1F29]), (0x1F22, [0x1F2A]), (0x1F23, [0x1F2B]),
      (0x1F24, [0x1F2C]), (0x1F25, [0x1F2D]), (0x1F26, [0x1F2E]), (0x1F27, [0x1F2F]),
      (0x1F30, [0x1F38]), (0x1F31, [0x1F39]), (0x1F32, [0x1F3A]), (0x1F33, [0x1F3B]),
      (0x1F34, [0x1F3C]), (0x1F35, [0x1F3D]), (0x1F36, [0x1F3E]), (0x1F37, [0x1F3F]),
      (0x1F40, [0x1F48]), (0x1F41, [0x1F49]), (0x1F42, [0x1F4A]), (0x1F43, [0x1F4B]),
      (0x1F44, [0x1F4C]), (0x1F45, [0x1F4D]), (0x1F50, [0x3A5, 0x313]), (0x1F51, [0x1F59]),
      (0x1F52, [0x3A5, 0x313, 0x300]), (0x1F53, [0x1F5B]), (0x1F54, [0x3A5, 0x313, 0x301]),
      (0x1F55, [0x1F5D]), (0x1F56, [0x3A5, 0x313, 0x342]), (0x1F57, [0x1F5F]),
      (0x1F60, [0x1F68]), (0x1F61, [0x1F69]), (0x1F62, [0x1F6A]), (0x1F63, [0x1F6B]),
      (0x1F64, [0x1F6C]), (0x1F65, [0x1F6D]), (0x1F66, [0x1F6E]), (0x1F67, [0x1F6F]),
      (0x1F70, [0x1FBA]), (0x1F71, [0x1FBB]), (0x1F72, [0x1FC8]), (0x1F73, [0x1FC9]),
      (0x1F74, [0x1FCA]), (0x1F75, [0x1FCB]), (0x1F76, [0x1FDA]), (0x1F77, [0x1FDB]),
      (0x1F78, [0x1FF8]), (0x1F79, [0x1FF9]), (0x1F7A, [0x1FEA]), (0x1F7B, [0x1FEB]),
      (0x1F7C, [0x1FFA]), (0x1F7D, [0x1FFB]), (0x1F80, [0x1F08, 0x399]),
      (0x1F81, [0x1F09, 0x399])]"

definition upper_table_4 :: "(nat \<times> nat list) list" where
  "upper_table_4 =
     [(0x1F83, [0x1F0B, 0x399]), (0x1F84, [0x1F0C, 0x399]), (0x1F85, [0x1F0D, 0x399]),
      (0x1F86, [0x1F0E, 0x399]), (0x1F87, [0x1F0F, 0x399]), (0x1F88, [0x1F08, 0x399]),
      (0x1F89, [0x1F09, 0x399]), (0x1F8A, [0x1F0A, 0x399]), (0x1F8B, [0x1F0B, 0x399]),
      (0x1F8C, [0x1F0C, 0x399]), (0x1F8D, [0x1F0D, 0x399]), (0x1F8E, [0x1F0E, 0x399]),
      (0x1F8F, [0x1F0F, 0x399]), (0x1F90, [0x1F28, 0x399]), (0x1F91, [0x1F29, 0x399]),
      (0x1F92, [0x1F2A, 0x399]), (0x1F93, [0x1F2B, 0x399]), (0x1F94, [0x1F2C, 0x399]),
      (0x1F95, [0x1F2D, 0x399]), (0x1F96, [0x1F2E, 0x399]), (0x1F97, [0x1F2F, 0x399]),
      (0x1F98, [0x1F28, 0x399]), (0x1F99, [0x1F29, 0x399]), (0x1F9A, [0x1F2A, 0x399]),
      (0x1F9B, [0x1F2B, 0x399]), (0x1F9C, [0x1F2C, 0x399]), (0x1F9D, [0x1F2D, 0x399]),
      (0x1F9E, [0x1F2E, 0x399]), (0x1F9F, [0x1F2F, 0x399]), (0x1FA0, [0x1F68, 0x399]),
      (0x1FA1, [0x1F69, 0x399]), (0x1FA2, [0x1F6A, 0x399]), (0x1FA3, [0x1F6B, 0x399]),
      (0x1FA4, [0x1F6C, 0x399]), (0x1FA5, [0x1F6D, 0x399]), (0x1FA6, [0x1F6E, 0x399]),
      (0x1FA7, [0x1F6F, 0x399]), (0x1FA8, [0x1F68, 0x399]), (0x1FA9, [0x1F69, 0x399]),
      (0x1FAA, [0x1F6A, 0x399]), (0x1FAB, [0x1F6B, 0x399]), (0x1FAC, [0x1F6C, 0x399]),
      (0x1FAD, [0x1F6D, 0x399]), (0x1FAE, [0x1F6E, 0x399]), (0x1FAF, [0x1F6F, 0x399]),
      (0x1FB0, [0x1FB8]), (0x1FB1, [0x1FB9]), (0x1FB2, [0x1FBA, 0x399]),
      (0x1FB3, [0x391, 0x399]), (0x1FB4, [0x386, 0x399]), (0x1FB6, [0x391, 0x342]),
      (0x1FB7, [0x391, 0x342, 0x399]), (0x1FBC, [0x391, 0x399]), (0x1FBE, [0x399]),
      (0x1FC2, [0x1FCA, 0x399]), (0x1FC3, [0x397, 0x399]), (0x1FC4, [0x389, 0x399]),
      (0x1FC6, [0x397, 0x342]), (0x1FC7, [0x397, 0x342, 0x399]), (0x1FCC, [0x397, 0x399]),
      (0x1FD0, [0x1FD8]), (0x1FD1, [0x1FD9]), (0x1FD2, [0x399, 0x308, 0x300]),
      (0x1FD3, [0x399, 0x308, 0x301]), (0x1FD6, [0x399, 0x342]),
      (0x1FD7, [0x399, 0x308, 0x342]), (0x1FE0, [0x1FE8]), (0x1FE1, [0x1FE9]),
      (0x1FE2, [0x3A5, 0x308, 0x300]), (0x1FE3, [0x3A5, 0x308, 0x301]),
      (0x1FE4, [0x3A1, 0x313]), (0x1FE5, [0x1FEC]), (0x1FE6, [0x3A5, 0x342]),
      (0x1FE7, [0x3A5, 0x308, 0x342]), (0x1FF2, [0x1FFA, 0x399]), (0x1FF3, [0x3A9, 0x399]),
      (0x1FF4, [0x38F, 0x399]), (0x1FF6, [0x3A9, 0x342]), (0x1FF7, [0x3A9, 0x342, 0x399]),
      (0x1FFC, [0x3A9, 0x399]), (0x214E, [0x2132]), (0x2170, [0x2160]), (0x2171, [0x2161]),
      (0x2172, [0x2162]), (0x2173, [0x2163]), (0x2174, [0x2164]), (0x2175, [0x2165]),
      (0x2176, [0x2166]), (0x2177, [0x2167]), (0x2178, [0x2168]), (0x2179, [0x2169]),
      (0x217A, [0x216A]), (0x217B, [0x216B]), (0x217C, [0x216C]), (0x217D, [0x216D]),
      (0x217E, [0x216E]), (0x217F, [0x216F]), (0x2184, [0x2183]), (0x24D0, [0x24B6]),
      (0x24D1, [0x24B7]), (0x24D2, [0x24B8]), (0x24D3, [0x24B9]), (0x24D4, [0x24BA]),
      (0x24D5, [0x24BB]), (0x24D6, [0x24BC]), (0x24D7, [0x24BD]), (0x24D8, [0x24BE]),
      (0x24D9, [0x24BF]), (0x24DA, [0x24C0]), (0x24DB, [0x24C1]), (0x24DC, [0x24C2]),
      (0x24DD, [0x24C3]), (0x24DE, [0x24C4]), (0x24DF, [0x24C5]), (0x24E0, [0x24C6]),
      (0x24E1, [0x24C7]), (0x24E2, [0x24C8]), (0x24E3, [0x24C9]), (0x24E4, [0x24CA]),
      (0x24E5, [0x24CB]), (0x24E6, [0x24CC]), (0x24E7, [0x24CD]), (0x24E8, [0x24CE]),
      (0x24E9, [0x24CF]), (0x2C30, [0x2C00]), (0x2C31, [0x2C01]), (0x2C32, [0x2C02]),
      (0x2C33, [0x2C03]), (0x2C34, [0x2C04]), (0x2C35, [0x2C05]), (0x2C36, [0x2C06]),
      (0x2C37, [0x2C07]), (0x2C38, [0x2C08]), (0x2C39, [0x2C09]), (0x2C3A, [0x2C0A]),
      (0x2C3B, [0x2C0B]), (0x2C3C, [0x2C0C]), (0x2C3D, [0x2C0D]), (0x2C3E, [0x2C0E]),
      (0x2C3F, [0x2C0F]), (0x2C40, [0x2C10]), (0x2C41, [0x2C11]), (0x2C42, [0x2C12]),
      (0x2C43, [0x2C13]), (0x2C44, [0x2C14]), (0x2C45, [0x2C15]), (0x2C46, [0x2C16]),
      (0x2C47, [0x2C17]), (0x2C48, [0x2C18]), (0x2C49, [0x2C19]), (0x2C4A, [0x2C1A]),
      (0x2C4B, [0x2C1B]), (0x2C4C, [0x2C1C]), (0x2C4D, [0x2C1D]), (0x2C4E, [0x2C1E]),
      (0x2C4F, [0x2C1F]), (0x2C50, [0x2C20]), (0x2C51, [0x2C21]), (0x2C52, [0x2C22]),
      (0x2C53, [0x2C23]), (0x2C54, [0x2C24]), (0x2C55, [0x2C25]), (0x2C56, [0x2C26]),
      (0x2C57, [0x2C27]), (0x2C58, [0x2C28]), (0x2C59, [0x2C29]), (0x2C5A, [0x2C2A]),
      (0x2C5B, [0x2C2B]), (0x2C5C, [0x2C2C]), (0x2C5D, [0x2C2D]), (0x2C5E, [0x2C2E]),
      (0x2C5F, [0x2C2F]), (0x2C61, [0x2C60]), (0x2C65, [0x23A]), (0x2C66, [0x23E]),
      (0x2C68, [0x2C67]), (0x2C6A, [0x2C69]), (0x2C6C, [0x2C6B]), (0x2C73, [0x2C72]),
      (0x2C76, [0x2C75]), (0x2C81, [0x2C80]), (0x2C83, [0x2C82]), (0x2C85, [0x2C84]),
      (0x2C87, [0x2C86]), (0x2C89, [0x2C88]), (0x2C8B, [0x2C8A]), (0x2C8D, [0x2C8C]),
      (0x2C8F, [0x2C8E]), (0x2C91, [0x2C90]), (0x2C93, [0x2C92])]"

definition upper_table_5 :: "(nat \<times> nat list) list" where
  "upper_table_5 =
     [(0x2C97, [0x2C96]), (0x2C99, [0x2C98]), (0x2C9B, [0x2C9A]), (0x2C9D, [0x2C9C]),
      (0x2C9F, [0x2C9E]), (0x2CA1, [0x2CA0]), (0x2CA3, [0x2CA2]), (0x2CA5, [0x2CA4]),
      (0x2CA7, [0x2CA6]), (0x2CA9, [0x2CA8]), (0x2CAB, [0x2CAA]), (0x2CAD, [0x2CAC]),
      (0x2CAF, [0x2CAE]), (0x2CB1, [0x2CB0]), (0x2CB3, [0x2CB2]), (0x2CB5, [0x2CB4]),
      (0x2CB7, [0x2CB6]), (0x2CB9, [0x2CB8]), (0x2CBB, [0x2CBA]), (0x2CBD, [0x2CBC]),
      (0x2CBF, [0x2CBE]), (0x2CC1, [0x2CC0]), (0x2CC3, [0x2CC2]), (0x2CC5, [0x2CC4]),
      (0x2CC7, [0x2CC6]), (0x2CC9, [0x2CC8]), (0x2CCB, [0x2CCA]), (0x2CCD, [0x2CCC]),
      (0x2CCF, [0x2CCE]), (0x2CD1, [0x2CD0]), (0x2CD3, [0x2CD2]), (0x2CD5, [0x2CD4]),
      (0x2CD7, [0x2CD6]), (0x2CD9, [0x2CD8]), (0x2CDB, [0x2CDA]), (0x2CDD, [0x2CDC]),
      (0x2CDF, [0x2CDE]), (0x2CE1, [0x2CE0]), (0x2CE3, [0x2CE2]), (0x2CEC, [0x2CEB]),
      (0x2CEE, [0x2CED]), (0x2CF3, [0x2CF2]), (0x2D00, [0x10A0]), (0x2D01, [0x10A1]),
      (0x2D02, [0x10A2]), (0x2D03, [0x10A3]), (0x2D04, [0x10A4]), (0x2D05, [0x10A5]),
      (0x2D06, [0x10A6]), (0x2D07, [0x10A7]), (0x2D08, [0x10A8]), (0x2D09, [0x10A9]),
      (0x2D0A, [0x10AA]), (0x2D0B, [0x10AB]), (0x2D0C, [0x10AC]), (0x2D0D, [0x10AD]),
      (0x2D0E, [0x10AE]), (0x2D0F, [0x10AF]), (0x2D10, [0x10B0]), (0x2D11, [0x10B1]),
      (0x2D12, [0x10B2]), (0x2D13, [0x10B3]), (0x2D14, [0x10B4]), (0x2D15, [0x10B5]),
      (0x2D16, [0x10B6]), (0x2D17, [0x10B7]), (0x2D18, [0x10B8]), (0x2D19, [0x10B9]),
      (0x2D1A, [0x10BA]), (0x2D1B, [0x10BB]), (0x2D1C, [0x10BC]), (0x2D1D, [0x10BD]),
      (0x2D1E, [0x10BE]), (0x2D1F, [0x10BF]), (0x2D20, [0x10C0]), (0x2D21, [0x10C1]),
      (0x2D22, [0x10C2]), (0x2D23, [0x10C3]), (0x2D24, [0x10C4]), (0x2D25, [0x10C5]),
      (0x2D27, [0x10C7]), (0x2D2D, [0x10CD]), (0xA641, [0xA640]), (0xA643, [0xA642]),
      (0xA645, [0xA644]), (0xA647, [0xA646]), (0xA649, [0xA648]), (0xA64B, [0xA64A]),
      (0xA64D, [0xA64C]), (0xA64F, [0xA64E]), (0xA651, [0xA650]), (0xA653, [0xA652]),
      (0xA655, [0xA654]), (0xA657, [0xA656]), (0xA659, [0xA658]), (0xA65B, [0xA65A]),
      (0xA65D, [0xA65C]), (0xA65F, [0xA65E]), (0xA661, [0xA660]), (0xA663, [0xA662]),
      (0xA665, [0xA664]), (0xA667, [0xA666]), (0xA669, [0xA668]), (0xA66B, [0xA66A]),
      (0xA66D, [0xA66C]), (0xA681, [0xA680]), (0xA683, [0xA682]), (0xA685, [0xA684]),
      (0xA687, [0xA686]), (0xA689, [0xA688]), (0xA68B, [0xA68A]), (0xA68D, [0xA68C]),
      (0xA68F, [0xA68E]), (0xA691, [0xA690]), (0xA693, [0xA692]), (0xA695, [0xA694]),
      (0xA697, [0xA696]), (0xA699, [0xA698]), (0xA69B, [0xA69A]), (0xA723, [0xA722]),
      (0xA725, [0xA724]), (0xA727, [0xA726]), (0xA729, [0xA728]), (0xA72B, [0xA72A]),
      (0xA72D, [0xA72C]), (0xA72F, [0xA72E]), (0xA733, [0xA732]), (0xA735, [0xA734]),
      (0xA737, [0xA736]), (0xA739, [0xA738]), (0xA73B, [0xA73A]), (0xA73D, [0xA73C]),
      (0xA73F, [0xA73E]), (0xA741, [0xA740]), (0xA743, [0xA742]), (0xA745, [0xA744]),
      (0xA747, [0xA746]), (0xA749, [0xA748]), (0xA74B, [0xA74A]), (0xA74D, [0xA74C]),
      (0xA74F, [0xA74E]), (0xA751, [0xA750]), (0xA753, [0xA752]), (0xA755, [0xA754]),
      (0xA757, [0xA756]), (0xA759, [0xA758]), (0xA75B, [0xA75A]), (0xA75D, [0xA75C]),
      (0xA75F, [0xA75E]), (0xA761, [0xA760]), (0xA763, [0xA762]), (0xA765, [0xA764]),
      (0xA767, [0xA766]), (0xA769, [0xA768]), (0xA76B, [0xA76A]), (0xA76D, [0xA76C]),
      (0xA76F, [0xA76E]), (0xA77A, [0xA779]), (0xA77C, [0xA77B]), (0xA77F, [0xA77E]),
      (0xA781, [0xA780]), (0xA783, [0xA782]), (0xA785, [0xA784]), (0xA787, [0xA786]),
      (0xA78C, [0xA78B]), (0xA791, [0xA790]), (0xA793, [0xA792]), (0xA794, [0xA7C4]),
      (0xA797, [0xA796]), (0xA799, [0xA798]), (0xA79B, [0xA79A]), (0xA79D, [0xA79C]),
      (0xA79F, [0xA79E]), (0xA7A1, [0xA7A0]), (0xA7A3, [0xA7A2]), (0xA7A5, [0xA7A4]),
      (0xA7A7, [0xA7A6]), (0xA7A9, [0xA7A8]), (0xA7B5, [0xA7B4]), (0xA7B7, [0xA7B6]),
      (0xA7B9, [0xA7B8]), (0xA7BB, [0xA7BA]), (0xA7BD, [0xA7BC]), (0xA7BF, [0xA7BE]),
      (0xA7C1, [0xA7C0]), (0xA7C3, [0xA7C2]), (0xA7C8, [0xA7C7]), (0xA7CA, [0xA7C9]),
      (0xA7D1, [0xA7D0]), (0xA7D7, [0xA7D6])]"

definition upper_table_6 :: "(nat \<times> nat list) list" where
  "upper_table_6 =
     [(0xA7F6, [0xA7F5]), (0xAB53, [0xA7B3]), (0xAB70, [0x13A0]), (0xAB71, [0x13A1]),
      (0xAB72, [0x13A2]), (0xAB73, [0x13A3]), (0xAB74, [0x13A4]), (0xAB75, [0x13A5]),
      (0xAB76, [0x13A6]), (0xAB77, [0x13A7]), (0xAB78, [0x13A8]), (0xAB79, [0x13A9]),
      (0xAB7A, [0x13AA]), (0xAB7B, [0x13AB]), (0xAB7C, [0x13AC]), (0xAB7D, [0x13AD]),
      (0xAB7E, [0x13AE]), (0xAB7F, [0x13AF]), (0xAB80, [0x13B0]), (0xAB81, [0x13B1]),
      (0xAB82, [0x13B2]), (0xAB83, [0x13B3]), (0xAB84, [0x13B4]), (0xAB85, [0x13B5]),
      (0xAB86, [0x13B6]), (0xAB87, [0x13B7]), (0xAB88, [0x13B8]), (0xAB89, [0x13B9]),
      (0xAB8A, [0x13BA]), (0xAB8B, [0x13BB]), (0xAB8C, [0x13BC]), (0xAB8D, [0x13BD]),
      (0xAB8E, [0x13BE]), (0xAB8F, [0x13BF]), (0xAB90, [0x13C0]), (0xAB91, [0x13C1]),
      (0xAB92, [0x13C2]), (0xAB93, [0x13C3]), (0xAB94, [0x13C4]), (0xAB95, [0x13C5]),
      (0xAB96, [0x13C6]), (0xAB97, [0x13C7]), (0xAB98, [0x13C8]), (0xAB99, [0x13C9]),
      (0xAB9A, [0x13CA]), (0xAB9B, [0x13CB]), (0xAB9C, [0x13CC]), (0xAB9D, [0x13CD]),
      (0xAB9E, [0x13CE]), (0xAB9F, [0x13CF]), (0xABA0, [0x13D0]), (0xABA1, [0x13D1]),
      (0xABA2, [0x13D2]), (0xABA3, [0x13D3]), (0xABA4, [0x13D4]), (0xABA5, [0x13D5]),
      (0xABA6, [0x13D6]), (0xABA7, [0x13D7]), (0xABA8, [0x13D8]), (0xABA9, [0x13D9]),
      (0xABAA, [0x13DA]), (0xABAB, [0x13DB]), (0xABAC, [0x13DC]), (0xABAD, [0x13DD]),
      (0xABAE, [0x13DE]), (0xABAF, [0x13DF]), (0xABB0, [0x13E0]), (0xABB1, [0x13E1]),
      (0xABB2, [0x13E2]), (0xABB3, [0x13E3]), (0xABB4, [0x13E4]), (0xABB5, [0x13E5]),
      (0xABB6, [0x13E6]), (0xABB7, [0x13E7]), (0xABB8, [0x13E8]), (0xABB9, [0x13E9]),
      (0xABBA, [0x13EA]), (0xABBB, [0x13EB]), (0xABBC, [0x13EC]), (0xABBD, [0x13ED]),
      (0xABBE, [0x13EE]), (0xABBF, [0x13EF]), (0xFB00, [0x46, 0x46]), (0xFB01, [0x46, 0x49]),
      (0xFB02, [0x46, 0x4C]), (0xFB03, [0x46, 0x46, 0x49]), (0xFB04, [0x46, 0x46, 0x4C]),
      (0xFB05, [0x53, 0x54]), (0xFB06, [0x53, 0x54]), (0xFB13, [0x544, 0x546]),
      (0xFB14, [0x544, 0x535]), (0xFB15, [0x544, 0x53B]), (0xFB16, [0x54E, 0x546]),
      (0xFB17, [0x544, 0x53D]), (0xFF41, [0xFF21]), (0xFF42, [0xFF22]), (0xFF43, [0xFF23]),
      (0xFF44, [0xFF24]), (0xFF45, [0xFF25]), (0xFF46, [0xFF26]), (0xFF47, [0xFF27]),
      (0xFF48, [0xFF28]), (0xFF49, [0xFF29]), (0xFF4A, [0xFF2A]), (0xFF4B, [0xFF2B]),
      (0xFF4C, [0xFF2C]), (0xFF4D, [0xFF2D]), (0xFF4E, [0xFF2E]), (0xFF4F, [0xFF2F]),
      (0xFF50, [0xFF30]), (0xFF51, [0xFF31]), (0xFF52, [0xFF32]), (0xFF53, [0xFF33]),
      (0xFF54, [0xFF34]), (0xFF55, [0xFF35]), (0xFF56, [0xFF36]), (0xFF57, [0xFF37]),
      (0xFF58, [0xFF38]), (0xFF59, [0xFF39]), (0xFF5A, [0xFF3A]), (0x10428, [0x10400]),
      (0x10429, [0x10401]), (0x1042A, [0x10402]), (0x1042B, [0x10403]), (0x1042C, [0x10404]),
      (0x1042D, [0x10405]), (0x1042E, [0x10406]), (0x1042F, [0x10407]), (0x10430, [0x10408]),
      (0x10431, [0x10409]), (0x10432, [0x1040A]), (0x10433, [0x1040B]), (0x10434, [0x1040C]),
      (0x10435, [0x1040D]), (0x10436, [0x1040E]), (0x10437, [0x1040F]), (0x10438, [0x10410]),
      (0x10439, [0x10411]), (0x1043A, [0x10412]), (0x1043B, [0x10413]), (0x1043C, [0x10414]),
      (0x1043D, [0x10415]), (0x1043E, [0x10416]), (0x1043F, [0x10417]), (0x10440, [0x10418]),
      (0x10441, [0x10419]), (0x10442, [0x1041A]), (0x10443, [0x1041B]), (0x10444, [0x1041C]),
      (0x10445, [0x1041D]), (0x10446, [0x1041E]), (0x10447, [0x1041F]), (0x10448, [0x10420]),
      (0x10449, [0x10421]), (0x1044A, [0x10422]), (0x1044B, [0x10423]), (0x1044C, [0x10424]),
      (0x1044D, [0x10425]), (0x1044E, [0x10426]), (0x1044F, [0x10427]), (0x104D8, [0x104B0]),
      (0x104D9, [0x104B1]), (0x104DA, [0x104B2]), (0x104DB, [0x104B3]), (0x104DC, [0x104B4]),
      (0x104DD, [0x104B5]), (0x104DE, [0x104B6]), (0x104DF, [0x104B7]), (0x104E0, [0x104B8]),
      (0x104E1, [0x104B9]), (0x104E2, [0x104BA]), (0x104E3, [0x104BB]), (0x104E4, [0x104BC]),
      (0x104E5, [0x104BD]), (0x104E6, [0x104BE]), (0x104E7, [0x104BF]), (0x104E8, [0x104C0]),
      (0x104E9, [0x104C1]), (0x104EA, [0x104C2]), (0x104EB, [0x104C3]), (0x104EC, [0x104C4]),
      (0x104ED, [0x104C5]), (0x104EE, [0x104C6]), (0x104EF, [0x104C7]), (0x104F0, [0x104C8]),
      (0x104F1, [0x104C9]), (0x104F2, [0x104CA]), (0x104F3, [0x104CB]), (0x104F4, [0x104CC]),
      (0x104F5, [0x104CD])]"

definition upper_table_7 :: "(nat \<times> nat list) list" where
  "upper_table_7 =
     [(0x104F7, [0x104CF]), (0x104F8, [0x104D0]), (0x104F9, [0x104D1]), (0x104FA, [0x104D2]),
      (0x104FB, [0x104D3]), (0x10597, [0x10570]), (0x10598, [0x10571]), (0x10599, [0x10572]),
      (0x1059A, [0x10573]), (0x1059B, [0x10574]), (0x1059C, [0x10575]), (0x1059D, [0x10576]),
      (0x1059E, [0x10577]), (0x1059F, [0x10578]), (0x105A0, [0x10579]), (0x105A1, [0x1057A]),
      (0x105A3, [0x1057C]), (0x105A4, [0x1057D]), (0x105A5, [0x1057E]), (0x105A6, [0x1057F]),
      (0x105A7, [0x10580]), (0x105A8, [0x10581]), (0x105A9, [0x10582]), (0x105AA, [0x10583]),
      (0x105AB, [0x10584]), (0x105AC, [0x10585]), (0x105AD, [0x10586]), (0x105AE, [0x10587]),
      (0x105AF, [0x10588]), (0x105B0, [0x10589]), (0x105B1, [0x1058A]), (0x105B3, [0x1058C]),
      (0x105B4, [0x1058D]), (0x105B5, [0x1058E]), (0x105B6, [0x1058F]), (0x105B7, [0x10590]),
      (0x105B8, [0x10591]), (0x105B9, [0x10592]), (0x105BB, [0x10594]), (0x105BC, [0x10595]),
      (0x10CC0, [0x10C80]), (0x10CC1, [0x10C81]), (0x10CC2, [0x10C82]), (0x10CC3, [0x10C83]),
      (0x10CC4, [0x10C84]), (0x10CC5, [0x10C85]), (0x10CC6, [0x10C86]), (0x10CC7, [0x10C87]),
      (0x10CC8, [0x10C88]), (0x10CC9, [0x10C89]), (0x10CCA, [0x10C8A]), (0x10CCB, [0x10C8B]),
      (0x10CCC, [0x10C8C]), (0x10CCD, [0x10C8D]), (0x10CCE, [0x10C8E]), (0x10CCF, [0x10C8F]),
      (0x10CD0, [0x10C90]), (0x10CD1, [0x10C91]), (0x10CD2, [0x10C92]), (0x10CD3, [0x10C93]),
      (0x10CD4, [0x10C94]), (0x10CD5, [0x10C95]), (0x10CD6, [0x10C96]), (0x10CD7, [0x10C97]),
      (0x10CD8, [0x10C98]), (0x10CD9, [0x10C99]), (0x10CDA, [0x10C9A]), (0x10CDB, [0x10C9B]),
      (0x10CDC, [0x10C9C]), (0x10CDD, [0x10C9D]), (0x10CDE, [0x10C9E]), (0x10CDF, [0x10C9F]),
      (0x10CE0, [0x10CA0]), (0x10CE1, [0x10CA1]), (0x10CE2, [0x10CA2]), (0x10CE3, [0x10CA3]),
      (0x10CE4, [0x10CA4]), (0x10CE5, [0x10CA5]), (0x10CE6, [0x10CA6]), (0x10CE7, [0x10CA7]),
      (0x10CE8, [0x10CA8]), (0x10CE9, [0x10CA9]), (0x10CEA, [0x10CAA]), (0x10CEB, [0x10CAB]),
      (0x10CEC, [0x10CAC]), (0x10CED, [0x10CAD]), (0x10CEE, [0x10CAE]), (0x10CEF, [0x10CAF]),
      (0x10CF0, [0x10CB0]), (0x10CF1, [0x10CB1]), (0x10CF2, [0x10CB2]), (0x118C0, [0x118A0]),
      (0x118C1, [0x118A1]), (0x118C2, [0x118A2]), (0x118C3, [0x118A3]), (0x118C4, [0x118A4]),
      (0x118C5, [0x118A5]), (0x118C6, [0x118A6]), (0x118C7, [0x118A7]), (0x118C8, [0x118A8]),
      (0x118C9, [0x118A9]), (0x118CA, [0x118AA]), (0x118CB, [0x118AB]), (0x118CC, [0x118AC]),
      (0x118CD, [0x118AD]), (0x118CE, [0x118AE]), (0x118CF, [0x118AF]), (0x118D0, [0x118B0]),
      (0x118D1, [0x118B1]), (0x118D2, [0x118B2]), (0x118D3, [0x118B3]), (0x118D4, [0x118B4]),
      (0x118D5, [0x118B5]), (0x118D6, [0x118B6]), (0x118D7, [0x118B7]), (0x118D8, [0x118B8]),
      (0x118D9, [0x118B9]), (0x118DA, [0x118BA]), (0x118DB, [0x118BB]), (0x118DC, [0x118BC]),
      (0x118DD, [0x118BD]), (0x118DE, [0x118BE]), (0x118DF, [0x118BF]), (0x16E60, [0x16E40]),
      (0x16E61, [0x16E41]), (0x16E62, [0x16E42]), (0x16E63, [0x16E43]), (0x16E64, [0x16E44]),
      (0x16E65, [0x16E45]), (0x16E66, [0x16E46]), (0x16E67, [0x16E47]), (0x16E68, [0x16E48]),
      (0x16E69, [0x16E49]), (0x16E6A, [0x16E4A]), (0x16E6B, [0x16E4B]), (0x16E6C, [0x16E4C]),
      (0x16E6D, [0x16E4D]), (0x16E6E, [0x16E4E]), (0x16E6F, [0x16E4F]), (0x16E70, [0x16E50]),
      (0x16E71, [0x16E51]), (0x16E72, [0x16E52]), (0x16E73, [0x16E53]), (0x16E74, [0x16E54]),
      (0x16E75, [0x16E55]), (0x16E76, [0x16E56]), (0x16E77, [0x16E57]), (0x16E78, [0x16E58]),
      (0x16E79, [0x16E59]), (0x16E7A, [0x16E5A]), (0x16E7B, [0x16E5B]), (0x16E7C, [0x16E5C]),
      (0x16E7D, [0x16E5D]), (0x16E7E, [0x16E5E]), (0x16E7F, [0x16E5F]), (0x1E922, [0x1E900]),
      (0x1E923, [0x1E901]), (0x1E924, [0x1E902]), (0x1E925, [0x1E903]), (0x1E926, [0x1E904]),
      (0x1E927, [0x1E905]), (0x1E928, [0x1E906]), (0x1E929, [0x1E907]), (0x1E92A, [0x1E908]),
      (0x1E92B, [0x1E909]), (0x1E92C, [0x1E90A]), (0x1E92D, [0x1E90B]), (0x1E92E, [0x1E90C]),
      (0x1E92F, [0x1E90D]), (0x1E930, [0x1E90E]), (0x1E931, [0x1E90F]), (0x1E932, [0x1E910]),
      (0x1E933, [0x1E911]), (0x1E934, [0x1E912]), (0x1E935, [0x1E913]), (0x1E936, [0x1E914]),
      (0x1E937, [0x1E915]), (0x1E938, [0x1E916]), (0x1E939, [0x1E917]), (0x1E93A, [0x1E918]),
      (0x1E93B, [0x1E919]), (0x1E93C, [0x1E91A]), (0x1E93D, [0x1E91B]), (0x1E93E, [0x1E91C]),
      (0x1E93F, [0x1E91D]), (0x1E940, [0x1E91E]), (0x1E941, [0x1E91F]), (0x1E942, [0x1E920]),
      (0x1E943, [0x1E921])]"

definition upper_table :: "(nat \<times> nat list) list" where
  "upper_table =
     upper_table_0 @ [(0x21D, [0x21C])] @ upper_table_1 @ [(0x48F, [0x48E])] @ upper_table_2
     @ [(0x1E0F, [0x1E0E])] @ upper_table_3 @ [(0x1F82, [0x1F0A, 0x399])] @ upper_table_4 @
     [(0x2C95, [0x2C94])] @ upper_table_5 @ [(0xA7D9, [0xA7D8])] @ upper_table_6 @ [(0x104F6,
     [0x104CE])] @ upper_table_7"

definition upper_char :: "nat \<Rightarrow> nat list" where
  "upper_char c = (case map_of upper_table c of None \<Rightarrow> [c] | Some u \<Rightarrow> u)"

definition upper :: "ustring \<Rightarrow> ustring" where
  "upper s = concat (map upper_char s)"

text \<open>\<open>str.strip()\<close>: leading and trailing white space removed.\<close>

definition strip :: "ustring \<Rightarrow> ustring" where
  "strip s = rev (dropWhile is_space (rev (dropWhile is_space s)))"

section \<open>Normalizer (sort\_artic\_2.py)\<close>

text \<open>
  The character class \<open>[-/\s]\<close> of \<open>clean_art\<close>, and
  \<open>re.sub(r'[-/\s]+$', '', art)\<close>: the longest run of such characters at the end of
  the string is removed.
\<close>

definition is_trailing :: "nat \<Rightarrow> bool" where
  "is_trailing c \<longleftrightarrow> c = 0x2D \<or> c = 0x2F \<or> is_space c"

definition sub_trailing :: "ustring \<Rightarrow> ustring" where
  "sub_trailing art = rev (dropWhile is_trailing (rev art))"

text \<open>\<open>s.replace(' ', '')\<close> removes U+0020 only.\<close>

definition clean_art :: "ustring \<Rightarrow> ustring" where
  "clean_art art = upper (filter (\<lambda>c. c \<noteq> 0x20) (sub_trailing art))"

definition is_valid_art :: "ustring \<Rightarrow> bool" where
  "is_valid_art art \<longleftrightarrow> 4 \<le> length art \<and> 0x20 \<notin> set art"

section \<open>Prefix clusterer (end\_4.py)\<close>

definition MIN_PREFIX_LENGTH :: nat where
  "MIN_PREFIX_LENGTH = 6"

text \<open>
  \<open>[str(v) for v in vtrac_values if pd.notna(v)]\<close>: the values that are present, in
  order.
\<close>

definition str_values :: "cell list \<Rightarrow> ustring list" where
  "str_values vtrac_values = map the (filter (\<lambda>v. v \<noteq> None) vtrac_values)"

text \<open>
  \<open>prefix_groups[prefix].append(s)\<close> on a \<open>defaultdict(list)\<close>. A Python dictionary
  keeps its keys in insertion order, so it is an association list with distinct keys:
  a known key keeps its place, a new key goes to the end.
\<close>

fun groups_append :: "ustring \<Rightarrow> ustring \<Rightarrow> (ustring \<times> ustring list) list \<Rightarrow> (ustring \<times> ustring list) list" where
  "groups_append k s [] = [(k, [s])]"
| "groups_append k s ((k', g) # rest) =
     (if k' = k then (k', g @ [s]) # rest else (k', g) # groups_append k s rest)"

definition prefix_groups :: "nat \<Rightarrow> ustring list \<Rightarrow> (ustring \<times> ustring list) list" where
  "prefix_groups prefix_length strs =
     foldl (\<lambda>groups s. if prefix_length \<le> length s
                         then groups_append (take prefix_length s) s groups else groups)
       [] strs"

text \<open>
  \<open>max(prefix_groups.values(), key=len, default=[])\<close>: the first of the longest values
  in iteration order, and \<open>[]\<close> when there is none.
\<close>

fun max_len :: "'a list list \<Rightarrow> 'a list" where
  "max_len [] = []"
| "max_len (g # gs) = foldl (\<lambda>best x. if length best < length x then x else best) g gs"

fun prefix_loop :: "nat list \<Rightarrow> ustring list \<Rightarrow> ustring option" where
  "prefix_loop [] strs = None"
| "prefix_loop (prefix_length # ns) strs =
     (let largest_group = max_len (map snd (prefix_groups prefix_length strs))
      in if 1 < length largest_group then Some (take prefix_length (hd largest_group))
         else prefix_loop ns strs)"

text \<open>\<open>range(max_prefix_length, min_prefix_length - 1, -1)\<close> with \<open>max_prefix_length = 8\<close>.\<close>

definition prefix_lengths :: "nat list" where
  "prefix_lengths = rev [MIN_PREFIX_LENGTH ..< Suc 8]"

definition find_common_vtrac :: "cell list \<Rightarrow> ustring option" where
  "find_common_vtrac vtrac_values =
     (if vtrac_values = [] \<or> list_all (\<lambda>v. v = None) vtrac_values then None
      else if length (str_values vtrac_values) < 2
        then (case str_values vtrac_values of [] \<Rightarrow> None | v # _ \<Rightarrow> Some v)
        else prefix_loop prefix_lengths (str_values vtrac_values))"

section \<open>Catalog index and matcher (search\_3.py)\<close>

text \<open>
  A row of the catalog sheet: the three columns of \<open>Config.CATALOG_COLS\<close> (part
  number, analog part number, \<open>VTRAC\<close>), read with \<open>dtype=str\<close>, so each cell is a
  string or missing.
\<close>

record catalog_row =
  row_article :: cell
  row_analog :: cell
  row_vtrac :: cell

text \<open>
  The two dictionaries of \<open>VTRACFinder\<close>. A Python dictionary iterates in insertion
  order and an assignment to a known key keeps the key's place, which is what
  \<open>AList.update\<close> does on an association list.
\<close>

record catalog =
  article_dict :: "(ustring \<times> ustring) list"
  analog_dict :: "(ustring \<times> ustring) list"

text \<open>\<open>str(x).strip() if not pd.isna(x) else ""\<close>\<close>

definition cell_strip :: "cell \<Rightarrow> ustring" where
  "cell_strip x = (case x of None \<Rightarrow> [] | Some s \<Rightarrow> strip s)"

text \<open>\<open>x and x not in ('', 'nan')\<close>\<close>

definition usable :: "ustring \<Rightarrow> bool" where
  "usable x \<longleftrightarrow> x \<noteq> [] \<and> x \<notin> set [[], ustr ''nan'']"

definition load_row :: "catalog \<Rightarrow> catalog_row \<Rightarrow> catalog" where
  "load_row c row =
     (let key_article = cell_strip (row_article row);
          vtrac = cell_strip (row_vtrac row);
          c1 = (if usable key_article \<and> usable vtrac
                then c\<lparr>article_dict := AList.update key_article vtrac (article_dict c)\<rparr>
                else c);
          key_analog = cell_strip (row_analog row)
      in if usable key_analog \<and> usable vtrac
         then c1\<lparr>analog_dict := AList.update key_analog vtrac (analog_dict c1)\<rparr>
         else c1)"

definition load_catalog :: "catalog_row list \<Rightarrow> catalog" where
  "load_catalog rows = foldl load_row \<lparr>article_dict = [], analog_dict = []\<rparr> rows"

text \<open>\<open>s.startswith(a)\<close>\<close>

definition startswith :: "ustring \<Rightarrow> ustring \<Rightarrow> bool" where
  "startswith s a \<longleftrightarrow> take (length a) s = a"

text \<open>
  One of the two prefix loops of \<open>find_vtrac\<close> over \<open>d.items()\<close>, with the list
  \<open>found_vtracs\<close> passed through.
\<close>

definition prefix_scan :: "ustring \<Rightarrow> (ustring \<times> ustring) list \<Rightarrow> ustring list \<Rightarrow> ustring list" where
  "prefix_scan article d found_vtracs =
     foldl (\<lambda>found (catalog_key, vtrac).
              if catalog_key = [] \<or> vtrac = [] then found
              else if startswith (strip catalog_key) article \<and> strip vtrac \<notin> set found \<and>
                      strip vtrac \<noteq> []
                   then found @ [strip vtrac] else found)
       found_vtracs d"

text \<open>
  Step 1 of \<open>find_vtrac\<close>, the exact lookups: \<open>self.article_dict.get(article)\<close>
  first, then \<open>self.analog_dict.get(article)\<close>, whose value is appended unless it is
  already there.
\<close>

definition exact_matches :: "catalog \<Rightarrow> ustring \<Rightarrow> ustring list" where
  "exact_matches c article =
     (let found1 = (case map_of (article_dict c) article of
                      Some v \<Rightarrow> if v \<noteq> [] \<and> strip v \<noteq> [] then [v] else []
                    | None \<Rightarrow> [])
      in case map_of (analog_dict c) article of
           Some v \<Rightarrow> if v \<noteq> [] \<and> strip v \<noteq> [] \<and> v \<notin> set found1
                      then found1 @ [v] else found1
         | None \<Rightarrow> found1)"

definition find_vtrac :: "catalog \<Rightarrow> ustring \<Rightarrow> ustring list" where
  "find_vtrac c article0 =
     (if article0 = [] \<or> strip article0 = [] then []
      else
        let article = strip article0;
            found2 = exact_matches c article;
            found3 = prefix_scan article (article_dict c) found2
        in prefix_scan article (analog_dict c) found3)"

text \<open>
  \<open>VTRACFinder.process_row\<close>. The row is given by its cells in the six columns of
  \<open>Config.ADDITIONAL_ARTICLE_COLS\<close>, in that order; a cell that is missing or not a
  string is \<open>None\<close>.
\<close>

definition VTRACFinder_process_row :: "catalog \<Rightarrow> cell list \<Rightarrow> ustring list" where
  "VTRACFinder_process_row c row =
     foldl (\<lambda>found_vtracs article.
              case article of
                None \<Rightarrow> found_vtracs
              | Some a \<Rightarrow>
                  if strip a = [] then found_vtracs
                  else foldl (\<lambda>found vtrac. if vtrac \<noteq> [] \<and> vtrac \<notin> set found
                                              then found @ [vtrac] else found)
                         found_vtracs (find_vtrac c (strip a)))
       [] row"

section \<open>Identifier propagation, task 1 (end\_4.py)\<close>

text \<open>
  A row of the table of \<open>VtracProcessor\<close>: its cells in the five columns of
  \<open>CONFIG["ARTICUL_COLS"]\<close> and in the five columns of \<open>CONFIG["VTRAC_COLS"]\<close>, in
  that order. The table has the default index, so a row label is the row's position.
\<close>

record table_row =
  articul_cols :: "cell list"
  vtrac_cols :: "cell list"

type_synonym dataframe = "table_row list"

text \<open>\<open>self.df.loc[idx, CONFIG["VTRAC_COLS"]].notna().any()\<close>\<close>

definition notna_any :: "cell list \<Rightarrow> bool" where
  "notna_any cells \<longleftrightarrow> list_ex (\<lambda>v. v \<noteq> None) cells"

text \<open>
  A Python \<open>set\<close> of strings is a list without duplicates. Python does not fix the
  order in which \<open>list(found_vtracs)\<close> enumerates a set; the model enumerates in the
  order of insertion. \<open>found_vtracs.update(xs)\<close> adds the elements of \<open>xs\<close>.
\<close>

definition set_update :: "ustring list \<Rightarrow> ustring list \<Rightarrow> ustring list" where
  "set_update s xs = foldl (\<lambda>s x. if x \<in> set s then s else s @ [x]) s xs"

definition current_articuls :: "table_row \<Rightarrow> ustring list" where
  "current_articuls row = remdups (str_values (articul_cols row))"

text \<open>
  The loop over \<open>current_articuls\<close>; \<open>articul_to_vtrac\<close> is the dictionary built by
  \<open>prepare_articul_mapping\<close>, from a part number to a set of identifiers.
\<close>

definition found_vtracs :: "(ustring \<times> ustring list) list \<Rightarrow> ustring list \<Rightarrow> ustring list" where
  "found_vtracs articul_to_vtrac arts =
     foldl (\<lambda>found art. case map_of articul_to_vtrac art of
                            Some vs \<Rightarrow> set_update found vs
                          | None \<Rightarrow> found)
       [] arts"

text \<open>
  \<open>process_vtrac_matching\<close>: the loop runs over \<open>range(start_idx, end_idx)\<close> and
  breaks at the first index that is not below \<open>len(self.df)\<close>.
\<close>

definition process_vtrac_matching ::
  "dataframe \<Rightarrow> (ustring \<times> ustring list) list \<Rightarrow> nat \<Rightarrow> nat \<Rightarrow> (nat \<times> ustring list) list" where
  "process_vtrac_matching df articul_to_vtrac start_idx end_idx =
     foldl (\<lambda>results idx.
              if notna_any (vtrac_cols (df ! idx)) then results
              else let found = found_vtracs articul_to_vtrac (current_articuls (df ! idx))
                   in if found \<noteq> [] then AList.update idx found results else results)
       [] [start_idx ..< min end_idx (length df)]"

text \<open>
  The inner loop of \<open>apply_vtrac_matches\<close>:
  \<open>for i, vtrac in enumerate(vtracs[:len(CONFIG["VTRAC_COLS"])])\<close> writes \<open>vtrac\<close> to
  the \<open>i\<close>-th identifier column of the row.
\<close>

definition set_vtracs :: "table_row \<Rightarrow> ustring list \<Rightarrow> table_row" where
  "set_vtracs row vtracs =
     foldl (\<lambda>r (i, vtrac). r\<lparr>vtrac_cols := (vtrac_cols r)[i := Some vtrac]\<rparr>)
       row (enumerate 0 (take 5 vtracs))"

text \<open>
  \<open>apply_vtrac_matches\<close>. \<open>process_vtrac_matching\<close> returns only indices below
  \<open>len(self.df)\<close>, for which \<open>self.df.at[idx, col] = vtrac\<close> overwrites a cell of an
  existing row; an index that is not a row label does not arise there, and the model
  leaves the table as it is for it.
\<close>

definition apply_vtrac_matches :: "dataframe \<Rightarrow> (nat \<times> ustring list) list \<Rightarrow> dataframe" where
  "apply_vtrac_matches df matches =
     foldl (\<lambda>d (idx, vtracs). if idx < length d then d[idx := set_vtracs (d ! idx) vtracs] else d)
       df matches"

text \<open>
  Task 1 over a list of row ranges, one range after the other: each range is matched on
  the table as the ranges before it have left it, and its matches are applied. (The
  threads of \<open>run_parallel_processing\<close> are not modelled; the ranges may come in any
  order.)
\<close>

definition run_task1 :: "dataframe \<Rightarrow> (ustring \<times> ustring list) list \<Rightarrow> (nat \<times> nat) list \<Rightarrow> dataframe" where
  "run_task1 df articul_to_vtrac ranges =
     foldl (\<lambda>d (start_idx, end_idx).
              apply_vtrac_matches d (process_vtrac_matching d articul_to_vtrac start_idx end_idx))
       df ranges"

section \<open>Variant generator (sort\_artic\_2.py)\<close>

text \<open>
  \<open>re.split\<close> on a class of single characters, and \<open>s.split(sep)\<close> for a separator
  of one character: the pieces between the separators; the result is never empty.
\<close>

fun split_where :: "(nat \<Rightarrow> bool) \<Rightarrow> ustring \<Rightarrow> ustring list" where
  "split_where P [] = [[]]"
| "split_where P (c # cs) =
     (if P c then [] # split_where P cs
      else (case split_where P cs of [] \<Rightarrow> [[c]] | p # ps \<Rightarrow> (c # p) # ps))"

definition split_on :: "nat \<Rightarrow> ustring \<Rightarrow> ustring list" where
  "split_on sep s = split_where (\<lambda>c. c = sep) s"

text \<open>\<open>s.split(sep, maxsplit)\<close>: at most \<open>maxsplit\<close> splits, from the left.\<close>

fun split_max :: "nat \<Rightarrow> nat \<Rightarrow> ustring \<Rightarrow> ustring list" where
  "split_max sep 0 s = [s]"
| "split_max sep (Suc n) [] = [[]]"
| "split_max sep (Suc n) (c # cs) =
     (if c = sep then [] # split_max sep n cs
      else (case split_max sep (Suc n) cs of [] \<Rightarrow> [[c]] | p # ps \<Rightarrow> (c # p) # ps))"

text \<open>\<open>s.rsplit(sep, 1)\<close>: one split, at the last separator.\<close>

definition rsplit1 :: "nat \<Rightarrow> ustring \<Rightarrow> ustring list" where
  "rsplit1 sep s = map rev (rev (split_max sep 1 (rev s)))"

text \<open>
  \<open>parts[0]\<close> for the result of a split, which always has a first element (the
  \<open>IndexError\<close> of an empty list cannot arise there).
\<close>

definition item0 :: "ustring list \<Rightarrow> ustring" where
  "item0 parts = (case parts of [] \<Rightarrow> [] | p # _ \<Rightarrow> p)"

text \<open>\<open>sep.join(parts)\<close> and \<open>s.replace(old, new)\<close> for a character \<open>old\<close>.\<close>

fun join :: "nat \<Rightarrow> ustring list \<Rightarrow> ustring" where
  "join sep [] = []"
| "join sep [p] = p"
| "join sep (p # q # ps) = p @ sep # join sep (q # ps)"

definition replace_char :: "nat \<Rightarrow> ustring \<Rightarrow> ustring \<Rightarrow> ustring" where
  "replace_char old new s = concat (map (\<lambda>c. if c = old then new else [c]) s)"

text \<open>
  \<open>variants.add(x)\<close> on a Python \<open>set\<close>, kept as a list without duplicates in the
  order of insertion (Python does not fix the order of \<open>list(valid_variants)\<close>).
\<close>

definition set_add :: "ustring \<Rightarrow> ustring list \<Rightarrow> ustring list" where
  "set_add x s = (if x \<in> set s then s else s @ [x])"

text \<open>The block of \<open>process_articul\<close> under \<open>if '-' in articul\<close>.\<close>

definition hyphen_variants :: "ustring \<Rightarrow> ustring list \<Rightarrow> ustring list" where
  "hyphen_variants articul variants =
     (let part_before_last_dash = item0 (rsplit1 0x2D articul);
          variants1 =
            (if is_valid_art part_before_last_dash
             then let variants' = set_add (clean_art part_before_last_dash) variants
                  in if 7 \<le> length part_before_last_dash
                     then let truncated = clean_art (take (length part_before_last_dash - 2)
                                                      part_before_last_dash)
                          in if is_valid_art truncated then set_add truncated variants'
                             else variants'
                     else variants'
             else variants);
          parts = split_max 0x2D 2 articul
      in if 2 \<le> length parts
         then let first_two = join 0x2D (take 2 parts);
                  variants2 = (if is_valid_art first_two
                               then set_add (clean_art first_two) variants1 else variants1)
              in if 3 \<le> length parts
                 then let third_part = parts ! 2
                      in if is_valid_art third_part then set_add (clean_art third_part) variants2
                         else variants2
                 else variants2
         else variants1)"

text \<open>The block of \<open>process_articul\<close> under \<open>if '/' in articul\<close>.\<close>

definition slash_variants :: "ustring \<Rightarrow> ustring list \<Rightarrow> ustring list" where
  "slash_variants articul variants =
     (let replaced_with_dash = clean_art (replace_char 0x2F [0x2D] articul);
          variants1 = (if is_valid_art replaced_with_dash
                       then set_add replaced_with_dash variants else variants);
          replaced_with_space = clean_art (replace_char 0x2F [0x20, 0x2F, 0x20] articul);
          variants2 = (if is_valid_art replaced_with_space
                       then set_add replaced_with_space variants1 else variants1);
          replaced_with_hyphen = clean_art (replace_char 0x2F [0x20, 0x2D, 0x20] articul);
          variants3 = (if is_valid_art replaced_with_hyphen
                       then set_add replaced_with_hyphen variants2 else variants2)
      in foldl (\<lambda>vs part. let cleaned = clean_art part
                           in if is_valid_art cleaned then set_add cleaned vs else vs)
           variants3 (split_on 0x2F articul))"

definition process_articul :: "cell \<Rightarrow> ustring \<Rightarrow> ustring list" where
  "process_articul articul0 original_art =
     (case articul0 of
        None \<Rightarrow> []
      | Some a \<Rightarrow>
          let articul = clean_art (upper (strip a));
              variants0 = (if articul \<noteq> original_art then set_add articul [] else []);
              variants1 = (if 0x2D \<in> set articul then hyphen_variants articul variants0
                           else variants0);
              variants2 = (if 0x2F \<in> set articul then slash_variants articul variants1
                           else variants1)
          in filter is_valid_art variants2)"

section \<open>Nomenclature extractor (sort\_artic\_2.py)\<close>

text \<open>
  \<open>re.findall(r'\(([^)]*?)\)', s)\<close>: at an opening bracket that has a closing bracket
  after it the match runs to the first closing bracket; the search goes on behind it.
\<close>

function bracket_findall :: "ustring \<Rightarrow> ustring list" where
  "bracket_findall [] = []"
| "bracket_findall (c # cs) =
     (if c = 0x28 \<and> 0x29 \<in> set cs
      then takeWhile (\<lambda>x. x \<noteq> 0x29) cs # bracket_findall (tl (dropWhile (\<lambda>x. x \<noteq> 0x29) cs))
      else bracket_findall cs)"
  by pat_completeness auto
termination
proof (relation "measure length")
  show "wf (measure length)" by simp
next
  fix c :: nat and cs :: ustring
  have "length (tl (dropWhile (\<lambda>x. x \<noteq> 0x29) cs)) \<le> length (dropWhile (\<lambda>x. x \<noteq> 0x29) cs)"
    by simp
  also have "\<dots> \<le> length cs"
    by (rule length_dropWhile_le)
  finally show "(tl (dropWhile (\<lambda>x. x \<noteq> 0x29) cs), c # cs) \<in> measure length"
    by simp
next
  fix c :: nat and cs :: ustring
  show "(cs, c # cs) \<in> measure length" by simp
qed

text \<open>\<open>re.search(r'([A-Z0-9-]+)', s)\<close>: the first longest run of such characters.\<close>

definition is_art_char :: "nat \<Rightarrow> bool" where
  "is_art_char c \<longleftrightarrow> (0x41 \<le> c \<and> c \<le> 0x5A) \<or> (0x30 \<le> c \<and> c \<le> 0x39) \<or> c = 0x2D"

definition art_search :: "ustring \<Rightarrow> ustring option" where
  "art_search s =
     (let r = dropWhile (\<lambda>c. \<not> is_art_char c) s
      in if r = [] then None else Some (takeWhile is_art_char r))"

text \<open>The first loop of \<open>extract_from_nomenclature\<close>, over the bracketed groups.\<close>

definition bracket_articuls :: "ustring \<Rightarrow> ustring \<Rightarrow> ustring list" where
  "bracket_articuls nomenclature original_art =
     concat (map (\<lambda>match.
       concat (map (\<lambda>part.
         case art_search (strip part) of
           None \<Rightarrow> []
         | Some g \<Rightarrow> let art = clean_art g
                     in if is_valid_art art \<and> art \<noteq> original_art then [art] else [])
         (split_where (\<lambda>c. c = 0x2F \<or> c = 0x3B) match)))
       (bracket_findall nomenclature))"

text \<open>
  The marker of \<open>art_pattern\<close>: the three Cyrillic letters U+0430 U+0440 U+0442 under
  \<open>re.IGNORECASE\<close>, which for the third letter also admits U+1C84 and U+1C85.
\<close>

definition art_marker :: "ustring \<Rightarrow> bool" where
  "art_marker s \<longleftrightarrow>
     (case s of
        a # r # t # _ \<Rightarrow> a \<in> set [0x430, 0x410] \<and> r \<in> set [0x440, 0x420] \<and>
                           t \<in> set [0x442, 0x422, 0x1C84, 0x1C85]
      | _ \<Rightarrow> False)"

text \<open>
  \<open>re.findall\<close> with \<open>art_pattern\<close>, the marker followed by \<open>\.?\s*([^;$]*)\<close>: after
  the marker an optional period and a run of white space are skipped, and the group takes
  every character up to the first \<open>;\<close> or \<open>$\<close> (inside the class \<open>$\<close> is the
  dollar sign) or the end of the string. The search goes on where the match ended.
\<close>

function art_findall :: "ustring \<Rightarrow> ustring list" where
  "art_findall [] = []"
| "art_findall (c # cs) =
     (if art_marker (c # cs)
      then let r1 = drop 2 cs;
               r2 = (case r1 of [] \<Rightarrow> r1 | d # r \<Rightarrow> if d = 0x2E then r else r1);
               r3 = dropWhile is_space r2
           in takeWhile (\<lambda>x. x \<noteq> 0x3B \<and> x \<noteq> 0x24) r3 #
              art_findall (dropWhile (\<lambda>x. x \<noteq> 0x3B \<and> x \<noteq> 0x24) r3)
      else art_findall cs)"
  by pat_completeness auto
termination
proof (relation "measure length")
  show "wf (measure length)" by simp
next
  fix c :: nat and cs r1 r2 r3 :: ustring
  assume r1: "r1 = drop 2 cs"
    and r2: "r2 = (case r1 of [] \<Rightarrow> r1 | d # r \<Rightarrow> if d = 0x2E then r else r1)"
    and r3: "r3 = dropWhile is_space r2"
  have "length r1 \<le> length cs"
    by (simp add: r1)
  moreover have "length r2 \<le> length r1"
    by (cases r1) (simp_all add: r2)
  moreover have "length r3 \<le> length r2"
    unfolding r3 by (rule length_dropWhile_le)
  moreover have "length (dropWhile (\<lambda>x. x \<noteq> 0x3B \<and> x \<noteq> 0x24) r3) \<le> length r3"
    by (rule length_dropWhile_le)
  ultimately show "(dropWhile (\<lambda>x. x \<noteq> 0x3B \<and> x \<noteq> 0x24) r3, c # cs) \<in> measure length"
    by simp
next
  fix c :: nat and cs :: ustring
  show "(cs, c # cs) \<in> measure length" by simp
qed

text \<open>The second loop of \<open>extract_from_nomenclature\<close>, over the marker matches.\<close>

definition art_articuls :: "ustring \<Rightarrow> ustring \<Rightarrow> ustring list" where
  "art_articuls nomenclature original_art =
     concat (map (\<lambda>match.
       let cleaned = clean_art (item0 (split_on 0x20 (item0 (split_on 0x28
                                  (item0 (split_on 0x2F match))))))
       in if is_valid_art cleaned \<and> cleaned \<noteq> original_art then [cleaned] else [])
       (art_findall nomenclature))"

definition extract_from_nomenclature :: "cell \<Rightarrow> ustring \<Rightarrow> ustring list" where
  "extract_from_nomenclature nomenclature0 original_art =
     (case nomenclature0 of
        None \<Rightarrow> []
      | Some n \<Rightarrow>
          let nomenclature = upper n
          in bracket_articuls nomenclature original_art @ art_articuls nomenclature original_art)"

text \<open>
  \<open>process_row\<close> of sort\_artic\_2.py. The row is given by its two cells, the part
  number and the nomenclature; a column that the row lacks reads as the empty string.
  The set \<open>all_articuls\<close> is sorted by descending length and then by code points, so
  the result does not depend on the order of the set.
\<close>

record sheet_row =
  articul :: cell
  nomenclature :: cell

definition process_row :: "sheet_row \<Rightarrow> ustring list" where
  "process_row row =
     (let original_art = (case articul row of None \<Rightarrow> [] | Some a \<Rightarrow> clean_art a);
          all_articuls1 =
            (if articul row = Some [] then []
             else foldl (\<lambda>s art. if art \<noteq> original_art then set_add art s else s) []
                    (process_articul (articul row) original_art));
          all_articuls2 =
            foldl (\<lambda>s art. if art \<noteq> original_art then set_add art s else s) all_articuls1
              (extract_from_nomenclature (nomenclature row) original_art)
      in sort_key (\<lambda>x. (- int (length x), x)) all_articuls2)"

section \<open>Notions used in the statements\<close>

text \<open>
  A search tree over the entries of \<open>upper_table\<close>, for looking a code point up in a
  few comparisons, with its lookup, its entries in order, and a test that a list of keys
  is strictly increasing.
\<close>

datatype utree = Tip | Bin utree nat "nat list" utree

fun tree_lookup :: "utree \<Rightarrow> nat \<Rightarrow> nat list option" where
  "tree_lookup Tip c = None"
| "tree_lookup (Bin l k u r) c =
     (if c < k then tree_lookup l c else if k < c then tree_lookup r c else Some u)"

fun entries :: "utree \<Rightarrow> (nat \<times> nat list) list" where
  "entries Tip = []"
| "entries (Bin l k u r) = entries l @ (k, u) # entries r"

fun increasing :: "nat list \<Rightarrow> bool" where
  "increasing [] = True"
| "increasing [x] = True"
| "increasing (x # y # ys) = (x < y \<and> increasing (y # ys))"

definition upper_tree_0 :: utree where
  "upper_tree_0 =
     Bin (Bin (Bin (Bin (Bin (Bin (Bin (Bin Tip 0x61 [0x41] Tip) 0x62 [0x42] Tip) 0x63 [0x43]
     (Bin (Bin Tip 0x64 [0x44] Tip) 0x65 [0x45] Tip)) 0x66 [0x46] (Bin (Bin (Bin Tip 0x67
     [0x47] Tip) 0x68 [0x48] Tip) 0x69 [0x49] (Bin (Bin Tip 0x6A [0x4A] Tip) 0x6B [0x4B]
     Tip))) 0x6C [0x4C] (Bin (Bin (Bin (Bin Tip 0x6D [0x4D] Tip) 0x6E [0x4E] Tip) 0x6F [0x4F]
     (Bin (Bin Tip 0x70 [0x50] Tip) 0x71 [0x51] Tip)) 0x72 [0x52] (Bin (Bin (Bin Tip 0x73
     [0x53] Tip) 0x74 [0x54] Tip) 0x75 [0x55] (Bin (Bin Tip 0x76 [0x56] Tip) 0x77 [0x57]
     Tip)))) 0x78 [0x58] (Bin (Bin (Bin (Bin (Bin Tip 0x79 [0x59] Tip) 0x7A [0x5A] Tip) 0xB5
     [0x39C] (Bin (Bin Tip 0xDF [0x53, 0x53] Tip) 0xE0 [0xC0] Tip)) 0xE1 [0xC1] (Bin (Bin
     (Bin Tip 0xE2 [0xC2] Tip) 0xE3 [0xC3] Tip) 0xE4 [0xC4] (Bin (Bin Tip 0xE5 [0xC5] Tip)
     0xE6 [0xC6] Tip))) 0xE7 [0xC7] (Bin (Bin (Bin (Bin Tip 0xE8 [0xC8] Tip) 0xE9 [0xC9] Tip)
     0xEA [0xCA] (Bin (Bin Tip 0xEB [0xCB] Tip) 0xEC [0xCC] Tip)) 0xED [0xCD] (Bin (Bin (Bin
     Tip 0xEE [0xCE] Tip) 0xEF [0xCF] Tip) 0xF0 [0xD0] (Bin (Bin Tip 0xF1 [0xD1] Tip) 0xF2
     [0xD2] Tip))))) 0xF3 [0xD3] (Bin (Bin (Bin (Bin (Bin (Bin Tip 0xF4 [0xD4] Tip) 0xF5
     [0xD5] Tip) 0xF6 [0xD6] (Bin (Bin Tip 0xF8 [0xD8] Tip) 0xF9 [0xD9] Tip)) 0xFA [0xDA]
     (Bin (Bin (Bin Tip 0xFB [0xDB] Tip) 0xFC [0xDC] Tip) 0xFD [0xDD] (Bin (Bin Tip 0xFE
     [0xDE] Tip) 0xFF [0x178] Tip))) 0x101 [0x100] (Bin (Bin (Bin (Bin Tip 0x103 [0x102] Tip)
     0x105 [0x104] Tip) 0x107 [0x106] (Bin (Bin Tip 0x109 [0x108] Tip) 0x10B [0x10A] Tip))
     0x10D [0x10C] (Bin (Bin (Bin Tip 0x10F [0x10E] Tip) 0x111 [0x110] Tip) 0x113 [0x112]
     (Bin (Bin Tip 0x115 [0x114] Tip) 0x117 [0x116] Tip)))) 0x119 [0x118] (Bin (Bin (Bin (Bin
     (Bin Tip 0x11B [0x11A] Tip) 0x11D [0x11C] Tip) 0x11F [0x11E] (Bin (Bin Tip 0x121 [0x120]
     Tip) 0x123 [0x122] Tip)) 0x125 [0x124] (Bin (Bin (Bin Tip 0x127 [0x126] Tip) 0x129
     [0x128] Tip) 0x12B [0x12A] (Bin (Bin Tip 0x12D [0x12C] Tip) 0x12F [0x12E] Tip))) 0x131
     [0x49] (Bin (Bin (Bin (Bin Tip 0x133 [0x132] Tip) 0x135 [0x134] Tip) 0x137 [0x136] (Bin
     (Bin Tip 0x13A [0x139] Tip) 0x13C [0x13B] Tip)) 0x13E [0x13D] (Bin (Bin (Bin Tip 0x140
     [0x13F] Tip) 0x142 [0x141] Tip) 0x144 [0x143] (Bin (Bin Tip 0x146 [0x145] Tip) 0x148
     [0x147] Tip)))))) 0x149 [0x2BC, 0x4E] (Bin (Bin (Bin (Bin (Bin (Bin (Bin Tip 0x14B
     [0x14A] Tip) 0x14D [0x14C] Tip) 0x14F [0x14E] (Bin (Bin Tip 0x151 [0x150] Tip) 0x153
     [0x152] Tip)) 0x155 [0x154] (Bin (Bin (Bin Tip 0x157 [0x156] Tip) 0x159 [0x158] Tip)
     0x15B [0x15A] (Bin (Bin Tip 0x15D [0x15C] Tip) 0x15F [0x15E] Tip))) 0x161 [0x160] (Bin
     (Bin (Bin (Bin Tip 0x163 [0x162] Tip) 0x165 [0x164] Tip) 0x167 [0x166] (Bin (Bin Tip
     0x169 [0x168] Tip) 0x16B [0x16A] Tip)) 0x16D [0x16C] (Bin (Bin (Bin Tip 0x16F [0x16E]
     Tip) 0x171 [0x170] Tip) 0x173 [0x172] (Bin (Bin Tip 0x175 [0x174] Tip) 0x177 [0x176]
     Tip)))) 0x17A [0x179] (Bin (Bin (Bin (Bin (Bin Tip 0x17C [0x17B] Tip) 0x17E [0x17D] Tip)
     0x17F [0x53] (Bin (Bin Tip 0x180 [0x243] Tip) 0x183 [0x182] Tip)) 0x185 [0x184] (Bin
     (Bin (Bin Tip 0x188 [0x187] Tip) 0x18C [0x18B] Tip) 0x192 [0x191] (Bin (Bin Tip 0x195
     [0x1F6] Tip) 0x199 [0x198] Tip))) 0x19A [0x23D] (Bin (Bin (Bin (Bin Tip 0x19E [0x220]
     Tip) 0x1A1 [0x1A0] Tip) 0x1A3 [0x1A2] (Bin (Bin Tip 0x1A5 [0x1A4] Tip) 0x1A8 [0x1A7]
     Tip)) 0x1AD [0x1AC] (Bin (Bin (Bin Tip 0x1B0 [0x1AF] Tip) 0x1B4 [0x1B3] Tip) 0x1B6
     [0x1B5] (Bin (Bin Tip 0x1B9 [0x1B8] Tip) 0x1BD [0x1BC] Tip))))) 0x1BF [0x1F7] (Bin (Bin
     (Bin (Bin (Bin (Bin Tip 0x1C5 [0x1C4] Tip) 0x1C6 [0x1C4] Tip) 0x1C8 [0x1C7] (Bin (Bin
     Tip 0x1C9 [0x1C7] Tip) 0x1CB [0x1CA] Tip)) 0x1CC [0x1CA] (Bin (Bin (Bin Tip 0x1CE
     [0x1CD] Tip) 0x1D0 [0x1CF] Tip) 0x1D2 [0x1D1] (Bin (Bin Tip 0x1D4 [0x1D3] Tip) 0x1D6
     [0x1D5] Tip))) 0x1D8 [0x1D7] (Bin (Bin (Bin (Bin Tip 0x1DA [0x1D9] Tip) 0x1DC [0x1DB]
     Tip) 0x1DD [0x18E] (Bin (Bin Tip 0x1DF [0x1DE] Tip) 0x1E1 [0x1E0] Tip)) 0x1E3 [0x1E2]
     (Bin (Bin (Bin Tip 0x1E5 [0x1E4] Tip) 0x1E7 [0x1E6] Tip) 0x1E9 [0x1E8] (Bin (Bin Tip
     0x1EB [0x1EA] Tip) 0x1ED [0x1EC] Tip)))) 0x1EF [0x1EE] (Bin (Bin (Bin (Bin (Bin Tip
     0x1F0 [0x4A, 0x30C] Tip) 0x1F2 [0x1F1] Tip) 0x1F3 [0x1F1] (Bin (Bin Tip 0x1F5 [0x1F4]
     Tip) 0x1F9 [0x1F8] Tip)) 0x1FB [0x1FA] (Bin (Bin (Bin Tip 0x1FD [0x1FC] Tip) 0x1FF
     [0x1FE] Tip) 0x201 [0x200] (Bin (Bin Tip 0x203 [0x202] Tip) 0x205 [0x204] Tip))) 0x207
     [0x206] (Bin (Bin (Bin (Bin Tip 0x209 [0x208] Tip) 0x20B [0x20A] Tip) 0x20D [0x20C] (Bin
     (Bin Tip 0x20F [0x20E] Tip) 0x211 [0x210] Tip)) 0x213 [0x212] (Bin (Bin (Bin Tip 0x215
     [0x214] Tip) 0x217 [0x216] Tip) 0x219 [0x218] (Bin Tip 0x21B [0x21A] Tip))))))"

definition upper_tree_1 :: utree where
  "upper_tree_1 =
     Bin (Bin (Bin (Bin (Bin (Bin (Bin (Bin Tip 0x21F [0x21E] Tip) 0x223 [0x222] Tip) 0x225
     [0x224] (Bin (Bin Tip 0x227 [0x226] Tip) 0x229 [0x228] Tip)) 0x22B [0x22A] (Bin (Bin
     (Bin Tip 0x22D [0x22C] Tip) 0x22F [0x22E] Tip) 0x231 [0x230] (Bin (Bin Tip 0x233 [0x232]
     Tip) 0x23C [0x23B] Tip))) 0x23F [0x2C7E] (Bin (Bin (Bin (Bin Tip 0x240 [0x2C7F] Tip)
     0x242 [0x241] Tip) 0x247 [0x246] (Bin (Bin Tip 0x249 [0x248] Tip) 0x24B [0x24A] Tip))
     0x24D [0x24C] (Bin (Bin (Bin Tip 0x24F [0x24E] Tip) 0x250 [0x2C6F] Tip) 0x251 [0x2C6D]
     (Bin (Bin Tip 0x252 [0x2C70] Tip) 0x253 [0x181] Tip)))) 0x254 [0x186] (Bin (Bin (Bin
     (Bin (Bin Tip 0x256 [0x189] Tip) 0x257 [0x18A] Tip) 0x259 [0x18F] (Bin (Bin Tip 0x25B
     [0x190] Tip) 0x25C [0xA7AB] Tip)) 0x260 [0x193] (Bin (Bin (Bin Tip 0x261 [0xA7AC] Tip)
     0x263 [0x194] Tip) 0x265 [0xA78D] (Bin (Bin Tip 0x266 [0xA7AA] Tip) 0x268 [0x197] Tip)))
     0x269 [0x196] (Bin (Bin (Bin (Bin Tip 0x26A [0xA7AE] Tip) 0x26B [0x2C62] Tip) 0x26C
     [0xA7AD] (Bin (Bin Tip 0x26F [0x19C] Tip) 0x271 [0x2C6E] Tip)) 0x272 [0x19D] (Bin (Bin
     (Bin Tip 0x275 [0x19F] Tip) 0x27D [0x2C64] Tip) 0x280 [0x1A6] (Bin (Bin Tip 0x282
     [0xA7C5] Tip) 0x283 [0x1A9] Tip))))) 0x287 [0xA7B1] (Bin (Bin (Bin (Bin (Bin (Bin Tip
     0x288 [0x1AE] Tip) 0x289 [0x244] Tip) 0x28A [0x1B1] (Bin (Bin Tip 0x28B [0x1B2] Tip)
     0x28C [0x245] Tip)) 0x292 [0x1B7] (Bin (Bin (Bin Tip 0x29D [0xA7B2] Tip) 0x29E [0xA7B0]
     Tip) 0x345 [0x399] (Bin (Bin Tip 0x371 [0x370] Tip) 0x373 [0x372] Tip))) 0x377 [0x376]
     (Bin (Bin (Bin (Bin Tip 0x37B [0x3FD] Tip) 0x37C [0x3FE] Tip) 0x37D [0x3FF] (Bin (Bin
     Tip 0x390 [0x399, 0x308, 0x301] Tip) 0x3AC [0x386] Tip)) 0x3AD [0x388] (Bin (Bin (Bin
     Tip 0x3AE [0x389] Tip) 0x3AF [0x38A] Tip) 0x3B0 [0x3A5, 0x308, 0x301] (Bin (Bin Tip
     0x3B1 [0x391] Tip) 0x3B2 [0x392] Tip)))) 0x3B3 [0x393] (Bin (Bin (Bin (Bin (Bin Tip
     0x3B4 [0x394] Tip) 0x3B5 [0x395] Tip) 0x3B6 [0x396] (Bin (Bin Tip 0x3B7 [0x397] Tip)
     0x3B8 [0x398] Tip)) 0x3B9 [0x399] (Bin (Bin (Bin Tip 0x3BA [0x39A] Tip) 0x3BB [0x39B]
     Tip) 0x3BC [0x39C] (Bin (Bin Tip 0x3BD [0x39D] Tip) 0x3BE [0x39E] Tip))) 0x3BF [0x39F]
     (Bin (Bin (Bin (Bin Tip 0x3C0 [0x3A0] Tip) 0x3C1 [0x3A1] Tip) 0x3C2 [0x3A3] (Bin (Bin
     Tip 0x3C3 [0x3A3] Tip) 0x3C4 [0x3A4] Tip)) 0x3C5 [0x3A5] (Bin (Bin (Bin Tip 0x3C6
     [0x3A6] Tip) 0x3C7 [0x3A7] Tip) 0x3C8 [0x3A8] (Bin (Bin Tip 0x3C9 [0x3A9] Tip) 0x3CA
     [0x3AA] Tip)))))) 0x3CB [0x3AB] (Bin (Bin (Bin (Bin (Bin (Bin (Bin Tip 0x3CC [0x38C]
     Tip) 0x3CD [0x38E] Tip) 0x3CE [0x38F] (Bin (Bin Tip 0x3D0 [0x392] Tip) 0x3D1 [0x398]
     Tip)) 0x3D5 [0x3A6] (Bin (Bin (Bin Tip 0x3D6 [0x3A0] Tip) 0x3D7 [0x3CF] Tip) 0x3D9
     [0x3D8] (Bin (Bin Tip 0x3DB [0x3DA] Tip) 0x3DD [0x3DC] Tip))) 0x3DF [0x3DE] (Bin (Bin
     (Bin (Bin Tip 0x3E1 [0x3E0] Tip) 0x3E3 [0x3E2] Tip) 0x3E5 [0x3E4] (Bin (Bin Tip 0x3E7
     [0x3E6] Tip) 0x3E9 [0x3E8] Tip)) 0x3EB [0x3EA] (Bin (Bin (Bin Tip 0x3ED [0x3EC] Tip)
     0x3EF [0x3EE] Tip) 0x3F0 [0x39A] (Bin (Bin Tip 0x3F1 [0x3A1] Tip) 0x3F2 [0x3F9] Tip))))
     0x3F3 [0x37F] (Bin (Bin (Bin (Bin (Bin Tip 0x3F5 [0x395] Tip) 0x3F8 [0x3F7] Tip) 0x3FB
     [0x3FA] (Bin (Bin Tip 0x430 [0x410] Tip) 0x431 [0x411] Tip)) 0x432 [0x412] (Bin (Bin
     (Bin Tip 0x433 [0x413] Tip) 0x434 [0x414] Tip) 0x435 [0x415] (Bin (Bin Tip 0x436 [0x416]
     Tip) 0x437 [0x417] Tip))) 0x438 [0x418] (Bin (Bin (Bin (Bin Tip 0x439 [0x419] Tip) 0x43A
     [0x41A] Tip) 0x43B [0x41B] (Bin (Bin Tip 0x43C [0x41C] Tip) 0x43D [0x41D] Tip)) 0x43E
     [0x41E] (Bin (Bin (Bin Tip 0x43F [0x41F] Tip) 0x440 [0x420] Tip) 0x441 [0x421] (Bin (Bin
     Tip 0x442 [0x422] Tip) 0x443 [0x423] Tip))))) 0x444 [0x424] (Bin (Bin (Bin (Bin (Bin
     (Bin Tip 0x445 [0x425] Tip) 0x446 [0x426] Tip) 0x447 [0x427] (Bin (Bin Tip 0x448 [0x428]
     Tip) 0x449 [0x429] Tip)) 0x44A [0x42A] (Bin (Bin (Bin Tip 0x44B [0x42B] Tip) 0x44C
     [0x42C] Tip) 0x44D [0x42D] (Bin (Bin Tip 0x44E [0x42E] Tip) 0x44F [0x42F] Tip))) 0x450
     [0x400] (Bin (Bin (Bin (Bin Tip 0x451 [0x401] Tip) 0x452 [0x402] Tip) 0x453 [0x403] (Bin
     (Bin Tip 0x454 [0x404] Tip) 0x455 [0x405] Tip)) 0x456 [0x406] (Bin (Bin (Bin Tip 0x457
     [0x407] Tip) 0x458 [0x408] Tip) 0x459 [0x409] (Bin (Bin Tip 0x45A [0x40A] Tip) 0x45B
     [0x40B] Tip)))) 0x45C [0x40C] (Bin (Bin (Bin (Bin (Bin Tip 0x45D [0x40D] Tip) 0x45E
     [0x40E] Tip) 0x45F [0x40F] (Bin (Bin Tip 0x461 [0x460] Tip) 0x463 [0x462] Tip)) 0x465
     [0x464] (Bin (Bin (Bin Tip 0x467 [0x466] Tip) 0x469 [0x468] Tip) 0x46B [0x46A] (Bin (Bin
     Tip 0x46D [0x46C] Tip) 0x46F [0x46E] Tip))) 0x471 [0x470] (Bin (Bin (Bin (Bin Tip 0x473
     [0x472] Tip) 0x475 [0x474] Tip) 0x477 [0x476] (Bin (Bin Tip 0x479 [0x478] Tip) 0x47B
     [0x47A] Tip)) 0x47D [0x47C] (Bin (Bin (Bin Tip 0x47F [0x47E] Tip) 0x481 [0x480] Tip)
     0x48B [0x48A] (Bin Tip 0x48D [0x48C] Tip))))))"

definition upper_tree_2 :: utree where
  "upper_tree_2 =
     Bin (Bin (Bin (Bin (Bin (Bin (Bin (Bin Tip 0x491 [0x490] Tip) 0x493 [0x492] Tip) 0x495
     [0x494] (Bin (Bin Tip 0x497 [0x496] Tip) 0x499 [0x498] Tip)) 0x49B [0x49A] (Bin (Bin
     (Bin Tip 0x49D [0x49C] Tip) 0x49F [0x49E] Tip) 0x4A1 [0x4A0] (Bin (Bin Tip 0x4A3 [0x4A2]
     Tip) 0x4A5 [0x4A4] Tip))) 0x4A7 [0x4A6] (Bin (Bin (Bin (Bin Tip 0x4A9 [0x4A8] Tip) 0x4AB
     [0x4AA] Tip) 0x4AD [0x4AC] (Bin (Bin Tip 0x4AF [0x4AE] Tip) 0x4B1 [0x4B0] Tip)) 0x4B3
     [0x4B2] (Bin (Bin (Bin Tip 0x4B5 [0x4B4] Tip) 0x4B7 [0x4B6] Tip) 0x4B9 [0x4B8] (Bin (Bin
     Tip 0x4BB [0x4BA] Tip) 0x4BD [0x4BC] Tip)))) 0x4BF [0x4BE] (Bin (Bin (Bin (Bin (Bin Tip
     0x4C2 [0x4C1] Tip) 0x4C4 [0x4C3] Tip) 0x4C6 [0x4C5] (Bin (Bin Tip 0x4C8 [0x4C7] Tip)
     0x4CA [0x4C9] Tip)) 0x4CC [0x4CB] (Bin (Bin (Bin Tip 0x4CE [0x4CD] Tip) 0x4CF [0x4C0]
     Tip) 0x4D1 [0x4D0] (Bin (Bin Tip 0x4D3 [0x4D2] Tip) 0x4D5 [0x4D4] Tip))) 0x4D7 [0x4D6]
     (Bin (Bin (Bin (Bin Tip 0x4D9 [0x4D8] Tip) 0x4DB [0x4DA] Tip) 0x4DD [0x4DC] (Bin (Bin
     Tip 0x4DF [0x4DE] Tip) 0x4E1 [0x4E0] Tip)) 0x4E3 [0x4E2] (Bin (Bin (Bin Tip 0x4E5
     [0x4E4] Tip) 0x4E7 [0x4E6] Tip) 0x4E9 [0x4E8] (Bin (Bin Tip 0x4EB [0x4EA] Tip) 0x4ED
     [0x4EC] Tip))))) 0x4EF [0x4EE] (Bin (Bin (Bin (Bin (Bin (Bin Tip 0x4F1 [0x4F0] Tip)
     0x4F3 [0x4F2] Tip) 0x4F5 [0x4F4] (Bin (Bin Tip 0x4F7 [0x4F6] Tip) 0x4F9 [0x4F8] Tip))
     0x4FB [0x4FA] (Bin (Bin (Bin Tip 0x4FD [0x4FC] Tip) 0x4FF [0x4FE] Tip) 0x501 [0x500]
     (Bin (Bin Tip 0x503 [0x502] Tip) 0x505 [0x504] Tip))) 0x507 [0x506] (Bin (Bin (Bin (Bin
     Tip 0x509 [0x508] Tip) 0x50B [0x50A] Tip) 0x50D [0x50C] (Bin (Bin Tip 0x50F [0x50E] Tip)
     0x511 [0x510] Tip)) 0x513 [0x512] (Bin (Bin (Bin Tip 0x515 [0x514] Tip) 0x517 [0x516]
     Tip) 0x519 [0x518] (Bin (Bin Tip 0x51B [0x51A] Tip) 0x51D [0x51C] Tip)))) 0x51F [0x51E]
     (Bin (Bin (Bin (Bin (Bin Tip 0x521 [0x520] Tip) 0x523 [0x522] Tip) 0x525 [0x524] (Bin
     (Bin Tip 0x527 [0x526] Tip) 0x529 [0x528] Tip)) 0x52B [0x52A] (Bin (Bin (Bin Tip 0x52D
     [0x52C] Tip) 0x52F [0x52E] Tip) 0x561 [0x531] (Bin (Bin Tip 0x562 [0x532] Tip) 0x563
     [0x533] Tip))) 0x564 [0x534] (Bin (Bin (Bin (Bin Tip 0x565 [0x535] Tip) 0x566 [0x536]
     Tip) 0x567 [0x537] (Bin (Bin Tip 0x568 [0x538] Tip) 0x569 [0x539] Tip)) 0x56A [0x53A]
     (Bin (Bin (Bin Tip 0x56B [0x53B] Tip) 0x56C [0x53C] Tip) 0x56D [0x53D] (Bin (Bin Tip
     0x56E [0x53E] Tip) 0x56F [0x53F] Tip)))))) 0x570 [0x540] (Bin (Bin (Bin (Bin (Bin (Bin
     (Bin Tip 0x571 [0x541] Tip) 0x572 [0x542] Tip) 0x573 [0x543] (Bin (Bin Tip 0x574 [0x544]
     Tip) 0x575 [0x545] Tip)) 0x576 [0x546] (Bin (Bin (Bin Tip 0x577 [0x547] Tip) 0x578
     [0x548] Tip) 0x579 [0x549] (Bin (Bin Tip 0x57A [0x54A] Tip) 0x57B [0x54B] Tip))) 0x57C
     [0x54C] (Bin (Bin (Bin (Bin Tip 0x57D [0x54D] Tip) 0x57E [0x54E] Tip) 0x57F [0x54F] (Bin
     (Bin Tip 0x580 [0x550] Tip) 0x581 [0x551] Tip)) 0x582 [0x552] (Bin (Bin (Bin Tip 0x583
     [0x553] Tip) 0x584 [0x554] Tip) 0x585 [0x555] (Bin (Bin Tip 0x586 [0x556] Tip) 0x587
     [0x535, 0x552] Tip)))) 0x10D0 [0x1C90] (Bin (Bin (Bin (Bin (Bin Tip 0x10D1 [0x1C91] Tip)
     0x10D2 [0x1C92] Tip) 0x10D3 [0x1C93] (Bin (Bin Tip 0x10D4 [0x1C94] Tip) 0x10D5 [0x1C95]
     Tip)) 0x10D6 [0x1C96] (Bin (Bin (Bin Tip 0x10D7 [0x1C97] Tip) 0x10D8 [0x1C98] Tip)
     0x10D9 [0x1C99] (Bin (Bin Tip 0x10DA [0x1C9A] Tip) 0x10DB [0x1C9B] Tip))) 0x10DC
     [0x1C9C] (Bin (Bin (Bin (Bin Tip 0x10DD [0x1C9D] Tip) 0x10DE [0x1C9E] Tip) 0x10DF
     [0x1C9F] (Bin (Bin Tip 0x10E0 [0x1CA0] Tip) 0x10E1 [0x1CA1] Tip)) 0x10E2 [0x1CA2] (Bin
     (Bin (Bin Tip 0x10E3 [0x1CA3] Tip) 0x10E4 [0x1CA4] Tip) 0x10E5 [0x1CA5] (Bin (Bin Tip
     0x10E6 [0x1CA6] Tip) 0x10E7 [0x1CA7] Tip))))) 0x10E8 [0x1CA8] (Bin (Bin (Bin (Bin (Bin
     (Bin Tip 0x10E9 [0x1CA9] Tip) 0x10EA [0x1CAA] Tip) 0x10EB [0x1CAB] (Bin (Bin Tip 0x10EC
     [0x1CAC] Tip) 0x10ED [0x1CAD] Tip)) 0x10EE [0x1CAE] (Bin (Bin (Bin Tip 0x10EF [0x1CAF]
     Tip) 0x10F0 [0x1CB0] Tip) 0x10F1 [0x1CB1] (Bin (Bin Tip 0x10F2 [0x1CB2] Tip) 0x10F3
     [0x1CB3] Tip))) 0x10F4 [0x1CB4] (Bin (Bin (Bin (Bin Tip 0x10F5 [0x1CB5] Tip) 0x10F6
     [0x1CB6] Tip) 0x10F7 [0x1CB7] (Bin (Bin Tip 0x10F8 [0x1CB8] Tip) 0x10F9 [0x1CB9] Tip))
     0x10FA [0x1CBA] (Bin (Bin (Bin Tip 0x10FD [0x1CBD] Tip) 0x10FE [0x1CBE] Tip) 0x10FF
     [0x1CBF] (Bin (Bin Tip 0x13F8 [0x13F0] Tip) 0x13F9 [0x13F1] Tip)))) 0x13FA [0x13F2] (Bin
     (Bin (Bin (Bin (Bin Tip 0x13FB [0x13F3] Tip) 0x13FC [0x13F4] Tip) 0x13FD [0x13F5] (Bin
     (Bin Tip 0x1C80 [0x412] Tip) 0x1C81 [0x414] Tip)) 0x1C82 [0x41E] (Bin (Bin (Bin Tip
     0x1C83 [0x421] Tip) 0x1C84 [0x422] Tip) 0x1C85 [0x422] (Bin (Bin Tip 0x1C86 [0x42A] Tip)
     0x1C87 [0x462] Tip))) 0x1C88 [0xA64A] (Bin (Bin (Bin (Bin Tip 0x1D79 [0xA77D] Tip)
     0x1D7D [0x2C63] Tip) 0x1D8E [0xA7C6] (Bin (Bin Tip 0x1E01 [0x1E00] Tip) 0x1E03 [0x1E02]
     Tip)) 0x1E05 [0x1E04] (Bin (Bin (Bin Tip 0x1E07 [0x1E06] Tip) 0x1E09 [0x1E08] Tip)
     0x1E0B [0x1E0A] (Bin Tip 0x1E0D [0x1E0C] Tip))))))"

definition upper_tree_3 :: utree where
  "upper_tree_3 =
     Bin (Bin (Bin (Bin (Bin (Bin (Bin (Bin Tip 0x1E11 [0x1E10] Tip) 0x1E13 [0x1E12] Tip)
     0x1E15 [0x1E14] (Bin (Bin Tip 0x1E17 [0x1E16] Tip) 0x1E19 [0x1E18] Tip)) 0x1E1B [0x1E1A]
     (Bin (Bin (Bin Tip 0x1E1D [0x1E1C] Tip) 0x1E1F [0x1E1E] Tip) 0x1E21 [0x1E20] (Bin (Bin
     Tip 0x1E23 [0x1E22] Tip) 0x1E25 [0x1E24] Tip))) 0x1E27 [0x1E26] (Bin (Bin (Bin (Bin Tip
     0x1E29 [0x1E28] Tip) 0x1E2B [0x1E2A] Tip) 0x1E2D [0x1E2C] (Bin (Bin Tip 0x1E2F [0x1E2E]
     Tip) 0x1E31 [0x1E30] Tip)) 0x1E33 [0x1E32] (Bin (Bin (Bin Tip 0x1E35 [0x1E34] Tip)
     0x1E37 [0x1E36] Tip) 0x1E39 [0x1E38] (Bin (Bin Tip 0x1E3B [0x1E3A] Tip) 0x1E3D [0x1E3C]
     Tip)))) 0x1E3F [0x1E3E] (Bin (Bin (Bin (Bin (Bin Tip 0x1E41 [0x1E40] Tip) 0x1E43
     [0x1E42] Tip) 0x1E45 [0x1E44] (Bin (Bin Tip 0x1E47 [0x1E46] Tip) 0x1E49 [0x1E48] Tip))
     0x1E4B [0x1E4A] (Bin (Bin (Bin Tip 0x1E4D [0x1E4C] Tip) 0x1E4F [0x1E4E] Tip) 0x1E51
     [0x1E50] (Bin (Bin Tip 0x1E53 [0x1E52] Tip) 0x1E55 [0x1E54] Tip))) 0x1E57 [0x1E56] (Bin
     (Bin (Bin (Bin Tip 0x1E59 [0x1E58] Tip) 0x1E5B [0x1E5A] Tip) 0x1E5D [0x1E5C] (Bin (Bin
     Tip 0x1E5F [0x1E5E] Tip) 0x1E61 [0x1E60] Tip)) 0x1E63 [0x1E62] (Bin (Bin (Bin Tip 0x1E65
     [0x1E64] Tip) 0x1E67 [0x1E66] Tip) 0x1E69 [0x1E68] (Bin (Bin Tip 0x1E6B [0x1E6A] Tip)
     0x1E6D [0x1E6C] Tip))))) 0x1E6F [0x1E6E] (Bin (Bin (Bin (Bin (Bin (Bin Tip 0x1E71
     [0x1E70] Tip) 0x1E73 [0x1E72] Tip) 0x1E75 [0x1E74] (Bin (Bin Tip 0x1E77 [0x1E76] Tip)
     0x1E79 [0x1E78] Tip)) 0x1E7B [0x1E7A] (Bin (Bin (Bin Tip 0x1E7D [0x1E7C] Tip) 0x1E7F
     [0x1E7E] Tip) 0x1E81 [0x1E80] (Bin (Bin Tip 0x1E83 [0x1E82] Tip) 0x1E85 [0x1E84] Tip)))
     0x1E87 [0x1E86] (Bin (Bin (Bin (Bin Tip 0x1E89 [0x1E88] Tip) 0x1E8B [0x1E8A] Tip) 0x1E8D
     [0x1E8C] (Bin (Bin Tip 0x1E8F [0x1E8E] Tip) 0x1E91 [0x1E90] Tip)) 0x1E93 [0x1E92] (Bin
     (Bin (Bin Tip 0x1E95 [0x1E94] Tip) 0x1E96 [0x48, 0x331] Tip) 0x1E97 [0x54, 0x308] (Bin
     (Bin Tip 0x1E98 [0x57, 0x30A] Tip) 0x1E99 [0x59, 0x30A] Tip)))) 0x1E9A [0x41, 0x2BE]
     (Bin (Bin (Bin (Bin (Bin Tip 0x1E9B [0x1E60] Tip) 0x1EA1 [0x1EA0] Tip) 0x1EA3 [0x1EA2]
     (Bin (Bin Tip 0x1EA5 [0x1EA4] Tip) 0x1EA7 [0x1EA6] Tip)) 0x1EA9 [0x1EA8] (Bin (Bin (Bin
     Tip 0x1EAB [0x1EAA] Tip) 0x1EAD [0x1EAC] Tip) 0x1EAF [0x1EAE] (Bin (Bin Tip 0x1EB1
     [0x1EB0] Tip) 0x1EB3 [0x1EB2] Tip))) 0x1EB5 [0x1EB4] (Bin (Bin (Bin (Bin Tip 0x1EB7
     [0x1EB6] Tip) 0x1EB9 [0x1EB8] Tip) 0x1EBB [0x1EBA] (Bin (Bin Tip 0x1EBD [0x1EBC] Tip)
     0x1EBF [0x1EBE] Tip)) 0x1EC1 [0x1EC0] (Bin (Bin (Bin Tip 0x1EC3 [0x1EC2] Tip) 0x1EC5
     [0x1EC4] Tip) 0x1EC7 [0x1EC6] (Bin Tip 0x1EC9 [0x1EC8] Tip)))))) 0x1ECB [0x1ECA] (Bin
     (Bin (Bin (Bin (Bin (Bin (Bin Tip 0x1ECD [0x1ECC] Tip) 0x1ECF [0x1ECE] Tip) 0x1ED1
     [0x1ED0] (Bin (Bin Tip 0x1ED3 [0x1ED2] Tip) 0x1ED5 [0x1ED4] Tip)) 0x1ED7 [0x1ED6] (Bin
     (Bin (Bin Tip 0x1ED9 [0x1ED8] Tip) 0x1EDB [0x1EDA] Tip) 0x1EDD [0x1EDC] (Bin (Bin Tip
     0x1EDF [0x1EDE] Tip) 0x1EE1 [0x1EE0] Tip))) 0x1EE3 [0x1EE2] (Bin (Bin (Bin (Bin Tip
     0x1EE5 [0x1EE4] Tip) 0x1EE7 [0x1EE6] Tip) 0x1EE9 [0x1EE8] (Bin (Bin Tip 0x1EEB [0x1EEA]
     Tip) 0x1EED [0x1EEC] Tip)) 0x1EEF [0x1EEE] (Bin (Bin (Bin Tip 0x1EF1 [0x1EF0] Tip)
     0x1EF3 [0x1EF2] Tip) 0x1EF5 [0x1EF4] (Bin (Bin Tip 0x1EF7 [0x1EF6] Tip) 0x1EF9 [0x1EF8]
     Tip)))) 0x1EFB [0x1EFA] (Bin (Bin (Bin (Bin (Bin Tip 0x1EFD [0x1EFC] Tip) 0x1EFF
     [0x1EFE] Tip) 0x1F00 [0x1F08] (Bin (Bin Tip 0x1F01 [0x1F09] Tip) 0x1F02 [0x1F0A] Tip))
     0x1F03 [0x1F0B] (Bin (Bin (Bin Tip 0x1F04 [0x1F0C] Tip) 0x1F05 [0x1F0D] Tip) 0x1F06
     [0x1F0E] (Bin (Bin Tip 0x1F07 [0x1F0F] Tip) 0x1F10 [0x1F18] Tip))) 0x1F11 [0x1F19] (Bin
     (Bin (Bin (Bin Tip 0x1F12 [0x1F1A] Tip) 0x1F13 [0x1F1B] Tip) 0x1F14 [0x1F1C] (Bin (Bin
     Tip 0x1F15 [0x1F1D] Tip) 0x1F20 [0x1F28] Tip)) 0x1F21 [0x1F29] (Bin (Bin (Bin Tip 0x1F22
     [0x1F2A] Tip) 0x1F23 [0x1F2B] Tip) 0x1F24 [0x1F2C] (Bin (Bin Tip 0x1F25 [0x1F2D] Tip)
     0x1F26 [0x1F2E] Tip))))) 0x1F27 [0x1F2F] (Bin (Bin (Bin (Bin (Bin (Bin Tip 0x1F30
     [0x1F38] Tip) 0x1F31 [0x1F39] Tip) 0x1F32 [0x1F3A] (Bin (Bin Tip 0x1F33 [0x1F3B] Tip)
     0x1F34 [0x1F3C] Tip)) 0x1F35 [0x1F3D] (Bin (Bin (Bin Tip 0x1F36 [0x1F3E] Tip) 0x1F37
     [0x1F3F] Tip) 0x1F40 [0x1F48] (Bin (Bin Tip 0x1F41 [0x1F49] Tip) 0x1F42 [0x1F4A] Tip)))
     0x1F43 [0x1F4B] (Bin (Bin (Bin (Bin Tip 0x1F44 [0x1F4C] Tip) 0x1F45 [0x1F4D] Tip) 0x1F50
     [0x3A5, 0x313] (Bin (Bin Tip 0x1F51 [0x1F59] Tip) 0x1F52 [0x3A5, 0x313, 0x300] Tip))
     0x1F53 [0x1F5B] (Bin (Bin (Bin Tip 0x1F54 [0x3A5, 0x313, 0x301] Tip) 0x1F55 [0x1F5D]
     Tip) 0x1F56 [0x3A5, 0x313, 0x342] (Bin (Bin Tip 0x1F57 [0x1F5F] Tip) 0x1F60 [0x1F68]
     Tip)))) 0x1F61 [0x1F69] (Bin (Bin (Bin (Bin (Bin Tip 0x1F62 [0x1F6A] Tip) 0x1F63
     [0x1F6B] Tip) 0x1F64 [0x1F6C] (Bin (Bin Tip 0x1F65 [0x1F6D] Tip) 0x1F66 [0x1F6E] Tip))
     0x1F67 [0x1F6F] (Bin (Bin (Bin Tip 0x1F70 [0x1FBA] Tip) 0x1F71 [0x1FBB] Tip) 0x1F72
     [0x1FC8] (Bin (Bin Tip 0x1F73 [0x1FC9] Tip) 0x1F74 [0x1FCA] Tip))) 0x1F75 [0x1FCB] (Bin
     (Bin (Bin (Bin Tip 0x1F76 [0x1FDA] Tip) 0x1F77 [0x1FDB] Tip) 0x1F78 [0x1FF8] (Bin (Bin
     Tip 0x1F79 [0x1FF9] Tip) 0x1F7A [0x1FEA] Tip)) 0x1F7B [0x1FEB] (Bin (Bin (Bin Tip 0x1F7C
     [0x1FFA] Tip) 0x1F7D [0x1FFB] Tip) 0x1F80 [0x1F08, 0x399] (Bin Tip 0x1F81 [0x1F09,
     0x399] Tip))))))"

definition upper_tree_4 :: utree where
  "upper_tree_4 =
     Bin (Bin (Bin (Bin (Bin (Bin (Bin (Bin Tip 0x1F83 [0x1F0B, 0x399] Tip) 0x1F84 [0x1F0C,
     0x399] Tip) 0x1F85 [0x1F0D, 0x399] (Bin (Bin Tip 0x1F86 [0x1F0E, 0x399] Tip) 0x1F87
     [0x1F0F, 0x399] Tip)) 0x1F88 [0x1F08, 0x399] (Bin (Bin (Bin Tip 0x1F89 [0x1F09, 0x399]
     Tip) 0x1F8A [0x1F0A, 0x399] Tip) 0x1F8B [0x1F0B, 0x399] (Bin (Bin Tip 0x1F8C [0x1F0C,
     0x399] Tip) 0x1F8D [0x1F0D, 0x399] Tip))) 0x1F8E [0x1F0E, 0x399] (Bin (Bin (Bin (Bin Tip
     0x1F8F [0x1F0F, 0x399] Tip) 0x1F90 [0x1F28, 0x399] Tip) 0x1F91 [0x1F29, 0x399] (Bin (Bin
     Tip 0x1F92 [0x1F2A, 0x399] Tip) 0x1F93 [0x1F2B, 0x399] Tip)) 0x1F94 [0x1F2C, 0x399] (Bin
     (Bin (Bin Tip 0x1F95 [0x1F2D, 0x399] Tip) 0x1F96 [0x1F2E, 0x399] Tip) 0x1F97 [0x1F2F,
     0x399] (Bin (Bin Tip 0x1F98 [0x1F28, 0x399] Tip) 0x1F99 [0x1F29, 0x399] Tip)))) 0x1F9A
     [0x1F2A, 0x399] (Bin (Bin (Bin (Bin (Bin Tip 0x1F9B [0x1F2B, 0x399] Tip) 0x1F9C [0x1F2C,
     0x399] Tip) 0x1F9D [0x1F2D, 0x399] (Bin (Bin Tip 0x1F9E [0x1F2E, 0x399] Tip) 0x1F9F
     [0x1F2F, 0x399] Tip)) 0x1FA0 [0x1F68, 0x399] (Bin (Bin (Bin Tip 0x1FA1 [0x1F69, 0x399]
     Tip) 0x1FA2 [0x1F6A, 0x399] Tip) 0x1FA3 [0x1F6B, 0x399] (Bin (Bin Tip 0x1FA4 [0x1F6C,
     0x399] Tip) 0x1FA5 [0x1F6D, 0x399] Tip))) 0x1FA6 [0x1F6E, 0x399] (Bin (Bin (Bin (Bin Tip
     0x1FA7 [0x1F6F, 0x399] Tip) 0x1FA8 [0x1F68, 0x399] Tip) 0x1FA9 [0x1F69, 0x399] (Bin (Bin
     Tip 0x1FAA [0x1F6A, 0x399] Tip) 0x1FAB [0x1F6B, 0x399] Tip)) 0x1FAC [0x1F6C, 0x399] (Bin
     (Bin (Bin Tip 0x1FAD [0x1F6D, 0x399] Tip) 0x1FAE [0x1F6E, 0x399] Tip) 0x1FAF [0x1F6F,
     0x399] (Bin (Bin Tip 0x1FB0 [0x1FB8] Tip) 0x1FB1 [0x1FB9] Tip))))) 0x1FB2 [0x1FBA,
     0x399] (Bin (Bin (Bin (Bin (Bin (Bin Tip 0x1FB3 [0x391, 0x399] Tip) 0x1FB4 [0x386,
     0x399] Tip) 0x1FB6 [0x391, 0x342] (Bin (Bin Tip 0x1FB7 [0x391, 0x342, 0x399] Tip) 0x1FBC
     [0x391, 0x399] Tip)) 0x1FBE [0x399] (Bin (Bin (Bin Tip 0x1FC2 [0x1FCA, 0x399] Tip)
     0x1FC3 [0x397, 0x399] Tip) 0x1FC4 [0x389, 0x399] (Bin (Bin Tip 0x1FC6 [0x397, 0x342]
     Tip) 0x1FC7 [0x397, 0x342, 0x399] Tip))) 0x1FCC [0x397, 0x399] (Bin (Bin (Bin (Bin Tip
     0x1FD0 [0x1FD8] Tip) 0x1FD1 [0x1FD9] Tip) 0x1FD2 [0x399, 0x308, 0x300] (Bin (Bin Tip
     0x1FD3 [0x399, 0x308, 0x301] Tip) 0x1FD6 [0x399, 0x342] Tip)) 0x1FD7 [0x399, 0x308,
     0x342] (Bin (Bin (Bin Tip 0x1FE0 [0x1FE8] Tip) 0x1FE1 [0x1FE9] Tip) 0x1FE2 [0x3A5,
     0x308, 0x300] (Bin (Bin Tip 0x1FE3 [0x3A5, 0x308, 0x301] Tip) 0x1FE4 [0x3A1, 0x313]
     Tip)))) 0x1FE5 [0x1FEC] (Bin (Bin (Bin (Bin (Bin Tip 0x1FE6 [0x3A5, 0x342] Tip) 0x1FE7
     [0x3A5, 0x308, 0x342] Tip) 0x1FF2 [0x1FFA, 0x399] (Bin (Bin Tip 0x1FF3 [0x3A9, 0x399]
     Tip) 0x1FF4 [0x38F, 0x399] Tip)) 0x1FF6 [0x3A9, 0x342] (Bin (Bin (Bin Tip 0x1FF7 [0x3A9,
     0x342, 0x399] Tip) 0x1FFC [0x3A9, 0x399] Tip) 0x214E [0x2132] (Bin (Bin Tip 0x2170
     [0x2160] Tip) 0x2171 [0x2161] Tip))) 0x2172 [0x2162] (Bin (Bin (Bin (Bin Tip 0x2173
     [0x2163] Tip) 0x2174 [0x2164] Tip) 0x2175 [0x2165] (Bin (Bin Tip 0x2176 [0x2166] Tip)
     0x2177 [0x2167] Tip)) 0x2178 [0x2168] (Bin (Bin (Bin Tip 0x2179 [0x2169] Tip) 0x217A
     [0x216A] Tip) 0x217B [0x216B] (Bin (Bin Tip 0x217C [0x216C] Tip) 0x217D [0x216D]
     Tip)))))) 0x217E [0x216E] (Bin (Bin (Bin (Bin (Bin (Bin (Bin Tip 0x217F [0x216F] Tip)
     0x2184 [0x2183] Tip) 0x24D0 [0x24B6] (Bin (Bin Tip 0x24D1 [0x24B7] Tip) 0x24D2 [0x24B8]
     Tip)) 0x24D3 [0x24B9] (Bin (Bin (Bin Tip 0x24D4 [0x24BA] Tip) 0x24D5 [0x24BB] Tip)
     0x24D6 [0x24BC] (Bin (Bin Tip 0x24D7 [0x24BD] Tip) 0x24D8 [0x24BE] Tip))) 0x24D9
     [0x24BF] (Bin (Bin (Bin (Bin Tip 0x24DA [0x24C0] Tip) 0x24DB [0x24C1] Tip) 0x24DC
     [0x24C2] (Bin (Bin Tip 0x24DD [0x24C3] Tip) 0x24DE [0x24C4] Tip)) 0x24DF [0x24C5] (Bin
     (Bin (Bin Tip 0x24E0 [0x24C6] Tip) 0x24E1 [0x24C7] Tip) 0x24E2 [0x24C8] (Bin (Bin Tip
     0x24E3 [0x24C9] Tip) 0x24E4 [0x24CA] Tip)))) 0x24E5 [0x24CB] (Bin (Bin (Bin (Bin (Bin
     Tip 0x24E6 [0x24CC] Tip) 0x24E7 [0x24CD] Tip) 0x24E8 [0x24CE] (Bin (Bin Tip 0x24E9
     [0x24CF] Tip) 0x2C30 [0x2C00] Tip)) 0x2C31 [0x2C01] (Bin (Bin (Bin Tip 0x2C32 [0x2C02]
     Tip) 0x2C33 [0x2C03] Tip) 0x2C34 [0x2C04] (Bin (Bin Tip 0x2C35 [0x2C05] Tip) 0x2C36
     [0x2C06] Tip))) 0x2C37 [0x2C07] (Bin (Bin (Bin (Bin Tip 0x2C38 [0x2C08] Tip) 0x2C39
     [0x2C09] Tip) 0x2C3A [0x2C0A] (Bin (Bin Tip 0x2C3B [0x2C0B] Tip) 0x2C3C [0x2C0C] Tip))
     0x2C3D [0x2C0D] (Bin (Bin (Bin Tip 0x2C3E [0x2C0E] Tip) 0x2C3F [0x2C0F] Tip) 0x2C40
     [0x2C10] (Bin (Bin Tip 0x2C41 [0x2C11] Tip) 0x2C42 [0x2C12] Tip))))) 0x2C43 [0x2C13]
     (Bin (Bin (Bin (Bin (Bin (Bin Tip 0x2C44 [0x2C14] Tip) 0x2C45 [0x2C15] Tip) 0x2C46
     [0x2C16] (Bin (Bin Tip 0x2C47 [0x2C17] Tip) 0x2C48 [0x2C18] Tip)) 0x2C49 [0x2C19] (Bin
     (Bin (Bin Tip 0x2C4A [0x2C1A] Tip) 0x2C4B [0x2C1B] Tip) 0x2C4C [0x2C1C] (Bin (Bin Tip
     0x2C4D [0x2C1D] Tip) 0x2C4E [0x2C1E] Tip))) 0x2C4F [0x2C1F] (Bin (Bin (Bin (Bin Tip
     0x2C50 [0x2C20] Tip) 0x2C51 [0x2C21] Tip) 0x2C52 [0x2C22] (Bin (Bin Tip 0x2C53 [0x2C23]
     Tip) 0x2C54 [0x2C24] Tip)) 0x2C55 [0x2C25] (Bin (Bin (Bin Tip 0x2C56 [0x2C26] Tip)
     0x2C57 [0x2C27] Tip) 0x2C58 [0x2C28] (Bin (Bin Tip 0x2C59 [0x2C29] Tip) 0x2C5A [0x2C2A]
     Tip)))) 0x2C5B [0x2C2B] (Bin (Bin (Bin (Bin (Bin Tip 0x2C5C [0x2C2C] Tip) 0x2C5D
     [0x2C2D] Tip) 0x2C5E [0x2C2E] (Bin (Bin Tip 0x2C5F [0x2C2F] Tip) 0x2C61 [0x2C60] Tip))
     0x2C65 [0x23A] (Bin (Bin (Bin Tip 0x2C66 [0x23E] Tip) 0x2C68 [0x2C67] Tip) 0x2C6A
     [0x2C69] (Bin (Bin Tip 0x2C6C [0x2C6B] Tip) 0x2C73 [0x2C72] Tip))) 0x2C76 [0x2C75] (Bin
     (Bin (Bin (Bin Tip 0x2C81 [0x2C80] Tip) 0x2C83 [0x2C82] Tip) 0x2C85 [0x2C84] (Bin (Bin
     Tip 0x2C87 [0x2C86] Tip) 0x2C89 [0x2C88] Tip)) 0x2C8B [0x2C8A] (Bin (Bin (Bin Tip 0x2C8D
     [0x2C8C] Tip) 0x2C8F [0x2C8E] Tip) 0x2C91 [0x2C90] (Bin Tip 0x2C93 [0x2C92] Tip))))))"

definition upper_tree_5 :: utree where
  "upper_tree_5 =
     Bin (Bin (Bin (Bin (Bin (Bin (Bin (Bin Tip 0x2C97 [0x2C96] Tip) 0x2C99 [0x2C98] Tip)
     0x2C9B [0x2C9A] (Bin (Bin Tip 0x2C9D [0x2C9C] Tip) 0x2C9F [0x2C9E] Tip)) 0x2CA1 [0x2CA0]
     (Bin (Bin (Bin Tip 0x2CA3 [0x2CA2] Tip) 0x2CA5 [0x2CA4] Tip) 0x2CA7 [0x2CA6] (Bin (Bin
     Tip 0x2CA9 [0x2CA8] Tip) 0x2CAB [0x2CAA] Tip))) 0x2CAD [0x2CAC] (Bin (Bin (Bin (Bin Tip
     0x2CAF [0x2CAE] Tip) 0x2CB1 [0x2CB0] Tip) 0x2CB3 [0x2CB2] (Bin (Bin Tip 0x2CB5 [0x2CB4]
     Tip) 0x2CB7 [0x2CB6] Tip)) 0x2CB9 [0x2CB8] (Bin (Bin (Bin Tip 0x2CBB [0x2CBA] Tip)
     0x2CBD [0x2CBC] Tip) 0x2CBF [0x2CBE] (Bin (Bin Tip 0x2CC1 [0x2CC0] Tip) 0x2CC3 [0x2CC2]
     Tip)))) 0x2CC5 [0x2CC4] (Bin (Bin (Bin (Bin (Bin Tip 0x2CC7 [0x2CC6] Tip) 0x2CC9
     [0x2CC8] Tip) 0x2CCB [0x2CCA] (Bin (Bin Tip 0x2CCD [0x2CCC] Tip) 0x2CCF [0x2CCE] Tip))
     0x2CD1 [0x2CD0] (Bin (Bin (Bin Tip 0x2CD3 [0x2CD2] Tip) 0x2CD5 [0x2CD4] Tip) 0x2CD7
     [0x2CD6] (Bin (Bin Tip 0x2CD9 [0x2CD8] Tip) 0x2CDB [0x2CDA] Tip))) 0x2CDD [0x2CDC] (Bin
     (Bin (Bin (Bin Tip 0x2CDF [0x2CDE] Tip) 0x2CE1 [0x2CE0] Tip) 0x2CE3 [0x2CE2] (Bin (Bin
     Tip 0x2CEC [0x2CEB] Tip) 0x2CEE [0x2CED] Tip)) 0x2CF3 [0x2CF2] (Bin (Bin (Bin Tip 0x2D00
     [0x10A0] Tip) 0x2D01 [0x10A1] Tip) 0x2D02 [0x10A2] (Bin (Bin Tip 0x2D03 [0x10A3] Tip)
     0x2D04 [0x10A4] Tip))))) 0x2D05 [0x10A5] (Bin (Bin (Bin (Bin (Bin (Bin Tip 0x2D06
     [0x10A6] Tip) 0x2D07 [0x10A7] Tip) 0x2D08 [0x10A8] (Bin (Bin Tip 0x2D09 [0x10A9] Tip)
     0x2D0A [0x10AA] Tip)) 0x2D0B [0x10AB] (Bin (Bin (Bin Tip 0x2D0C [0x10AC] Tip) 0x2D0D
     [0x10AD] Tip) 0x2D0E [0x10AE] (Bin (Bin Tip 0x2D0F [0x10AF] Tip) 0x2D10 [0x10B0] Tip)))
     0x2D11 [0x10B1] (Bin (Bin (Bin (Bin Tip 0x2D12 [0x10B2] Tip) 0x2D13 [0x10B3] Tip) 0x2D14
     [0x10B4] (Bin (Bin Tip 0x2D15 [0x10B5] Tip) 0x2D16 [0x10B6] Tip)) 0x2D17 [0x10B7] (Bin
     (Bin (Bin Tip 0x2D18 [0x10B8] Tip) 0x2D19 [0x10B9] Tip) 0x2D1A [0x10BA] (Bin (Bin Tip
     0x2D1B [0x10BB] Tip) 0x2D1C [0x10BC] Tip)))) 0x2D1D [0x10BD] (Bin (Bin (Bin (Bin (Bin
     Tip 0x2D1E [0x10BE] Tip) 0x2D1F [0x10BF] Tip) 0x2D20 [0x10C0] (Bin (Bin Tip 0x2D21
     [0x10C1] Tip) 0x2D22 [0x10C2] Tip)) 0x2D23 [0x10C3] (Bin (Bin (Bin Tip 0x2D24 [0x10C4]
     Tip) 0x2D25 [0x10C5] Tip) 0x2D27 [0x10C7] (Bin (Bin Tip 0x2D2D [0x10CD] Tip) 0xA641
     [0xA640] Tip))) 0xA643 [0xA642] (Bin (Bin (Bin (Bin Tip 0xA645 [0xA644] Tip) 0xA647
     [0xA646] Tip) 0xA649 [0xA648] (Bin (Bin Tip 0xA64B [0xA64A] Tip) 0xA64D [0xA64C] Tip))
     0xA64F [0xA64E] (Bin (Bin (Bin Tip 0xA651 [0xA650] Tip) 0xA653 [0xA652] Tip) 0xA655
     [0xA654] (Bin (Bin Tip 0xA657 [0xA656] Tip) 0xA659 [0xA658] Tip)))))) 0xA65B [0xA65A]
     (Bin (Bin (Bin (Bin (Bin (Bin (Bin Tip 0xA65D [0xA65C] Tip) 0xA65F [0xA65E] Tip) 0xA661
     [0xA660] (Bin (Bin Tip 0xA663 [0xA662] Tip) 0xA665 [0xA664] Tip)) 0xA667 [0xA666] (Bin
     (Bin (Bin Tip 0xA669 [0xA668] Tip) 0xA66B [0xA66A] Tip) 0xA66D [0xA66C] (Bin (Bin Tip
     0xA681 [0xA680] Tip) 0xA683 [0xA682] Tip))) 0xA685 [0xA684] (Bin (Bin (Bin (Bin Tip
     0xA687 [0xA686] Tip) 0xA689 [0xA688] Tip) 0xA68B [0xA68A] (Bin (Bin Tip 0xA68D [0xA68C]
     Tip) 0xA68F [0xA68E] Tip)) 0xA691 [0xA690] (Bin (Bin (Bin Tip 0xA693 [0xA692] Tip)
     0xA695 [0xA694] Tip) 0xA697 [0xA696] (Bin (Bin Tip 0xA699 [0xA698] Tip) 0xA69B [0xA69A]
     Tip)))) 0xA723 [0xA722] (Bin (Bin (Bin (Bin (Bin Tip 0xA725 [0xA724] Tip) 0xA727
     [0xA726] Tip) 0xA729 [0xA728] (Bin (Bin Tip 0xA72B [0xA72A] Tip) 0xA72D [0xA72C] Tip))
     0xA72F [0xA72E] (Bin (Bin (Bin Tip 0xA733 [0xA732] Tip) 0xA735 [0xA734] Tip) 0xA737
     [0xA736] (Bin (Bin Tip 0xA739 [0xA738] Tip) 0xA73B [0xA73A] Tip))) 0xA73D [0xA73C] (Bin
     (Bin (Bin (Bin Tip 0xA73F [0xA73E] Tip) 0xA741 [0xA740] Tip) 0xA743 [0xA742] (Bin (Bin
     Tip 0xA745 [0xA744] Tip) 0xA747 [0xA746] Tip)) 0xA749 [0xA748] (Bin (Bin (Bin Tip 0xA74B
     [0xA74A] Tip) 0xA74D [0xA74C] Tip) 0xA74F [0xA74E] (Bin (Bin Tip 0xA751 [0xA750] Tip)
     0xA753 [0xA752] Tip))))) 0xA755 [0xA754] (Bin (Bin (Bin (Bin (Bin (Bin Tip 0xA757
     [0xA756] Tip) 0xA759 [0xA758] Tip) 0xA75B [0xA75A] (Bin (Bin Tip 0xA75D [0xA75C] Tip)
     0xA75F [0xA75E] Tip)) 0xA761 [0xA760] (Bin (Bin (Bin Tip 0xA763 [0xA762] Tip) 0xA765
     [0xA764] Tip) 0xA767 [0xA766] (Bin (Bin Tip 0xA769 [0xA768] Tip) 0xA76B [0xA76A] Tip)))
     0xA76D [0xA76C] (Bin (Bin (Bin (Bin Tip 0xA76F [0xA76E] Tip) 0xA77A [0xA779] Tip) 0xA77C
     [0xA77B] (Bin (Bin Tip 0xA77F [0xA77E] Tip) 0xA781 [0xA780] Tip)) 0xA783 [0xA782] (Bin
     (Bin (Bin Tip 0xA785 [0xA784] Tip) 0xA787 [0xA786] Tip) 0xA78C [0xA78B] (Bin (Bin Tip
     0xA791 [0xA790] Tip) 0xA793 [0xA792] Tip)))) 0xA794 [0xA7C4] (Bin (Bin (Bin (Bin (Bin
     Tip 0xA797 [0xA796] Tip) 0xA799 [0xA798] Tip) 0xA79B [0xA79A] (Bin (Bin Tip 0xA79D
     [0xA79C] Tip) 0xA79F [0xA79E] Tip)) 0xA7A1 [0xA7A0] (Bin (Bin (Bin Tip 0xA7A3 [0xA7A2]
     Tip) 0xA7A5 [0xA7A4] Tip) 0xA7A7 [0xA7A6] (Bin (Bin Tip 0xA7A9 [0xA7A8] Tip) 0xA7B5
     [0xA7B4] Tip))) 0xA7B7 [0xA7B6] (Bin (Bin (Bin (Bin Tip 0xA7B9 [0xA7B8] Tip) 0xA7BB
     [0xA7BA] Tip) 0xA7BD [0xA7BC] (Bin (Bin Tip 0xA7BF [0xA7BE] Tip) 0xA7C1 [0xA7C0] Tip))
     0xA7C3 [0xA7C2] (Bin (Bin (Bin Tip 0xA7C8 [0xA7C7] Tip) 0xA7CA [0xA7C9] Tip) 0xA7D1
     [0xA7D0] (Bin Tip 0xA7D7 [0xA7D6] Tip))))))"

definition upper_tree_6 :: utree where
  "upper_tree_6 =
     Bin (Bin (Bin (Bin (Bin (Bin (Bin (Bin Tip 0xA7F6 [0xA7F5] Tip) 0xAB53 [0xA7B3] Tip)
     0xAB70 [0x13A0] (Bin (Bin Tip 0xAB71 [0x13A1] Tip) 0xAB72 [0x13A2] Tip)) 0xAB73 [0x13A3]
     (Bin (Bin (Bin Tip 0xAB74 [0x13A4] Tip) 0xAB75 [0x13A5] Tip) 0xAB76 [0x13A6] (Bin (Bin
     Tip 0xAB77 [0x13A7] Tip) 0xAB78 [0x13A8] Tip))) 0xAB79 [0x13A9] (Bin (Bin (Bin (Bin Tip
     0xAB7A [0x13AA] Tip) 0xAB7B [0x13AB] Tip) 0xAB7C [0x13AC] (Bin (Bin Tip 0xAB7D [0x13AD]
     Tip) 0xAB7E [0x13AE] Tip)) 0xAB7F [0x13AF] (Bin (Bin (Bin Tip 0xAB80 [0x13B0] Tip)
     0xAB81 [0x13B1] Tip) 0xAB82 [0x13B2] (Bin (Bin Tip 0xAB83 [0x13B3] Tip) 0xAB84 [0x13B4]
     Tip)))) 0xAB85 [0x13B5] (Bin (Bin (Bin (Bin (Bin Tip 0xAB86 [0x13B6] Tip) 0xAB87
     [0x13B7] Tip) 0xAB88 [0x13B8] (Bin (Bin Tip 0xAB89 [0x13B9] Tip) 0xAB8A [0x13BA] Tip))
     0xAB8B [0x13BB] (Bin (Bin (Bin Tip 0xAB8C [0x13BC] Tip) 0xAB8D [0x13BD] Tip) 0xAB8E
     [0x13BE] (Bin (Bin Tip 0xAB8F [0x13BF] Tip) 0xAB90 [0x13C0] Tip))) 0xAB91 [0x13C1] (Bin
     (Bin (Bin (Bin Tip 0xAB92 [0x13C2] Tip) 0xAB93 [0x13C3] Tip) 0xAB94 [0x13C4] (Bin (Bin
     Tip 0xAB95 [0x13C5] Tip) 0xAB96 [0x13C6] Tip)) 0xAB97 [0x13C7] (Bin (Bin (Bin Tip 0xAB98
     [0x13C8] Tip) 0xAB99 [0x13C9] Tip) 0xAB9A [0x13CA] (Bin (Bin Tip 0xAB9B [0x13CB] Tip)
     0xAB9C [0x13CC] Tip))))) 0xAB9D [0x13CD] (Bin (Bin (Bin (Bin (Bin (Bin Tip 0xAB9E
     [0x13CE] Tip) 0xAB9F [0x13CF] Tip) 0xABA0 [0x13D0] (Bin (Bin Tip 0xABA1 [0x13D1] Tip)
     0xABA2 [0x13D2] Tip)) 0xABA3 [0x13D3] (Bin (Bin (Bin Tip 0xABA4 [0x13D4] Tip) 0xABA5
     [0x13D5] Tip) 0xABA6 [0x13D6] (Bin (Bin Tip 0xABA7 [0x13D7] Tip) 0xABA8 [0x13D8] Tip)))
     0xABA9 [0x13D9] (Bin (Bin (Bin (Bin Tip 0xABAA [0x13DA] Tip) 0xABAB [0x13DB] Tip) 0xABAC
     [0x13DC] (Bin (Bin Tip 0xABAD [0x13DD] Tip) 0xABAE [0x13DE] Tip)) 0xABAF [0x13DF] (Bin
     (Bin (Bin Tip 0xABB0 [0x13E0] Tip) 0xABB1 [0x13E1] Tip) 0xABB2 [0x13E2] (Bin (Bin Tip
     0xABB3 [0x13E3] Tip) 0xABB4 [0x13E4] Tip)))) 0xABB5 [0x13E5] (Bin (Bin (Bin (Bin (Bin
     Tip 0xABB6 [0x13E6] Tip) 0xABB7 [0x13E7] Tip) 0xABB8 [0x13E8] (Bin (Bin Tip 0xABB9
     [0x13E9] Tip) 0xABBA [0x13EA] Tip)) 0xABBB [0x13EB] (Bin (Bin (Bin Tip 0xABBC [0x13EC]
     Tip) 0xABBD [0x13ED] Tip) 0xABBE [0x13EE] (Bin (Bin Tip 0xABBF [0x13EF] Tip) 0xFB00
     [0x46, 0x46] Tip))) 0xFB01 [0x46, 0x49] (Bin (Bin (Bin (Bin Tip 0xFB02 [0x46, 0x4C] Tip)
     0xFB03 [0x46, 0x46, 0x49] Tip) 0xFB04 [0x46, 0x46, 0x4C] (Bin (Bin Tip 0xFB05 [0x53,
     0x54] Tip) 0xFB06 [0x53, 0x54] Tip)) 0xFB13 [0x544, 0x546] (Bin (Bin (Bin Tip 0xFB14
     [0x544, 0x535] Tip) 0xFB15 [0x544, 0x53B] Tip) 0xFB16 [0x54E, 0x546] (Bin (Bin Tip
     0xFB17 [0x544, 0x53D] Tip) 0xFF41 [0xFF21] Tip)))))) 0xFF42 [0xFF22] (Bin (Bin (Bin (Bin
     (Bin (Bin (Bin Tip 0xFF43 [0xFF23] Tip) 0xFF44 [0xFF24] Tip) 0xFF45 [0xFF25] (Bin (Bin
     Tip 0xFF46 [0xFF26] Tip) 0xFF47 [0xFF27] Tip)) 0xFF48 [0xFF28] (Bin (Bin (Bin Tip 0xFF49
     [0xFF29] Tip) 0xFF4A [0xFF2A] Tip) 0xFF4B [0xFF2B] (Bin (Bin Tip 0xFF4C [0xFF2C] Tip)
     0xFF4D [0xFF2D] Tip))) 0xFF4E [0xFF2E] (Bin (Bin (Bin (Bin Tip 0xFF4F [0xFF2F] Tip)
     0xFF50 [0xFF30] Tip) 0xFF51 [0xFF31] (Bin (Bin Tip 0xFF52 [0xFF32] Tip) 0xFF53 [0xFF33]
     Tip)) 0xFF54 [0xFF34] (Bin (Bin (Bin Tip 0xFF55 [0xFF35] Tip) 0xFF56 [0xFF36] Tip)
     0xFF57 [0xFF37] (Bin (Bin Tip 0xFF58 [0xFF38] Tip) 0xFF59 [0xFF39] Tip)))) 0xFF5A
     [0xFF3A] (Bin (Bin (Bin (Bin (Bin Tip 0x10428 [0x10400] Tip) 0x10429 [0x10401] Tip)
     0x1042A [0x10402] (Bin (Bin Tip 0x1042B [0x10403] Tip) 0x1042C [0x10404] Tip)) 0x1042D
     [0x10405] (Bin (Bin (Bin Tip 0x1042E [0x10406] Tip) 0x1042F [0x10407] Tip) 0x10430
     [0x10408] (Bin (Bin Tip 0x10431 [0x10409] Tip) 0x10432 [0x1040A] Tip))) 0x10433
     [0x1040B] (Bin (Bin (Bin (Bin Tip 0x10434 [0x1040C] Tip) 0x10435 [0x1040D] Tip) 0x10436
     [0x1040E] (Bin (Bin Tip 0x10437 [0x1040F] Tip) 0x10438 [0x10410] Tip)) 0x10439 [0x10411]
     (Bin (Bin (Bin Tip 0x1043A [0x10412] Tip) 0x1043B [0x10413] Tip) 0x1043C [0x10414] (Bin
     (Bin Tip 0x1043D [0x10415] Tip) 0x1043E [0x10416] Tip))))) 0x1043F [0x10417] (Bin (Bin
     (Bin (Bin (Bin (Bin Tip 0x10440 [0x10418] Tip) 0x10441 [0x10419] Tip) 0x10442 [0x1041A]
     (Bin (Bin Tip 0x10443 [0x1041B] Tip) 0x10444 [0x1041C] Tip)) 0x10445 [0x1041D] (Bin (Bin
     (Bin Tip 0x10446 [0x1041E] Tip) 0x10447 [0x1041F] Tip) 0x10448 [0x10420] (Bin (Bin Tip
     0x10449 [0x10421] Tip) 0x1044A [0x10422] Tip))) 0x1044B [0x10423] (Bin (Bin (Bin (Bin
     Tip 0x1044C [0x10424] Tip) 0x1044D [0x10425] Tip) 0x1044E [0x10426] (Bin (Bin Tip
     0x1044F [0x10427] Tip) 0x104D8 [0x104B0] Tip)) 0x104D9 [0x104B1] (Bin (Bin (Bin Tip
     0x104DA [0x104B2] Tip) 0x104DB [0x104B3] Tip) 0x104DC [0x104B4] (Bin (Bin Tip 0x104DD
     [0x104B5] Tip) 0x104DE [0x104B6] Tip)))) 0x104DF [0x104B7] (Bin (Bin (Bin (Bin (Bin Tip
     0x104E0 [0x104B8] Tip) 0x104E1 [0x104B9] Tip) 0x104E2 [0x104BA] (Bin (Bin Tip 0x104E3
     [0x104BB] Tip) 0x104E4 [0x104BC] Tip)) 0x104E5 [0x104BD] (Bin (Bin (Bin Tip 0x104E6
     [0x104BE] Tip) 0x104E7 [0x104BF] Tip) 0x104E8 [0x104C0] (Bin (Bin Tip 0x104E9 [0x104C1]
     Tip) 0x104EA [0x104C2] Tip))) 0x104EB [0x104C3] (Bin (Bin (Bin (Bin Tip 0x104EC
     [0x104C4] Tip) 0x104ED [0x104C5] Tip) 0x104EE [0x104C6] (Bin (Bin Tip 0x104EF [0x104C7]
     Tip) 0x104F0 [0x104C8] Tip)) 0x104F1 [0x104C9] (Bin (Bin (Bin Tip 0x104F2 [0x104CA] Tip)
     0x104F3 [0x104CB] Tip) 0x104F4 [0x104CC] (Bin Tip 0x104F5 [0x104CD] Tip))))))"

definition upper_tree_7 :: utree where
  "upper_tree_7 =
     Bin (Bin (Bin (Bin (Bin (Bin (Bin (Bin Tip 0x104F7 [0x104CF] Tip) 0x104F8 [0x104D0] Tip)
     0x104F9 [0x104D1] (Bin (Bin Tip 0x104FA [0x104D2] Tip) 0x104FB [0x104D3] Tip)) 0x10597
     [0x10570] (Bin (Bin (Bin Tip 0x10598 [0x10571] Tip) 0x10599 [0x10572] Tip) 0x1059A
     [0x10573] (Bin (Bin Tip 0x1059B [0x10574] Tip) 0x1059C [0x10575] Tip))) 0x1059D
     [0x10576] (Bin (Bin (Bin (Bin Tip 0x1059E [0x10577] Tip) 0x1059F [0x10578] Tip) 0x105A0
     [0x10579] (Bin (Bin Tip 0x105A1 [0x1057A] Tip) 0x105A3 [0x1057C] Tip)) 0x105A4 [0x1057D]
     (Bin (Bin (Bin Tip 0x105A5 [0x1057E] Tip) 0x105A6 [0x1057F] Tip) 0x105A7 [0x10580] (Bin
     (Bin Tip 0x105A8 [0x10581] Tip) 0x105A9 [0x10582] Tip)))) 0x105AA [0x10583] (Bin (Bin
     (Bin (Bin (Bin Tip 0x105AB [0x10584] Tip) 0x105AC [0x10585] Tip) 0x105AD [0x10586] (Bin
     (Bin Tip 0x105AE [0x10587] Tip) 0x105AF [0x10588] Tip)) 0x105B0 [0x10589] (Bin (Bin (Bin
     Tip 0x105B1 [0x1058A] Tip) 0x105B3 [0x1058C] Tip) 0x105B4 [0x1058D] (Bin (Bin Tip
     0x105B5 [0x1058E] Tip) 0x105B6 [0x1058F] Tip))) 0x105B7 [0x10590] (Bin (Bin (Bin (Bin
     Tip 0x105B8 [0x10591] Tip) 0x105B9 [0x10592] Tip) 0x105BB [0x10594] (Bin (Bin Tip
     0x105BC [0x10595] Tip) 0x10CC0 [0x10C80] Tip)) 0x10CC1 [0x10C81] (Bin (Bin (Bin Tip
     0x10CC2 [0x10C82] Tip) 0x10CC3 [0x10C83] Tip) 0x10CC4 [0x10C84] (Bin (Bin Tip 0x10CC5
     [0x10C85] Tip) 0x10CC6 [0x10C86] Tip))))) 0x10CC7 [0x10C87] (Bin (Bin (Bin (Bin (Bin
     (Bin Tip 0x10CC8 [0x10C88] Tip) 0x10CC9 [0x10C89] Tip) 0x10CCA [0x10C8A] (Bin (Bin Tip
     0x10CCB [0x10C8B] Tip) 0x10CCC [0x10C8C] Tip)) 0x10CCD [0x10C8D] (Bin (Bin (Bin Tip
     0x10CCE [0x10C8E] Tip) 0x10CCF [0x10C8F] Tip) 0x10CD0 [0x10C90] (Bin (Bin Tip 0x10CD1
     [0x10C91] Tip) 0x10CD2 [0x10C92] Tip))) 0x10CD3 [0x10C93] (Bin (Bin (Bin (Bin Tip
     0x10CD4 [0x10C94] Tip) 0x10CD5 [0x10C95] Tip) 0x10CD6 [0x10C96] (Bin (Bin Tip 0x10CD7
     [0x10C97] Tip) 0x10CD8 [0x10C98] Tip)) 0x10CD9 [0x10C99] (Bin (Bin (Bin Tip 0x10CDA
     [0x10C9A] Tip) 0x10CDB [0x10C9B] Tip) 0x10CDC [0x10C9C] (Bin (Bin Tip 0x10CDD [0x10C9D]
     Tip) 0x10CDE [0x10C9E] Tip)))) 0x10CDF [0x10C9F] (Bin (Bin (Bin (Bin (Bin Tip 0x10CE0
     [0x10CA0] Tip) 0x10CE1 [0x10CA1] Tip) 0x10CE2 [0x10CA2] (Bin (Bin Tip 0x10CE3 [0x10CA3]
     Tip) 0x10CE4 [0x10CA4] Tip)) 0x10CE5 [0x10CA5] (Bin (Bin (Bin Tip 0x10CE6 [0x10CA6] Tip)
     0x10CE7 [0x10CA7] Tip) 0x10CE8 [0x10CA8] (Bin (Bin Tip 0x10CE9 [0x10CA9] Tip) 0x10CEA
     [0x10CAA] Tip))) 0x10CEB [0x10CAB] (Bin (Bin (Bin (Bin Tip 0x10CEC [0x10CAC] Tip)
     0x10CED [0x10CAD] Tip) 0x10CEE [0x10CAE] (Bin (Bin Tip 0x10CEF [0x10CAF] Tip) 0x10CF0
     [0x10CB0] Tip)) 0x10CF1 [0x10CB1] (Bin (Bin (Bin Tip 0x10CF2 [0x10CB2] Tip) 0x118C0
     [0x118A0] Tip) 0x118C1 [0x118A1] (Bin Tip 0x118C2 [0x118A2] Tip)))))) 0x118C3 [0x118A3]
     (Bin (Bin (Bin (Bin (Bin (Bin (Bin Tip 0x118C4 [0x118A4] Tip) 0x118C5 [0x118A5] Tip)
     0x118C6 [0x118A6] (Bin (Bin Tip 0x118C7 [0x118A7] Tip) 0x118C8 [0x118A8] Tip)) 0x118C9
     [0x118A9] (Bin (Bin (Bin Tip 0x118CA [0x118AA] Tip) 0x118CB [0x118AB] Tip) 0x118CC
     [0x118AC] (Bin (Bin Tip 0x118CD [0x118AD] Tip) 0x118CE [0x118AE] Tip))) 0x118CF
     [0x118AF] (Bin (Bin (Bin (Bin Tip 0x118D0 [0x118B0] Tip) 0x118D1 [0x118B1] Tip) 0x118D2
     [0x118B2] (Bin (Bin Tip 0x118D3 [0x118B3] Tip) 0x118D4 [0x118B4] Tip)) 0x118D5 [0x118B5]
     (Bin (Bin (Bin Tip 0x118D6 [0x118B6] Tip) 0x118D7 [0x118B7] Tip) 0x118D8 [0x118B8] (Bin
     (Bin Tip 0x118D9 [0x118B9] Tip) 0x118DA [0x118BA] Tip)))) 0x118DB [0x118BB] (Bin (Bin
     (Bin (Bin (Bin Tip 0x118DC [0x118BC] Tip) 0x118DD [0x118BD] Tip) 0x118DE [0x118BE] (Bin
     (Bin Tip 0x118DF [0x118BF] Tip) 0x16E60 [0x16E40] Tip)) 0x16E61 [0x16E41] (Bin (Bin (Bin
     Tip 0x16E62 [0x16E42] Tip) 0x16E63 [0x16E43] Tip) 0x16E64 [0x16E44] (Bin (Bin Tip
     0x16E65 [0x16E45] Tip) 0x16E66 [0x16E46] Tip))) 0x16E67 [0x16E47] (Bin (Bin (Bin (Bin
     Tip 0x16E68 [0x16E48] Tip) 0x16E69 [0x16E49] Tip) 0x16E6A [0x16E4A] (Bin (Bin Tip
     0x16E6B [0x16E4B] Tip) 0x16E6C [0x16E4C] Tip)) 0x16E6D [0x16E4D] (Bin (Bin (Bin Tip
     0x16E6E [0x16E4E] Tip) 0x16E6F [0x16E4F] Tip) 0x16E70 [0x16E50] (Bin (Bin Tip 0x16E71
     [0x16E51] Tip) 0x16E72 [0x16E52] Tip))))) 0x16E73 [0x16E53] (Bin (Bin (Bin (Bin (Bin
     (Bin Tip 0x16E74 [0x16E54] Tip) 0x16E75 [0x16E55] Tip) 0x16E76 [0x16E56] (Bin (Bin Tip
     0x16E77 [0x16E57] Tip) 0x16E78 [0x16E58] Tip)) 0x16E79 [0x16E59] (Bin (Bin (Bin Tip
     0x16E7A [0x16E5A] Tip) 0x16E7B [0x16E5B] Tip) 0x16E7C [0x16E5C] (Bin (Bin Tip 0x16E7D
     [0x16E5D] Tip) 0x16E7E [0x16E5E] Tip))) 0x16E7F [0x16E5F] (Bin (Bin (Bin (Bin Tip
     0x1E922 [0x1E900] Tip) 0x1E923 [0x1E901] Tip) 0x1E924 [0x1E902] (Bin (Bin Tip 0x1E925
     [0x1E903] Tip) 0x1E926 [0x1E904] Tip)) 0x1E927 [0x1E905] (Bin (Bin (Bin Tip 0x1E928
     [0x1E906] Tip) 0x1E929 [0x1E907] Tip) 0x1E92A [0x1E908] (Bin (Bin Tip 0x1E92B [0x1E909]
     Tip) 0x1E92C [0x1E90A] Tip)))) 0x1E92D [0x1E90B] (Bin (Bin (Bin (Bin (Bin Tip 0x1E92E
     [0x1E90C] Tip) 0x1E92F [0x1E90D] Tip) 0x1E930 [0x1E90E] (Bin (Bin Tip 0x1E931 [0x1E90F]
     Tip) 0x1E932 [0x1E910] Tip)) 0x1E933 [0x1E911] (Bin (Bin (Bin Tip 0x1E934 [0x1E912] Tip)
     0x1E935 [0x1E913] Tip) 0x1E936 [0x1E914] (Bin (Bin Tip 0x1E937 [0x1E915] Tip) 0x1E938
     [0x1E916] Tip))) 0x1E939 [0x1E917] (Bin (Bin (Bin (Bin Tip 0x1E93A [0x1E918] Tip)
     0x1E93B [0x1E919] Tip) 0x1E93C [0x1E91A] (Bin (Bin Tip 0x1E93D [0x1E91B] Tip) 0x1E93E
     [0x1E91C] Tip)) 0x1E93F [0x1E91D] (Bin (Bin (Bin Tip 0x1E940 [0x1E91E] Tip) 0x1E941
     [0x1E91F] Tip) 0x1E942 [0x1E920] (Bin Tip 0x1E943 [0x1E921] Tip))))))"

definition upper_tree :: utree where
  "upper_tree =
     Bin (Bin (Bin upper_tree_0 0x21D [0x21C] upper_tree_1) 0x48F [0x48E] (Bin upper_tree_2
     0x1E0F [0x1E0E] upper_tree_3)) 0x1F82 [0x1F0A, 0x399] (Bin (Bin upper_tree_4 0x2C95
     [0x2C94] upper_tree_5) 0xA7D9 [0xA7D8] (Bin upper_tree_6 0x104F6 [0x104CE]
     upper_tree_7))"

text \<open>
  What holds of every entry of the table: the code point is a small letter or beyond, and
  its upper-case form is not empty and consists of code points from \<open>A\<close> on that are
  not white space and have no entry of their own.
\<close>

definition upper_entry_ok :: "nat \<times> nat list \<Rightarrow> bool" where
  "upper_entry_ok e \<longleftrightarrow>
     0x61 \<le> fst e \<and> snd e \<noteq> [] \<and>
     list_all (\<lambda>d. 0x41 \<le> d \<and> \<not> is_space d \<and> tree_lookup upper_tree d = None) (snd e)"

text \<open>
  The size of the group of a prefix: how many of the identifiers have at least \<open>n\<close>
  characters and \<open>p\<close> as their first \<open>n\<close> characters.
\<close>

definition group_size :: "nat \<Rightarrow> ustring \<Rightarrow> ustring list \<Rightarrow> nat" where
  "group_size n p strs = length (filter (\<lambda>s. n \<le> length s \<and> take n s = p) strs)"

text \<open>
  The identifier that the catalog should hold for a key: that of the last row whose
  trimmed key (column \<open>f\<close>) is \<open>k\<close> and which is not skipped.
\<close>

definition latest_identifier :: "(catalog_row \<Rightarrow> cell) \<Rightarrow> catalog_row list \<Rightarrow> ustring \<Rightarrow> ustring option" where
  "latest_identifier f rows k =
     (case filter (\<lambda>r. usable (cell_strip (f r)) \<and> usable (cell_strip (row_vtrac r)) \<and>
                        cell_strip (f r) = k) rows of
        [] \<Rightarrow> None
      | r # rs \<Rightarrow> Some (cell_strip (row_vtrac (last (r # rs)))))"

text \<open>A trimmed, non-empty string other than \<open>"nan"\<close>.\<close>

definition trimmed :: "ustring \<Rightarrow> bool" where
  "trimmed x \<longleftrightarrow> strip x = x \<and> x \<noteq> [] \<and> x \<noteq> ustr ''nan''"

section \<open>Properties of the normalizer\<close>

lemma tree_lookup_cong: "c = c' \<Longrightarrow> tree_lookup t c = tree_lookup t c'"
  by simp

lemmas upper_tree_lookups =
  fun_cong [OF arg_cong [where f = tree_lookup, OF upper_tree_def]]
  fun_cong [OF arg_cong [where f = tree_lookup, OF upper_tree_0_def]]
  fun_cong [OF arg_cong [where f = tree_lookup, OF upper_tree_1_def]]
  fun_cong [OF arg_cong [where f = tree_lookup, OF upper_tree_2_def]]
  fun_cong [OF arg_cong [where f = tree_lookup, OF upper_tree_3_def]]
  fun_cong [OF arg_cong [where f = tree_lookup, OF upper_tree_4_def]]
  fun_cong [OF arg_cong [where f = tree_lookup, OF upper_tree_5_def]]
  fun_cong [OF arg_cong [where f = tree_lookup, OF upper_tree_6_def]]
  fun_cong [OF arg_cong [where f = tree_lookup, OF upper_tree_7_def]]

lemma entries_upper_tree_0: "entries upper_tree_0 = upper_table_0"
  by (simp add: upper_tree_0_def upper_table_0_def)

lemma entries_upper_tree_1: "entries upper_tree_1 = upper_table_1"
  by (simp add: upper_tree_1_def upper_table_1_def)

lemma entries_upper_tree_2: "entries upper_tree_2 = upper_table_2"
  by (simp add: upper_tree_2_def upper_table_2_def)

lemma entries_upper_tree_3: "entries upper_tree_3 = upper_table_3"
  by (simp add: upper_tree_3_def upper_table_3_def)

lemma entries_upper_tree_4: "entries upper_tree_4 = upper_table_4"
  by (simp add: upper_tree_4_def upper_table_4_def)

lemma entries_upper_tree_5: "entries upper_tree_5 = upper_table_5"
  by (simp add: upper_tree_5_def upper_table_5_def)

lemma entries_upper_tree_6: "entries upper_tree_6 = upper_table_6"
  by (simp add: upper_tree_6_def upper_table_6_def)

lemma entries_upper_tree_7: "entries upper_tree_7 = upper_table_7"
  by (simp add: upper_tree_7_def upper_table_7_def)

lemma entries_upper_tree: "entries upper_tree = upper_table"
  by (simp add: upper_tree_def upper_table_def
      entries_upper_tree_0 entries_upper_tree_1 entries_upper_tree_2 entries_upper_tree_3 entries_upper_tree_4 entries_upper_tree_5 entries_upper_tree_6 entries_upper_tree_7)

lemma increasing_upper_table: "increasing (map fst upper_table)"
  by (simp add: upper_table_def
      upper_table_0_def upper_table_1_def upper_table_2_def upper_table_3_def upper_table_4_def upper_table_5_def upper_table_6_def upper_table_7_def)

lemma increasing_sorted: "increasing xs \<Longrightarrow> sorted_wrt (<) xs"
proof (induction xs rule: increasing.induct)
  case 1
  show ?case by simp
next
  case (2 x)
  show ?case by simp
next
  case (3 x y ys)
  then have xy: "x < y" and s: "sorted_wrt (<) (y # ys)" by simp_all
  then have "\<forall>z\<in>set ys. x < z" by fastforce
  with xy s show ?case by simp
qed

lemma tree_lookup_map_of:
  "sorted_wrt (<) (map fst (entries t)) \<Longrightarrow> tree_lookup t c = map_of (entries t) c"
proof (induction t)
  case Tip
  show ?case by simp
next
  case (Bin l k u r)
  from Bin.prems have sl: "sorted_wrt (<) (map fst (entries l))"
    and sr: "sorted_wrt (<) (map fst (entries r))"
    and bl: "\<forall>x\<in>set (entries l). fst x < k"
    and br: "\<forall>y\<in>set (entries r). k < fst y"
    by (auto simp: sorted_wrt_append)
  have app: "map_of (entries (Bin l k u r)) c =
      (case map_of (entries l) c of None \<Rightarrow> map_of ((k, u) # entries r) c | Some v \<Rightarrow> Some v)"
    by (cases "map_of (entries l) c") (simp_all add: map_add_def)
  show ?case
  proof (cases "c < k")
    case True
    with br have "c \<notin> fst ` set ((k, u) # entries r)" by auto
    then have rn: "map_of ((k, u) # entries r) c = None"
      by (metis map_of_eq_None_iff)
    have "tree_lookup (Bin l k u r) c = tree_lookup l c"
      using True by simp
    also have "\<dots> = map_of (entries l) c"
      by (rule Bin.IH(1) [OF sl])
    also have "\<dots> = map_of (entries (Bin l k u r)) c"
      unfolding app rn by (cases "map_of (entries l) c") simp_all
    finally show ?thesis .
  next
    case False
    with bl have "c \<notin> fst ` set (entries l)" by auto
    then have n: "map_of (entries l) c = None"
      by (metis map_of_eq_None_iff)
    show ?thesis
    proof (cases "k < c")
      case True
      have "tree_lookup (Bin l k u r) c = tree_lookup r c"
        using True False by simp
      also have "\<dots> = map_of (entries r) c"
        by (rule Bin.IH(2) [OF sr])
      also have "\<dots> = map_of (entries (Bin l k u r)) c"
        unfolding app n using True by simp
      finally show ?thesis .
    next
      case False
      with \<open>\<not> c < k\<close> have ck: "c = k" by simp
      have "tree_lookup (Bin l k u r) c = Some u"
        by (simp add: ck)
      also have "\<dots> = map_of (entries (Bin l k u r)) c"
        unfolding app n by (simp add: ck)
      finally show ?thesis .
    qed
  qed
qed

lemma upper_tree_lookup: "tree_lookup upper_tree c = map_of upper_table c"
  using tree_lookup_map_of [of upper_tree c] increasing_sorted [OF increasing_upper_table]
  by (simp add: entries_upper_tree)

lemma upper_char_tree:
  "upper_char c = (case tree_lookup upper_tree c of None \<Rightarrow> [c] | Some u \<Rightarrow> u)"
  by (simp add: upper_char_def upper_tree_lookup)

lemma upper_table_0_ok: "list_all upper_entry_ok upper_table_0"
  by (simp add: upper_table_0_def upper_entry_ok_def is_space_def upper_tree_lookups
      cong: tree_lookup_cong)

lemma upper_table_1_ok: "list_all upper_entry_ok upper_table_1"
  by (simp add: upper_table_1_def upper_entry_ok_def is_space_def upper_tree_lookups
      cong: tree_lookup_cong)

lemma upper_table_2_ok: "list_all upper_entry_ok upper_table_2"
  by (simp add: upper_table_2_def upper_entry_ok_def is_space_def upper_tree_lookups
      cong: tree_lookup_cong)

lemma upper_table_3_ok: "list_all upper_entry_ok upper_table_3"
  by (simp add: upper_table_3_def upper_entry_ok_def is_space_def upper_tree_lookups
      cong: tree_lookup_cong)

lemma upper_table_4_ok: "list_all upper_entry_ok upper_table_4"
  by (simp add: upper_table_4_def upper_entry_ok_def is_space_def upper_tree_lookups
      cong: tree_lookup_cong)

lemma upper_table_5_ok: "list_all upper_entry_ok upper_table_5"
  by (simp add: upper_table_5_def upper_entry_ok_def is_space_def upper_tree_lookups
      cong: tree_lookup_cong)

lemma upper_table_6_ok: "list_all upper_entry_ok upper_table_6"
  by (simp add: upper_table_6_def upper_entry_ok_def is_space_def upper_tree_lookups
      cong: tree_lookup_cong)

lemma upper_table_7_ok: "list_all upper_entry_ok upper_table_7"
  by (simp add: upper_table_7_def upper_entry_ok_def is_space_def upper_tree_lookups
      cong: tree_lookup_cong)

lemma upper_table_ok: "list_all upper_entry_ok upper_table"
  by (simp add: upper_table_def upper_table_0_ok upper_table_1_ok upper_table_2_ok upper_table_3_ok upper_table_4_ok upper_table_5_ok upper_table_6_ok upper_table_7_ok)
    (simp add: upper_entry_ok_def is_space_def upper_tree_lookups cong: tree_lookup_cong)

lemma upper_char_cases:
  "upper_char c = [c] \<or> (upper_entry_ok (c, upper_char c) \<and> 0x61 \<le> c)"
proof (cases "map_of upper_table c")
  case None
  then show ?thesis by (simp add: upper_char_def)
next
  case (Some u)
  then have "(c, u) \<in> set upper_table" by (rule map_of_SomeD)
  with upper_table_ok have "upper_entry_ok (c, u)"
    by (simp add: list_all_iff)
  moreover from this have "0x61 \<le> c" by (simp add: upper_entry_ok_def)
  ultimately show ?thesis using Some by (simp add: upper_char_def)
qed

lemma upper_out_fixed:
  assumes "upper_entry_ok (c, u)" and "d \<in> set u"
  shows "upper_char d = [d] \<and> 0x41 \<le> d \<and> \<not> is_space d"
  using assms by (auto simp: upper_entry_ok_def list_all_iff upper_char_tree)

lemma upper_char_nonempty: "upper_char c \<noteq> []"
  using upper_char_cases [of c] by (auto simp: upper_entry_ok_def)

lemma concat_fixed: "\<forall>d\<in>set u. f d = [d] \<Longrightarrow> concat (map f u) = u"
  by (induction u) simp_all

lemma upper_char_idem: "concat (map upper_char (upper_char c)) = upper_char c"
proof -
  from upper_char_cases [of c] show ?thesis
  proof
    assume "upper_char c = [c]"
    then show ?thesis by simp
  next
    assume "upper_entry_ok (c, upper_char c) \<and> 0x61 \<le> c"
    then have "\<forall>d\<in>set (upper_char c). upper_char d = [d]"
      using upper_out_fixed by blast
    then show ?thesis by (rule concat_fixed)
  qed
qed

lemma upper_char_small: "d \<in> set (upper_char c) \<Longrightarrow> d < 0x41 \<Longrightarrow> d = c"
  using upper_char_cases [of c] upper_out_fixed [of c "upper_char c" d] by auto

lemma upper_char_below: "c < 0x61 \<Longrightarrow> upper_char c = [c]"
  using upper_char_cases [of c] by auto

lemma upper_char_last: "\<not> is_trailing c \<Longrightarrow> \<not> is_trailing (last (upper_char c))"
proof -
  assume c: "\<not> is_trailing c"
  from upper_char_cases [of c] show ?thesis
  proof
    assume "upper_char c = [c]"
    with c show ?thesis by simp
  next
    assume ok: "upper_entry_ok (c, upper_char c) \<and> 0x61 \<le> c"
    have "last (upper_char c) \<in> set (upper_char c)"
      using upper_char_nonempty by (rule last_in_set)
    with ok have "0x41 \<le> last (upper_char c) \<and> \<not> is_space (last (upper_char c))"
      using upper_out_fixed by blast
    then show ?thesis by (auto simp: is_trailing_def)
  qed
qed

lemma upper_char_examples:
  "upper_char 0x78 = [0x58]" "upper_char 0x430 = [0x410]" "upper_char 0x442 = [0x422]"
  "upper_char 0xDF = [0x53, 0x53]" "upper_char 0x161 = [0x160]" "upper_char 0x20 = [0x20]"
  by (simp_all add: upper_char_tree upper_tree_lookups cong: tree_lookup_cong)

lemma upper_append: "upper (xs @ ys) = upper xs @ upper ys"
  by (simp add: upper_def)

lemma upper_idem: "upper (upper s) = upper s"
proof (induction s)
  case Nil
  show ?case by (simp add: upper_def)
next
  case (Cons c s)
  have "upper (c # s) = upper_char c @ upper s"
    by (simp add: upper_def)
  moreover have "upper (upper_char c) = upper_char c"
    using upper_char_idem [of c] by (simp add: upper_def)
  ultimately show ?case
    using Cons.IH by (simp add: upper_append)
qed

lemma upper_small: "d \<in> set (upper s) \<Longrightarrow> d < 0x41 \<Longrightarrow> d \<in> set s"
  by (induction s) (auto simp: upper_def dest: upper_char_small)

lemma upper_no_space: "0x20 \<notin> set s \<Longrightarrow> 0x20 \<notin> set (upper s)"
  using upper_small [of "0x20" s] by auto

lemma upper_last:
  assumes "s \<noteq> []" and "\<not> is_trailing (last s)"
  shows "upper s \<noteq> [] \<and> \<not> is_trailing (last (upper s))"
proof -
  from assms(1) obtain t c where s: "s = t @ [c]"
    by (metis rev_exhaust)
  with assms(2) have c: "\<not> is_trailing c" by simp
  have u: "upper s = upper t @ upper_char c"
    by (simp add: s upper_def)
  then show ?thesis
    using upper_char_nonempty [of c] upper_char_last [OF c] by simp
qed

lemma sub_trailing_last: "sub_trailing s = [] \<or> \<not> is_trailing (last (sub_trailing s))"
proof (cases "dropWhile is_trailing (rev s)")
  case Nil
  then show ?thesis by (simp add: sub_trailing_def)
next
  case (Cons c cs)
  then have "\<not> is_trailing c"
    by (metis hd_dropWhile list.sel(1) list.distinct(1))
  with Cons show ?thesis by (simp add: sub_trailing_def)
qed

lemma sub_trailing_fixed: "s = [] \<or> \<not> is_trailing (last s) \<Longrightarrow> sub_trailing s = s"
  by (cases s rule: rev_cases) (auto simp: sub_trailing_def)

lemma space_is_trailing: "is_trailing 0x20"
  by (simp add: is_trailing_def is_space_def)

lemma filter_space_last:
  assumes "s \<noteq> []" and "\<not> is_trailing (last s)"
  shows "filter (\<lambda>c. c \<noteq> 0x20) s \<noteq> [] \<and> last (filter (\<lambda>c. c \<noteq> 0x20) s) = last s"
proof -
  from assms(1) obtain t c where s: "s = t @ [c]"
    by (metis rev_exhaust)
  with assms(2) space_is_trailing have "c \<noteq> 0x20" by auto
  then show ?thesis by (simp add: s)
qed

lemma clean_art_shape:
  "(clean_art s = [] \<or> \<not> is_trailing (last (clean_art s))) \<and> 0x20 \<notin> set (clean_art s)"
proof -
  let ?t = "sub_trailing s"
  let ?f = "filter (\<lambda>c. c \<noteq> 0x20) ?t"
  have ns: "0x20 \<notin> set (clean_art s)"
    unfolding clean_art_def by (rule upper_no_space) simp
  have "clean_art s = [] \<or> \<not> is_trailing (last (clean_art s))"
  proof (cases "?t = []")
    case True
    then show ?thesis by (simp add: clean_art_def upper_def)
  next
    case False
    with sub_trailing_last [of s] have "\<not> is_trailing (last ?t)" by simp
    with False have "?f \<noteq> []" and "\<not> is_trailing (last ?f)"
      using filter_space_last [of ?t] by simp_all
    then show ?thesis
      using upper_last [of ?f] by (simp add: clean_art_def)
  qed
  with ns show ?thesis by simp
qed

text \<open>
  C9. \<open>clean_art\<close> is idempotent: for every string \<open>s\<close>, normalizing the normalized
  string gives the normalized string again.
\<close>

theorem clean_art_idempotent: "clean_art (clean_art s) = clean_art s"
proof -
  let ?n = "clean_art s"
  from clean_art_shape [of s] have "sub_trailing ?n = ?n" and ns: "0x20 \<notin> set ?n"
    using sub_trailing_fixed [of ?n] by simp_all
  moreover from ns have "filter (\<lambda>c. c \<noteq> 0x20) ?n = ?n"
    by (auto simp: filter_id_conv)
  moreover have "upper ?n = ?n"
    by (simp add: clean_art_def upper_idem)
  ultimately show ?thesis
    by (subst clean_art_def) (simp only:)
qed

section \<open>Properties of the validity test\<close>

text \<open>
  C4, as stated, fails: \<open>is_valid_art\<close> tests for U+0020 only, so a string of five
  characters with a tab in the middle is accepted although it contains white space.
\<close>

theorem is_valid_art_tab_counterexample:
  "is_valid_art [0x41, 0x42, 0x9, 0x43, 0x44] \<and> is_space ([0x41, 0x42, 0x9, 0x43, 0x44] ! 2)"
  by (simp add: is_valid_art_def is_space_def)

text \<open>
  C4, amended. For every string \<open>s\<close>, \<open>is_valid_art\<close> returns true if and only if
  \<open>s\<close> has at least 4 characters and the space character U+0020 occurs at no position
  of \<open>s\<close>; other white space (tab, newline and so on) is not tested.
\<close>

theorem is_valid_art_iff:
  "is_valid_art s \<longleftrightarrow> 4 \<le> length s \<and> (\<forall>i<length s. s ! i \<noteq> 0x20)"
  by (auto simp: is_valid_art_def in_set_conv_nth)

text \<open>Three instances: a valid string, one with a space, and one that is too short.\<close>

theorem is_valid_art_iff_witness:
  "is_valid_art (ustr ''AB-1'') \<and> \<not> is_valid_art (ustr ''AB 12'') \<and> \<not> is_valid_art (ustr ''AB1'')"
  using is_valid_art_iff [of "ustr ''AB-1''"] is_valid_art_iff [of "ustr ''AB 12''"]
    is_valid_art_iff [of "ustr ''AB1''"]
  by (simp add: ustr_def is_valid_art_def)

section \<open>Properties of the prefix clusterer\<close>

lemma str_values_Nil_iff: "str_values vs = [] \<longleftrightarrow> list_all (\<lambda>v. v = None) vs"
  by (induction vs) (auto simp: str_values_def)

text \<open>
  C6, as stated, fails when blank means an empty or white-space string: such a string is a
  present value for \<open>pd.isna\<close>. The all-blank input \<open>[""]\<close> returns \<open>""\<close> and not
  \<open>None\<close>, and \<open>[" ", "X1234567"]\<close>, which has one identifier that is not blank, goes
  through the prefix lengths as a list of two values and returns \<open>None\<close>, not that
  identifier.
\<close>

theorem find_common_vtrac_blank_counterexample:
  "find_common_vtrac [Some []] = Some [] \<and>
   find_common_vtrac [Some (ustr '' ''), Some (ustr ''X1234567'')] = None"
  by (simp add: find_common_vtrac_def str_values_def prefix_lengths_def MIN_PREFIX_LENGTH_def
      upt_rec prefix_groups_def ustr_def)

text \<open>
  C6, amended. For every list of identifier cells, \<open>find_common_vtrac\<close> returns
  \<open>None\<close> when no cell is present, that is, when the list is empty or every cell is
  missing (\<open>None\<close> or \<open>NaN\<close>, what \<open>pd.isna\<close> tests); when exactly one cell is
  present it returns that value as it is, also when the value is a blank string.
\<close>

theorem find_common_vtrac_few:
  "(str_values vs = [] \<longrightarrow> find_common_vtrac vs = None) \<and>
   (\<forall>v. str_values vs = [v] \<longrightarrow> find_common_vtrac vs = Some v) \<and>
   (\<forall>s. find_common_vtrac [Some s] = Some s)"
proof (intro conjI allI impI)
  assume "str_values vs = []"
  then show "find_common_vtrac vs = None"
    by (simp add: find_common_vtrac_def str_values_Nil_iff)
next
  fix v assume v: "str_values vs = [v]"
  then have "\<not> list_all (\<lambda>v. v = None) vs" "vs \<noteq> []"
    using str_values_Nil_iff [of vs] by (auto simp: str_values_def)
  with v show "find_common_vtrac vs = Some v"
    by (simp add: find_common_vtrac_def)
next
  fix s :: ustring
  show "find_common_vtrac [Some s] = Some s"
    by (simp add: find_common_vtrac_def str_values_def)
qed

text \<open>
  The cases of the specification, \<open>["X"]\<close>, one value among missing cells, \<open>[]\<close>
  and all cells missing, and a single blank string.
\<close>

theorem find_common_vtrac_few_witness:
  "find_common_vtrac [Some (ustr ''X'')] = Some (ustr ''X'') \<and>
   find_common_vtrac [None, Some (ustr ''X''), None] = Some (ustr ''X'') \<and>
   find_common_vtrac [] = None \<and> find_common_vtrac [None, None] = None \<and>
   find_common_vtrac [Some (ustr '' '')] = Some (ustr '' '')"
  using find_common_vtrac_few [of "[Some (ustr ''X'')]"]
    find_common_vtrac_few [of "[None, Some (ustr ''X''), None]"]
    find_common_vtrac_few [of "[]"] find_common_vtrac_few [of "[None, None]"]
  by (simp add: str_values_def)

lemma groups_append_keys:
  "map fst (groups_append k s G) = (if k \<in> fst ` set G then map fst G else map fst G @ [k])"
proof (induction G)
  case Nil
  show ?case by simp
next
  case (Cons a G)
  obtain k' g where a: "a = (k', g)" by (cases a)
  show ?case
  proof (cases "k' = k")
    case True
    then show ?thesis by (simp add: a)
  next
    case False
    with Cons.IH show ?thesis by (simp add: a)
  qed
qed

lemma groups_append_map_of:
  "map_of (groups_append k s G) =
     (map_of G)(k \<mapsto> (case map_of G k of None \<Rightarrow> [s] | Some g \<Rightarrow> g @ [s]))"
  by (induction G) (auto simp: fun_eq_iff)

lemma prefix_groups_snoc:
  "prefix_groups n (strs @ [s]) =
     (if n \<le> length s then groups_append (take n s) s (prefix_groups n strs)
      else prefix_groups n strs)"
  by (simp add: prefix_groups_def)

lemma prefix_groups_inv:
  "distinct (map fst (prefix_groups n strs)) \<and>
   (\<forall>k. map_of (prefix_groups n strs) k =
      (if filter (\<lambda>s. n \<le> length s \<and> take n s = k) strs = [] then None
       else Some (filter (\<lambda>s. n \<le> length s \<and> take n s = k) strs)))"
proof (induction strs rule: rev_induct)
  case Nil
  show ?case by (simp add: prefix_groups_def)
next
  case (snoc s strs)
  then have d: "distinct (map fst (prefix_groups n strs))"
    and m: "\<And>k. map_of (prefix_groups n strs) k =
      (if filter (\<lambda>s. n \<le> length s \<and> take n s = k) strs = [] then None
       else Some (filter (\<lambda>s. n \<le> length s \<and> take n s = k) strs))"
    by simp_all
  show ?case
  proof (cases "n \<le> length s")
    case False
    with d m show ?thesis by (simp add: prefix_groups_snoc)
  next
    case True
    have "distinct (map fst (groups_append (take n s) s (prefix_groups n strs)))"
      using d by (simp add: groups_append_keys)
    moreover have "\<And>k. map_of (groups_append (take n s) s (prefix_groups n strs)) k =
      (if filter (\<lambda>s. n \<le> length s \<and> take n s = k) (strs @ [s]) = [] then None
       else Some (filter (\<lambda>s. n \<le> length s \<and> take n s = k) (strs @ [s])))"
      using True by (simp add: groups_append_map_of m)
    ultimately show ?thesis using True by (simp add: prefix_groups_snoc)
  qed
qed

lemma foldl_longest:
  "foldl (\<lambda>best x. if length best < length x then x else best) g gs \<in> set (g # gs) \<and>
   (\<forall>x\<in>set (g # gs). length x \<le> length (foldl (\<lambda>best x. if length best < length x then x else best) g gs))"
proof (induction gs arbitrary: g)
  case Nil
  show ?case by simp
next
  case (Cons a gs)
  show ?case
    using Cons.IH [of a] Cons.IH [of g] by (auto simp del: foldl_Cons simp add: foldl_Cons [of _ g])
qed

lemma max_len_longest: "gs \<noteq> [] \<Longrightarrow> max_len gs \<in> set gs \<and> (\<forall>x\<in>set gs. length x \<le> length (max_len gs))"
  using foldl_longest by (cases gs) (simp_all del: foldl_Cons)

lemma group_size_le_largest:
  "group_size n q strs \<le> length (max_len (map snd (prefix_groups n strs)))"
proof (cases "filter (\<lambda>s. n \<le> length s \<and> take n s = q) strs = []")
  case True
  then show ?thesis by (simp add: group_size_def)
next
  case False
  let ?f = "filter (\<lambda>s. n \<le> length s \<and> take n s = q) strs"
  from False have "map_of (prefix_groups n strs) q = Some ?f"
    using prefix_groups_inv [of n strs] by simp
  then have "(q, ?f) \<in> set (prefix_groups n strs)"
    by (rule map_of_SomeD)
  then have "?f \<in> set (map snd (prefix_groups n strs))"
    by force
  moreover from this have "map snd (prefix_groups n strs) \<noteq> []"
    by (metis empty_iff empty_set)
  ultimately have "length ?f \<le> length (max_len (map snd (prefix_groups n strs)))"
    using max_len_longest [of "map snd (prefix_groups n strs)"] by blast
  then show ?thesis
    by (simp add: group_size_def)
qed

lemma largest_group_prefix:
  assumes "1 < length (max_len (map snd (prefix_groups n strs)))"
  shows "length (take n (hd (max_len (map snd (prefix_groups n strs))))) = n \<and>
         group_size n (take n (hd (max_len (map snd (prefix_groups n strs))))) strs =
           length (max_len (map snd (prefix_groups n strs)))"
proof -
  let ?G = "prefix_groups n strs"
  let ?lg = "max_len (map snd ?G)"
  from assms have ne: "map snd ?G \<noteq> []" by (cases "map snd ?G") auto
  then have "?lg \<in> set (map snd ?G)"
    using max_len_longest by blast
  then obtain k where k: "(k, ?lg) \<in> set ?G" by auto
  moreover have "distinct (map fst ?G)"
    using prefix_groups_inv [of n strs] by blast
  ultimately have "map_of ?G k = Some ?lg"
    by (simp only: map_of_is_SomeI)
  then have lg: "?lg = filter (\<lambda>s. n \<le> length s \<and> take n s = k) strs"
    using prefix_groups_inv [of n strs] by (simp split: if_splits)
  from assms have "hd ?lg \<in> set ?lg" by (cases ?lg) auto
  with lg have hd: "n \<le> length (hd ?lg) \<and> take n (hd ?lg) = k"
    by (metis (mono_tags, lifting) mem_Collect_eq set_filter)
  have "length (take n x) = n" if "n \<le> length x" for x :: ustring
    using that by simp
  with hd have "length (take n (hd ?lg)) = n" by blast
  moreover have "group_size n (take n (hd ?lg)) strs = length ?lg"
    using hd lg by (simp add: group_size_def)
  ultimately show ?thesis by simp
qed

lemma prefix_loop_Some:
  "prefix_loop ns strs = Some p \<Longrightarrow>
   \<exists>ns1 n ns2. ns = ns1 @ n # ns2 \<and> (\<forall>m\<in>set ns1. \<forall>q. group_size m q strs < 2) \<and>
     length p = n \<and> 2 \<le> group_size n p strs \<and> (\<forall>q. group_size n q strs \<le> group_size n p strs)"
proof (induction ns)
  case Nil
  then show ?case by simp
next
  case (Cons n ns)
  let ?lg = "max_len (map snd (prefix_groups n strs))"
  show ?case
  proof (cases "1 < length ?lg")
    case True
    with Cons.prems have p: "p = take n (hd ?lg)" by (simp add: Let_def)
    from largest_group_prefix [OF True] have "length p = n" "group_size n p strs = length ?lg"
      by (simp_all add: p)
    with True group_size_le_largest [of n _ strs]
    have "length p = n \<and> 2 \<le> group_size n p strs \<and> (\<forall>q. group_size n q strs \<le> group_size n p strs)"
      by simp
    then show ?thesis by (intro exI [of _ "[]"] exI [of _ n] exI [of _ ns]) simp
  next
    case False
    with Cons.prems have "prefix_loop ns strs = Some p" by (simp add: Let_def)
    from Cons.IH [OF this] obtain ns1 k ns2 where
      h: "ns = ns1 @ k # ns2" "\<forall>m\<in>set ns1. \<forall>q. group_size m q strs < 2"
         "length p = k" "2 \<le> group_size k p strs" "\<forall>q. group_size k q strs \<le> group_size k p strs"
      by blast
    have "group_size n q strs < 2" for q
      using False group_size_le_largest [of n q strs] by linarith
    with h show ?thesis
      by (intro exI [of _ "n # ns1"] exI [of _ k] exI [of _ ns2]) simp
  qed
qed

lemma prefix_loop_None:
  "prefix_loop ns strs = None \<Longrightarrow> \<forall>m\<in>set ns. \<forall>q. group_size m q strs < 2"
proof (induction ns)
  case Nil
  then show ?case by simp
next
  case (Cons n ns)
  let ?lg = "max_len (map snd (prefix_groups n strs))"
  from Cons.prems have f: "\<not> 1 < length ?lg" and r: "prefix_loop ns strs = None"
    by (simp_all add: Let_def split: if_splits)
  have "group_size n q strs < 2" for q
    using f group_size_le_largest [of n q strs] by linarith
  with Cons.IH [OF r] show ?case by simp
qed


text \<open>
  C1. For every list with at least 2 present identifiers, \<open>find_common_vtrac\<close> goes
  through the prefix lengths 8, 7, 6 in this order. When it returns \<open>p\<close>, then \<open>p\<close>
  has one of these lengths \<open>n\<close>, at least 2 identifiers of length at least \<open>n\<close> start
  with \<open>p\<close>, no prefix of length \<open>n\<close> has a larger group, and at every greater length
  every group has fewer than 2 members. When it returns \<open>None\<close>, every group at every
  one of the three lengths has fewer than 2 members. For \<open>["AB123456", "AB123457"]\<close>
  it returns \<open>"AB12345"\<close>.
\<close>

theorem find_common_vtrac_prefix:
  assumes "2 \<le> length (str_values vs)"
  shows "(\<forall>p. find_common_vtrac vs = Some p \<longrightarrow>
            (\<exists>n\<in>{6, 7, 8}. length p = n \<and> 2 \<le> group_size n p (str_values vs) \<and>
               (\<forall>q. group_size n q (str_values vs) \<le> group_size n p (str_values vs)) \<and>
               (\<forall>m\<in>{6, 7, 8}. n < m \<longrightarrow> (\<forall>q. group_size m q (str_values vs) < 2)))) \<and>
         (find_common_vtrac vs = None \<longrightarrow>
            (\<forall>m\<in>{6, 7, 8}. \<forall>q. group_size m q (str_values vs) < 2)) \<and>
         find_common_vtrac [Some (ustr ''AB123456''), Some (ustr ''AB123457'')] =
           Some (ustr ''AB12345'')"
proof -
  let ?sv = "str_values vs"
  have pl: "prefix_lengths = [8, 7, 6]"
    by (simp add: prefix_lengths_def MIN_PREFIX_LENGTH_def upt_rec)
  from assms have "str_values vs \<noteq> []" by auto
  then have ne: "vs \<noteq> []" "\<not> list_all (\<lambda>v. v = None) vs"
    by (auto simp: str_values_def list_all_iff filter_empty_conv)
  with assms have f: "find_common_vtrac vs = prefix_loop [8, 7, 6] ?sv"
    by (simp add: find_common_vtrac_def pl)
  have a: "\<exists>n\<in>{6, 7, 8}. length p = n \<and> 2 \<le> group_size n p ?sv \<and>
               (\<forall>q. group_size n q ?sv \<le> group_size n p ?sv) \<and>
               (\<forall>m\<in>{6, 7, 8}. n < m \<longrightarrow> (\<forall>q. group_size m q ?sv < 2))"
    if "find_common_vtrac vs = Some p" for p
  proof -
    from that f have "prefix_loop [8, 7, 6] ?sv = Some p" by simp
    from prefix_loop_Some [OF this] obtain ns1 n ns2 where
      h: "[8, 7, 6] = ns1 @ n # ns2" "\<forall>m\<in>set ns1. \<forall>q. group_size m q ?sv < 2"
         "length p = n" "2 \<le> group_size n p ?sv" "\<forall>q. group_size n q ?sv \<le> group_size n p ?sv"
      by blast
    from h(1) consider "ns1 = [] \<and> n = 8" | "ns1 = [8] \<and> n = 7" | "ns1 = [8, 7] \<and> n = 6"
      by (auto simp: Cons_eq_append_conv)
    then show ?thesis
    proof cases
      case 1
      with h show ?thesis by simp
    next
      case 2
      with h show ?thesis by simp
    next
      case 3
      with h show ?thesis by simp
    qed
  qed
  have b: "\<forall>m\<in>{6, 7, 8}. \<forall>q. group_size m q ?sv < 2" if "find_common_vtrac vs = None"
    using prefix_loop_None [of "[8, 7, 6]" ?sv] that f by simp
  have c: "find_common_vtrac [Some (ustr ''AB123456''), Some (ustr ''AB123457'')] =
           Some (ustr ''AB12345'')"
    by (simp add: find_common_vtrac_def str_values_def pl prefix_groups_def ustr_def)
  from a b c show ?thesis by blast
qed

text \<open>An instance with a missing cell and an identifier that shares no prefix.\<close>

theorem find_common_vtrac_prefix_witness:
  "2 \<le> length (str_values [Some (ustr ''AB123456''), None, Some (ustr ''ZZ000000''), Some (ustr ''AB123457'')]) \<and>
   find_common_vtrac [Some (ustr ''AB123456''), None, Some (ustr ''ZZ000000''), Some (ustr ''AB123457'')] =
     Some (ustr ''AB12345'') \<and>
   group_size 7 (ustr ''AB12345'') (str_values [Some (ustr ''AB123456''), None, Some (ustr ''ZZ000000''), Some (ustr ''AB123457'')]) = 2"
  using find_common_vtrac_prefix [of "[Some (ustr ''AB123456''), None, Some (ustr ''ZZ000000''), Some (ustr ''AB123457'')]"]
  by (simp add: find_common_vtrac_def str_values_def prefix_lengths_def MIN_PREFIX_LENGTH_def upt_rec
      prefix_groups_def ustr_def group_size_def)

section \<open>Properties of the catalog index and the matcher\<close>

subsection \<open>Trimming\<close>

lemma rdrop_Cons:
  "rev (dropWhile P (rev xs @ [x])) =
     (if \<forall>y\<in>set (x # xs). P y then [] else x # rev (dropWhile P (rev xs)))"
  by (auto simp: dropWhile_append)

lemma rdrop_decomp: "xs = rev (dropWhile P (rev xs)) @ rev (takeWhile P (rev xs))"
proof -
  have "rev (takeWhile P (rev xs) @ dropWhile P (rev xs)) = xs"
    by (simp only: takeWhile_dropWhile_id rev_rev_ident)
  then show ?thesis by (simp only: rev_append)
qed

lemma rdrop_last: "rev (dropWhile P (rev xs)) = [] \<or> \<not> P (last (rev (dropWhile P (rev xs))))"
proof (cases "dropWhile P (rev xs)")
  case Nil
  then show ?thesis by simp
next
  case (Cons c cs)
  then have "\<not> P c"
    by (metis hd_dropWhile list.sel(1) list.distinct(1))
  with Cons show ?thesis by simp
qed

lemma rdrop_fixed: "xs = [] \<or> \<not> P (last xs) \<Longrightarrow> rev (dropWhile P (rev xs)) = xs"
  by (cases xs rule: rev_cases) auto

lemma rdrop_hd: "rev (dropWhile P (rev xs)) \<noteq> [] \<Longrightarrow> hd (rev (dropWhile P (rev xs))) = hd xs"
  by (cases xs) (auto simp: rdrop_Cons split: if_splits)

lemma strip_shape:
  "strip s = [] \<or> (\<not> is_space (hd (strip s)) \<and> \<not> is_space (last (strip s)))"
proof (cases "strip s = []")
  case True
  then show ?thesis by simp
next
  case False
  let ?u = "dropWhile is_space s"
  from False have u: "?u \<noteq> []"
    by (metis dropWhile.simps(1) rev.simps(1) strip_def)
  then have "\<not> is_space (hd ?u)" by (rule hd_dropWhile)
  moreover have "hd (strip s) = hd ?u"
    using False rdrop_hd [of is_space ?u] by (simp add: strip_def)
  moreover have "\<not> is_space (last (strip s))"
    using False rdrop_last [of is_space ?u] unfolding strip_def by blast
  ultimately show ?thesis by simp
qed

lemma strip_fixed:
  assumes "s = [] \<or> (\<not> is_space (hd s) \<and> \<not> is_space (last s))"
  shows "strip s = s"
proof (cases s)
  case Nil
  then show ?thesis by (simp add: strip_def)
next
  case (Cons c cs)
  with assms have "dropWhile is_space s = s" by simp
  moreover from Cons assms have "rev (dropWhile is_space (rev s)) = s"
    by (intro rdrop_fixed) simp
  ultimately show ?thesis by (simp add: strip_def)
qed

lemma strip_idem: "strip (strip s) = strip s"
  using strip_shape [of s] by (intro strip_fixed) blast

lemma cell_strip_idem: "strip (cell_strip x) = cell_strip x"
  by (cases x) (simp_all add: cell_strip_def strip_idem, simp add: strip_def)

subsection \<open>The catalog\<close>

lemma load_catalog_snoc: "load_catalog (rows @ [r]) = load_row (load_catalog rows) r"
  by (simp add: load_catalog_def)

lemma article_dict_load_row:
  "article_dict (load_row c r) =
     (if usable (cell_strip (row_article r)) \<and> usable (cell_strip (row_vtrac r))
      then AList.update (cell_strip (row_article r)) (cell_strip (row_vtrac r)) (article_dict c)
      else article_dict c)"
  by (auto simp: load_row_def Let_def)

lemma analog_dict_load_row:
  "analog_dict (load_row c r) =
     (if usable (cell_strip (row_analog r)) \<and> usable (cell_strip (row_vtrac r))
      then AList.update (cell_strip (row_analog r)) (cell_strip (row_vtrac r)) (analog_dict c)
      else analog_dict c)"
  by (auto simp: load_row_def Let_def)

lemma latest_identifier_snoc:
  "latest_identifier f (rows @ [r]) k =
     (if usable (cell_strip (f r)) \<and> usable (cell_strip (row_vtrac r)) \<and> cell_strip (f r) = k
      then Some (cell_strip (row_vtrac r)) else latest_identifier f rows k)"
  by (auto simp: latest_identifier_def split: list.splits)

lemma latest_identifier_trimmed:
  assumes "latest_identifier f rows k = Some v"
  shows "trimmed k \<and> trimmed v"
using assms proof (induction rows rule: rev_induct)
  case Nil
  then show ?case by (simp add: latest_identifier_def)
next
  case (snoc r rows)
  show ?case
  proof (cases "usable (cell_strip (f r)) \<and> usable (cell_strip (row_vtrac r)) \<and> cell_strip (f r) = k")
    case True
    with snoc.prems have v: "v = cell_strip (row_vtrac r)"
      by (auto simp: latest_identifier_snoc)
    from True have k: "k = cell_strip (f r)" by simp
    have "strip k = k" "strip v = v"
      by (simp_all only: k v cell_strip_idem)
    moreover from True have "usable k" "usable v"
      by (simp_all add: k v)
    ultimately show ?thesis
      by (simp add: trimmed_def usable_def)
  next
    case False
    with snoc show ?thesis by (simp add: latest_identifier_snoc)
  qed
qed

lemma article_dict_map_of:
  "distinct (map fst (article_dict (load_catalog rows))) \<and>
   map_of (article_dict (load_catalog rows)) = latest_identifier row_article rows"
proof (induction rows rule: rev_induct)
  case Nil
  show ?case by (simp add: load_catalog_def latest_identifier_def fun_eq_iff)
next
  case (snoc r rows)
  then show ?case
    by (auto simp: load_catalog_snoc article_dict_load_row latest_identifier_snoc
        update_conv' distinct_update fun_eq_iff)
qed

lemma analog_dict_map_of:
  "distinct (map fst (analog_dict (load_catalog rows))) \<and>
   map_of (analog_dict (load_catalog rows)) = latest_identifier row_analog rows"
proof (induction rows rule: rev_induct)
  case Nil
  show ?case by (simp add: load_catalog_def latest_identifier_def fun_eq_iff)
next
  case (snoc r rows)
  then show ?case
    by (auto simp: load_catalog_snoc analog_dict_load_row latest_identifier_snoc
        update_conv' distinct_update fun_eq_iff)
qed

lemma catalog_entry_trimmed:
  assumes "(k, v) \<in> set (article_dict (load_catalog rows)) \<union> set (analog_dict (load_catalog rows))"
  shows "trimmed k \<and> trimmed v"
proof -
  from assms have "latest_identifier row_article rows k = Some v \<or>
                   latest_identifier row_analog rows k = Some v"
    using article_dict_map_of [of rows] analog_dict_map_of [of rows]
    by (metis Un_iff map_of_is_SomeI)
  then show ?thesis using latest_identifier_trimmed by blast
qed

text \<open>
  C7. After \<open>load_catalog\<close> on any sequence of rows, every key and every identifier
  stored in the two dictionaries is a trimmed, non-empty string other than \<open>"nan"\<close>,
  the keys of each dictionary are distinct, and each dictionary maps a key to the
  identifier of the last row that has this trimmed key and is not skipped (a row is
  skipped when its key or its identifier is missing, blank or \<open>"nan"\<close>): the later row
  wins.
\<close>

theorem load_catalog_index:
  "(\<forall>(k, v)\<in>set (article_dict (load_catalog rows)) \<union> set (analog_dict (load_catalog rows)).
      trimmed k \<and> trimmed v) \<and>
   distinct (map fst (article_dict (load_catalog rows))) \<and>
   distinct (map fst (analog_dict (load_catalog rows))) \<and>
   map_of (article_dict (load_catalog rows)) = latest_identifier row_article rows \<and>
   map_of (analog_dict (load_catalog rows)) = latest_identifier row_analog rows"
  using article_dict_map_of [of rows] analog_dict_map_of [of rows] catalog_entry_trimmed [of _ _ rows]
  by blast


lemma is_space_numeral_simps:
  "is_space 0x20" "\<not> is_space 0x41" "\<not> is_space 0x42" "\<not> is_space 0x30" "\<not> is_space 0x31"
  "\<not> is_space 0x32" "\<not> is_space 0x56" "\<not> is_space 0x58" "\<not> is_space 0x2D"
  by (simp_all add: is_space_def)

text \<open>
  Three rows with the same key: the first is overwritten by the second, the third has no
  identifier and is skipped.
\<close>

theorem load_catalog_index_witness:
  "article_dict (load_catalog
     [\<lparr>row_article = Some (ustr '' AB ''), row_analog = None, row_vtrac = Some (ustr ''V1'')\<rparr>,
      \<lparr>row_article = Some (ustr ''AB''), row_analog = Some (ustr ''X''), row_vtrac = Some (ustr ''V2 '')\<rparr>,
      \<lparr>row_article = Some (ustr ''AB''), row_analog = Some (ustr ''X''), row_vtrac = None\<rparr>]) =
     [(ustr ''AB'', ustr ''V2'')] \<and>
   latest_identifier row_article
     [\<lparr>row_article = Some (ustr '' AB ''), row_analog = None, row_vtrac = Some (ustr ''V1'')\<rparr>,
      \<lparr>row_article = Some (ustr ''AB''), row_analog = Some (ustr ''X''), row_vtrac = Some (ustr ''V2 '')\<rparr>,
      \<lparr>row_article = Some (ustr ''AB''), row_analog = Some (ustr ''X''), row_vtrac = None\<rparr>] (ustr ''AB'') =
     Some (ustr ''V2'') \<and>
   trimmed (ustr ''AB'') \<and> trimmed (ustr ''V2'')"
proof -
  let ?rows = "[\<lparr>row_article = Some (ustr '' AB ''), row_analog = None, row_vtrac = Some (ustr ''V1'')\<rparr>,
      \<lparr>row_article = Some (ustr ''AB''), row_analog = Some (ustr ''X''), row_vtrac = Some (ustr ''V2 '')\<rparr>,
      \<lparr>row_article = Some (ustr ''AB''), row_analog = Some (ustr ''X''), row_vtrac = None\<rparr>]"
  have d: "article_dict (load_catalog ?rows) = [(ustr ''AB'', ustr ''V2'')]"
    by (simp add: load_catalog_def load_row_def Let_def cell_strip_def strip_def usable_def ustr_def
        is_space_numeral_simps)
  from load_catalog_index [of ?rows]
  have "\<forall>(k, v)\<in>set (article_dict (load_catalog ?rows)). trimmed k \<and> trimmed v"
    and "latest_identifier row_article ?rows = map_of (article_dict (load_catalog ?rows))"
    by simp_all
  with d show ?thesis by simp
qed

subsection \<open>The matcher\<close>

text \<open>
  C3, as stated, fails: \<open>VTRACFinder.process_row\<close> and \<open>find_vtrac\<close> trim the field
  and do not change its case, so the field \<open>"ab-100"\<close> matches neither the key
  \<open>"AB-100"\<close> nor a key that starts with it, and the candidate list is empty.
\<close>

theorem process_row_lower_case_counterexample:
  "VTRACFinder_process_row
     (load_catalog [\<lparr>row_article = Some (ustr ''AB-100''), row_analog = Some [], row_vtrac = Some (ustr ''V1'')\<rparr>])
     [Some (ustr ''ab-100''), None, None, None, None, None] = []"
  by (simp add: VTRACFinder_process_row_def find_vtrac_def exact_matches_def prefix_scan_def startswith_def
      load_catalog_def load_row_def cell_strip_def strip_def usable_def ustr_def is_space_def)

lemma find_vtrac_AB_100:
  "find_vtrac
     (load_catalog [\<lparr>row_article = Some (ustr ''AB-100''), row_analog = Some [], row_vtrac = Some (ustr ''V1'')\<rparr>])
     (ustr ''AB-100'') = [ustr ''V1'']"
  by (simp add: find_vtrac_def exact_matches_def prefix_scan_def startswith_def
      load_catalog_def load_row_def cell_strip_def strip_def usable_def ustr_def is_space_numeral_simps)

lemma exact_matches_AB_100:
  "map_of (article_dict
     (load_catalog [\<lparr>row_article = Some (ustr ''AB-100''), row_analog = Some [], row_vtrac = Some (ustr ''V1'')\<rparr>]))
     (ustr ''AB-100'') = Some (ustr ''V1'')"
  "exact_matches
     (load_catalog [\<lparr>row_article = Some (ustr ''AB-100''), row_analog = Some [], row_vtrac = Some (ustr ''V1'')\<rparr>])
     (ustr ''AB-100'') = [ustr ''V1'']"
  by (simp_all add: exact_matches_def
      load_catalog_def load_row_def cell_strip_def strip_def usable_def ustr_def is_space_numeral_simps)

text \<open>
  C3, amended. Given the catalog with the single entry (part number \<open>"AB-100"\<close>,
  analog \<open>""\<close>, identifier \<open>"V1"\<close>), resolving a record whose part-number field is
  \<open>"AB-100"\<close> up to surrounding white space (the matcher trims the field and keeps its
  case) finds the exact catalog match: the trimmed field is a key of the primary
  dictionary with the identifier \<open>"V1"\<close>, and the exact lookups of \<open>find_vtrac\<close>
  yield \<open>["V1"]\<close>. The candidate list of the record is \<open>["V1"]\<close>.
\<close>

theorem process_row_exact_match:
  assumes "strip field = ustr ''AB-100''"
  shows "map_of (article_dict
           (load_catalog [\<lparr>row_article = Some (ustr ''AB-100''), row_analog = Some [], row_vtrac = Some (ustr ''V1'')\<rparr>]))
           (strip field) = Some (ustr ''V1'') \<and>
         exact_matches
           (load_catalog [\<lparr>row_article = Some (ustr ''AB-100''), row_analog = Some [], row_vtrac = Some (ustr ''V1'')\<rparr>])
           (strip field) = [ustr ''V1''] \<and>
         VTRACFinder_process_row
           (load_catalog [\<lparr>row_article = Some (ustr ''AB-100''), row_analog = Some [], row_vtrac = Some (ustr ''V1'')\<rparr>])
           [Some field, None, None, None, None, None] = [ustr ''V1'']"
proof -
  from assms have "strip field \<noteq> []" by (simp add: ustr_def)
  then have "VTRACFinder_process_row
           (load_catalog [\<lparr>row_article = Some (ustr ''AB-100''), row_analog = Some [], row_vtrac = Some (ustr ''V1'')\<rparr>])
           [Some field, None, None, None, None, None] = [ustr ''V1'']"
    by (simp add: VTRACFinder_process_row_def assms find_vtrac_AB_100) (simp add: ustr_def)
  then show ?thesis
    by (simp add: assms exact_matches_AB_100)
qed

text \<open>The field \<open>" AB-100 "\<close>.\<close>

theorem process_row_exact_match_witness:
  "strip (ustr '' AB-100 '') = ustr ''AB-100'' \<and>
   exact_matches
     (load_catalog [\<lparr>row_article = Some (ustr ''AB-100''), row_analog = Some [], row_vtrac = Some (ustr ''V1'')\<rparr>])
     (strip (ustr '' AB-100 '')) = [ustr ''V1''] \<and>
   VTRACFinder_process_row
     (load_catalog [\<lparr>row_article = Some (ustr ''AB-100''), row_analog = Some [], row_vtrac = Some (ustr ''V1'')\<rparr>])
     [Some (ustr '' AB-100 ''), None, None, None, None, None] = [ustr ''V1'']"
proof -
  have h: "strip (ustr '' AB-100 '') = ustr ''AB-100''"
    by (simp add: strip_def ustr_def is_space_numeral_simps)
  from process_row_exact_match [OF h] h show ?thesis by blast
qed

subsection \<open>Prefix lookup\<close>

lemma prefix_scan_Cons:
  "prefix_scan a ((k, v) # d) found =
     prefix_scan a d
       (if k = [] \<or> v = [] then found
        else if startswith (strip k) a \<and> strip v \<notin> set found \<and> strip v \<noteq> []
             then found @ [strip v] else found)"
  by (simp add: prefix_scan_def)

lemma prefix_scan_keeps: "x \<in> set found \<Longrightarrow> x \<in> set (prefix_scan a d found)"
proof (induction d arbitrary: found)
  case Nil
  then show ?case by (simp add: prefix_scan_def)
next
  case (Cons p d)
  obtain k v where p: "p = (k, v)" by (cases p)
  show ?case
    unfolding p prefix_scan_Cons using Cons.prems by (intro Cons.IH) simp
qed

lemma prefix_scan_hit:
  assumes "(k, v) \<in> set d" and "k \<noteq> []" and "v \<noteq> []"
    and "startswith (strip k) a" and "strip v \<noteq> []"
  shows "strip v \<in> set (prefix_scan a d found)"
using assms(1) proof (induction d arbitrary: found)
  case Nil
  then show ?case by simp
next
  case (Cons p d)
  obtain k' v' where p: "p = (k', v')" by (cases p)
  show ?case
  proof (cases "p = (k, v)")
    case True
    with p have kv: "k' = k" "v' = v" by simp_all
    show ?thesis
      unfolding p kv prefix_scan_Cons using assms(2-5) by (intro prefix_scan_keeps) simp
  next
    case False
    with Cons.prems have "(k, v) \<in> set d" by simp
    then show ?thesis
      unfolding p prefix_scan_Cons by (rule Cons.IH)
  qed
qed

lemma find_vtrac_hit:
  assumes "strip article \<noteq> []"
    and "(k, v) \<in> set (article_dict c) \<union> set (analog_dict c)"
    and "k \<noteq> []" and "v \<noteq> []" and "startswith (strip k) (strip article)" and "strip v \<noteq> []"
  shows "strip v \<in> set (find_vtrac c article)"
proof -
  from assms(1) have ne: "article \<noteq> []" by (auto simp: strip_def)
  from assms(2) show ?thesis
  proof
    assume "(k, v) \<in> set (article_dict c)"
    from prefix_scan_hit [OF this assms(3,4,5,6)] show ?thesis
      using assms(1) ne by (simp add: find_vtrac_def Let_def prefix_scan_keeps)
  next
    assume "(k, v) \<in> set (analog_dict c)"
    from prefix_scan_hit [OF this assms(3,4,5,6)] show ?thesis
      using assms(1) ne by (simp add: find_vtrac_def Let_def)
  qed
qed

lemma trimmed_hd: "trimmed k \<Longrightarrow> \<not> is_space (hd k)"
  using strip_shape [of k] by (auto simp: trimmed_def)

lemma startswith_strip:
  assumes "trimmed k" and "strip article \<noteq> []" and "startswith k article"
  shows "startswith k (strip article)"
proof -
  from assms(2) have ne: "article \<noteq> []" by (auto simp: strip_def)
  from assms(3) obtain r where k: "k = article @ r"
    unfolding startswith_def by (metis append_take_drop_id)
  with ne have "hd article = hd k" by simp
  with trimmed_hd [OF assms(1)] ne have "dropWhile is_space article = article"
    by (cases article) simp_all
  then have "strip article = rev (dropWhile is_space (rev article))"
    by (simp add: strip_def)
  then obtain t where "article = strip article @ t"
    using rdrop_decomp [of article is_space] by metis
  with k have "k = strip article @ (t @ r)" by simp
  then show ?thesis
    unfolding startswith_def by (metis append_eq_conv_conj)
qed

lemma find_vtrac_blank: "strip article = [] \<Longrightarrow> find_vtrac c article = []"
  by (simp add: find_vtrac_def)

lemma find_vtrac_prefix_hit:
  assumes "strip article \<noteq> []"
    and "(k, v) \<in> set (article_dict (load_catalog rows)) \<union> set (analog_dict (load_catalog rows))"
    and "startswith k article \<or> startswith k (strip article)"
  shows "v \<in> set (find_vtrac (load_catalog rows) article)"
proof -
  from catalog_entry_trimmed [OF assms(2)] have t: "trimmed k" "trimmed v" by simp_all
  then have s: "strip k = k" "strip v = v" "k \<noteq> []" "v \<noteq> []"
    by (simp_all add: trimmed_def)
  from assms(3) t(1) assms(1) have "startswith k (strip article)"
    using startswith_strip by blast
  with s have "startswith (strip k) (strip article)" "strip v \<noteq> []" by simp_all
  from find_vtrac_hit [OF assms(1) assms(2) s(3) s(4) this] s(2) show ?thesis by simp
qed

lemma collect_vtracs:
  "set (foldl (\<lambda>found vtrac. if vtrac \<noteq> [] \<and> vtrac \<notin> set found then found @ [vtrac] else found)
          acc xs) = set acc \<union> {v \<in> set xs. v \<noteq> []}"
  by (induction xs arbitrary: acc) auto

lemma process_row_fold_keeps:
  "x \<in> set acc \<Longrightarrow>
   x \<in> set (foldl (\<lambda>found_vtracs article.
              case article of
                None \<Rightarrow> found_vtracs
              | Some a \<Rightarrow>
                  if strip a = [] then found_vtracs
                  else foldl (\<lambda>found vtrac. if vtrac \<noteq> [] \<and> vtrac \<notin> set found
                                              then found @ [vtrac] else found)
                         found_vtracs (find_vtrac c (strip a))) acc row)"
proof (induction row arbitrary: acc)
  case Nil
  then show ?case by simp
next
  case (Cons cell row)
  show ?case
    unfolding foldl_Cons
    by (rule Cons.IH) (use Cons.prems in \<open>auto simp: collect_vtracs split: option.splits\<close>)
qed

lemma process_row_fold_hit:
  assumes "Some field \<in> set row" and "strip field \<noteq> []"
    and "v \<in> set (find_vtrac c (strip field))" and "v \<noteq> []"
  shows
   "v \<in> set (foldl (\<lambda>found_vtracs article.
              case article of
                None \<Rightarrow> found_vtracs
              | Some a \<Rightarrow>
                  if strip a = [] then found_vtracs
                  else foldl (\<lambda>found vtrac. if vtrac \<noteq> [] \<and> vtrac \<notin> set found
                                              then found @ [vtrac] else found)
                         found_vtracs (find_vtrac c (strip a))) acc row)"
using assms(1) proof (induction row arbitrary: acc)
  case Nil
  then show ?case by simp
next
  case (Cons cell row)
  show ?case
  proof (cases "cell = Some field")
    case True
    show ?thesis
      unfolding foldl_Cons True
      by (rule process_row_fold_keeps) (use assms(2-4) in \<open>simp add: collect_vtracs\<close>)
  next
    case False
    with Cons.prems have "Some field \<in> set row" by simp
    then show ?thesis
      unfolding foldl_Cons by (rule Cons.IH)
  qed
qed

text \<open>
  C8, as stated, fails for a blank query: every key starts with the empty string, but
  \<open>find_vtrac\<close> returns the empty list at once for an empty or all-blank key.
\<close>

theorem find_vtrac_blank_counterexample:
  "startswith (ustr ''AB-100-X'') [] \<and>
   (ustr ''AB-100-X'', ustr ''V2'') \<in> set (article_dict (load_catalog
      [\<lparr>row_article = Some (ustr ''AB-100-X''), row_analog = None, row_vtrac = Some (ustr ''V2'')\<rparr>])) \<and>
   find_vtrac (load_catalog
      [\<lparr>row_article = Some (ustr ''AB-100-X''), row_analog = None, row_vtrac = Some (ustr ''V2'')\<rparr>]) [] = []"
  by (simp add: find_vtrac_def startswith_def load_catalog_def load_row_def Let_def cell_strip_def
      strip_def usable_def ustr_def is_space_def)

text \<open>
  C8, amended. For a blank queried key (empty after trimming) \<open>find_vtrac\<close> returns
  the empty list, whatever the catalog. For every queried key that is not blank, and every
  entry of the primary or the analog mapping of a loaded catalog whose key starts with the
  queried key (or with the queried key trimmed, which is what the lookup compares),
  \<open>find_vtrac\<close> returns that entry's identifier among its results, and the candidate
  list of every record that has the queried key in one of its part-number fields contains
  that identifier.
\<close>

theorem find_vtrac_prefix:
  "(strip article = [] \<longrightarrow> find_vtrac c article = []) \<and>
   (strip article \<noteq> [] \<longrightarrow>
      (\<forall>k v. (k, v) \<in> set (article_dict (load_catalog rows)) \<union> set (analog_dict (load_catalog rows)) \<longrightarrow>
         (startswith k article \<or> startswith k (strip article)) \<longrightarrow>
         v \<in> set (find_vtrac (load_catalog rows) article) \<and>
         (\<forall>row. Some article \<in> set row \<longrightarrow>
                v \<in> set (VTRACFinder_process_row (load_catalog rows) row))))"
proof (intro conjI impI allI)
  assume "strip article = []"
  then show "find_vtrac c article = []" by (rule find_vtrac_blank)
next
  fix k v
  assume ne: "strip article \<noteq> []"
    and kv: "(k, v) \<in> set (article_dict (load_catalog rows)) \<union> set (analog_dict (load_catalog rows))"
    and sw: "startswith k article \<or> startswith k (strip article)"
  show "v \<in> set (find_vtrac (load_catalog rows) article)"
    using ne kv sw by (rule find_vtrac_prefix_hit)
next
  fix k v row
  assume ne: "strip article \<noteq> []"
    and kv: "(k, v) \<in> set (article_dict (load_catalog rows)) \<union> set (analog_dict (load_catalog rows))"
    and sw: "startswith k article \<or> startswith k (strip article)"
    and row: "Some article \<in> set row"
  from catalog_entry_trimmed [OF kv] have t: "trimmed k" "v \<noteq> []"
    by (simp_all add: trimmed_def)
  from sw t(1) ne have sw': "startswith k (strip article)"
    using startswith_strip by blast
  from ne have ne': "strip (strip article) \<noteq> []"
    by (simp add: strip_idem)
  have "v \<in> set (find_vtrac (load_catalog rows) (strip article))"
  proof (rule find_vtrac_prefix_hit)
    show "strip (strip article) \<noteq> []" by (rule ne')
    show "(k, v) \<in> set (article_dict (load_catalog rows)) \<union> set (analog_dict (load_catalog rows))"
      by (rule kv)
    show "startswith k (strip article) \<or> startswith k (strip (strip article))"
      using sw' by blast
  qed
  with row ne t(2) show "v \<in> set (VTRACFinder_process_row (load_catalog rows) row)"
    unfolding VTRACFinder_process_row_def by (intro process_row_fold_hit)
qed

text \<open>
  The scenario of the specification: the entry (\<open>"AB-100-X"\<close>, \<open>"V2"\<close>) and the
  record field \<open>"AB-100"\<close>; the candidate list of the record contains \<open>"V2"\<close>. The
  blank key \<open>" "\<close> returns nothing.
\<close>

theorem find_vtrac_prefix_witness:
  "strip (ustr ''AB-100'') \<noteq> [] \<and> startswith (ustr ''AB-100-X'') (ustr ''AB-100'') \<and>
   (ustr ''AB-100-X'', ustr ''V2'') \<in> set (article_dict (load_catalog
      [\<lparr>row_article = Some (ustr ''AB-100-X''), row_analog = None, row_vtrac = Some (ustr ''V2'')\<rparr>])) \<and>
   ustr ''V2'' \<in> set (find_vtrac (load_catalog
      [\<lparr>row_article = Some (ustr ''AB-100-X''), row_analog = None, row_vtrac = Some (ustr ''V2'')\<rparr>])
      (ustr ''AB-100'')) \<and>
   ustr ''V2'' \<in> set (VTRACFinder_process_row (load_catalog
      [\<lparr>row_article = Some (ustr ''AB-100-X''), row_analog = None, row_vtrac = Some (ustr ''V2'')\<rparr>])
      [Some (ustr ''AB-100''), None, None, None, None, None]) \<and>
   strip (ustr '' '') = [] \<and>
   find_vtrac (load_catalog
      [\<lparr>row_article = Some (ustr ''AB-100-X''), row_analog = None, row_vtrac = Some (ustr ''V2'')\<rparr>])
      (ustr '' '') = []"
proof -
  let ?rows = "[\<lparr>row_article = Some (ustr ''AB-100-X''), row_analog = None, row_vtrac = Some (ustr ''V2'')\<rparr>]"
  let ?row = "[Some (ustr ''AB-100''), None, None, None, None, None]"
  have a: "strip (ustr ''AB-100'') \<noteq> []"
    by (simp add: strip_def ustr_def is_space_numeral_simps)
  have b: "startswith (ustr ''AB-100-X'') (ustr ''AB-100'')"
    by (simp add: startswith_def ustr_def)
  have d: "article_dict (load_catalog ?rows) = [(ustr ''AB-100-X'', ustr ''V2'')]"
    by (simp add: load_catalog_def load_row_def Let_def cell_strip_def
      strip_def usable_def ustr_def is_space_numeral_simps)
  then have c: "(ustr ''AB-100-X'', ustr ''V2'') \<in> set (article_dict (load_catalog ?rows)) \<union>
           set (analog_dict (load_catalog ?rows))"
    by simp
  have r: "Some (ustr ''AB-100'') \<in> set ?row" by simp
  have bl: "strip (ustr '' '') = []"
    by (simp add: strip_def ustr_def is_space_numeral_simps)
  from find_vtrac_prefix [of "ustr ''AB-100''" "load_catalog ?rows" ?rows] a b c r
  have e: "ustr ''V2'' \<in> set (find_vtrac (load_catalog ?rows) (ustr ''AB-100''))"
    and f: "ustr ''V2'' \<in> set (VTRACFinder_process_row (load_catalog ?rows) ?row)"
    by blast+
  from find_vtrac_prefix [of "ustr '' ''" "load_catalog ?rows" ?rows] bl
  have g: "find_vtrac (load_catalog ?rows) (ustr '' '') = []"
    by blast
  from a b d e f g bl show ?thesis by simp
qed

section \<open>Properties of the identifier propagation\<close>

lemma process_vtrac_matching_keys:
  "fst ` set (foldl (\<lambda>results idx.
              if notna_any (vtrac_cols (df ! idx)) then results
              else let found = found_vtracs m (current_articuls (df ! idx))
                   in if found \<noteq> [] then AList.update idx found results else results) acc idxs)
   \<subseteq> fst ` set acc \<union> {i \<in> set idxs. \<not> notna_any (vtrac_cols (df ! i))}"
proof (induction idxs arbitrary: acc)
  case Nil
  show ?case by simp
next
  case (Cons i idxs)
  let ?step = "\<lambda>results idx.
              if notna_any (vtrac_cols (df ! idx)) then results
              else let found = found_vtracs m (current_articuls (df ! idx))
                   in if found \<noteq> [] then AList.update idx found results else results"
  have "fst ` set (?step acc i) \<subseteq> fst ` set acc \<union> {j. j = i \<and> \<not> notna_any (vtrac_cols (df ! j))}"
    by (auto simp: Let_def dom_update)
  with Cons.IH [of "?step acc i"] show ?case
    by (simp only: foldl_Cons set_simps) blast
qed

lemma process_vtrac_matching_skips:
  "notna_any (vtrac_cols (df ! idx)) \<Longrightarrow> idx \<notin> fst ` set (process_vtrac_matching df m s e)"
  using process_vtrac_matching_keys [of df m "[]" "[s ..< min e (length df)]"]
  unfolding process_vtrac_matching_def by auto

lemma apply_vtrac_matches_length: "length (apply_vtrac_matches df matches) = length df"
  unfolding apply_vtrac_matches_def
  by (induction matches arbitrary: df) (auto split: prod.splits)

lemma apply_vtrac_matches_frame:
  "idx \<notin> fst ` set matches \<Longrightarrow> apply_vtrac_matches df matches ! idx = df ! idx"
  unfolding apply_vtrac_matches_def
proof (induction matches arbitrary: df)
  case Nil
  show ?case by simp
next
  case (Cons p matches)
  obtain i vs where p: "p = (i, vs)" by (cases p)
  with Cons.prems have "i \<noteq> idx" "idx \<notin> fst ` set matches" by auto
  with Cons.IH show ?case by (simp add: p)
qed

lemma step_unchanged:
  assumes "notna_any (vtrac_cols (df ! idx))"
  shows "apply_vtrac_matches df (process_vtrac_matching df m s e) ! idx = df ! idx"
  by (rule apply_vtrac_matches_frame) (rule process_vtrac_matching_skips [OF assms])

lemma run_task1_unchanged:
  assumes "notna_any (vtrac_cols (df ! idx))"
  shows "run_task1 df m ranges ! idx = df ! idx"
  using assms unfolding run_task1_def
proof (induction ranges arbitrary: df)
  case Nil
  show ?case by simp
next
  case (Cons r ranges)
  obtain s e where r: "r = (s, e)" by (cases r)
  let ?d = "apply_vtrac_matches df (process_vtrac_matching df m s e)"
  have d: "?d ! idx = df ! idx" by (rule step_unchanged [OF Cons.prems])
  with Cons.prems have "notna_any (vtrac_cols (?d ! idx))" by simp
  from Cons.IH [OF this] d show ?case by (simp add: r)
qed

text \<open>
  C10. Task 1 never modifies a row that already has at least one present value in its
  identifier columns: \<open>process_vtrac_matching\<close> returns no match for the index of such
  a row, whatever the range, so the row, and with it every identifier column of the row,
  is the same after \<open>apply_vtrac_matches\<close>, the table keeps its length, and the row is
  still the same after task 1 has gone through any list of ranges.
\<close>

theorem task1_keeps_rows_with_vtrac:
  assumes "idx < length df" and "notna_any (vtrac_cols (df ! idx))"
  shows "idx \<notin> fst ` set (process_vtrac_matching df m start_idx end_idx) \<and>
         vtrac_cols (apply_vtrac_matches df (process_vtrac_matching df m start_idx end_idx) ! idx) =
           vtrac_cols (df ! idx) \<and>
         apply_vtrac_matches df (process_vtrac_matching df m start_idx end_idx) ! idx = df ! idx \<and>
         length (apply_vtrac_matches df (process_vtrac_matching df m start_idx end_idx)) = length df \<and>
         run_task1 df m ranges ! idx = df ! idx"
  using assms(2) process_vtrac_matching_skips step_unchanged run_task1_unchanged
    apply_vtrac_matches_length by simp

text \<open>
  A table of two rows with a common part number: the first row has an identifier and is
  kept, while the second, which has none, is the one that is matched.
\<close>

theorem task1_keeps_rows_with_vtrac_witness:
  "0 < length [\<lparr>articul_cols = [Some (ustr ''A1''), None, None, None, None],
                vtrac_cols = [Some (ustr ''V1''), None, None, None, None]\<rparr>,
              \<lparr>articul_cols = [Some (ustr ''A1''), Some (ustr ''A2''), None, None, None],
                vtrac_cols = [None, None, None, None, None]\<rparr>] \<and>
   apply_vtrac_matches
     [\<lparr>articul_cols = [Some (ustr ''A1''), None, None, None, None],
        vtrac_cols = [Some (ustr ''V1''), None, None, None, None]\<rparr>,
      \<lparr>articul_cols = [Some (ustr ''A1''), Some (ustr ''A2''), None, None, None],
        vtrac_cols = [None, None, None, None, None]\<rparr>]
     (process_vtrac_matching
       [\<lparr>articul_cols = [Some (ustr ''A1''), None, None, None, None],
          vtrac_cols = [Some (ustr ''V1''), None, None, None, None]\<rparr>,
        \<lparr>articul_cols = [Some (ustr ''A1''), Some (ustr ''A2''), None, None, None],
          vtrac_cols = [None, None, None, None, None]\<rparr>]
       [(ustr ''A1'', [ustr ''V1'', ustr ''V9''])] 0 2) ! 0 =
     \<lparr>articul_cols = [Some (ustr ''A1''), None, None, None, None],
      vtrac_cols = [Some (ustr ''V1''), None, None, None, None]\<rparr>"
proof -
  let ?df = "[\<lparr>articul_cols = [Some (ustr ''A1''), None, None, None, None],
                vtrac_cols = [Some (ustr ''V1''), None, None, None, None]\<rparr>,
              \<lparr>articul_cols = [Some (ustr ''A1''), Some (ustr ''A2''), None, None, None],
                vtrac_cols = [None, None, None, None, None]\<rparr>]"
  have a: "0 < length ?df" by simp
  have b: "notna_any (vtrac_cols (?df ! 0))" by (simp add: notna_any_def)
  from task1_keeps_rows_with_vtrac [OF a b, of "[(ustr ''A1'', [ustr ''V1'', ustr ''V9''])]" 0 2]
  show ?thesis by simp
qed

section \<open>Properties of the variant generator\<close>

lemma upper_below: "\<forall>c\<in>set s. c < 0x61 \<Longrightarrow> upper s = s"
  by (induction s) (simp_all add: upper_def upper_char_below)

lemma clean_art_below:
  assumes "s = [] \<or> \<not> is_trailing (last s)" and "\<forall>c\<in>set s. c < 0x61"
  shows "clean_art s = filter (\<lambda>c. c \<noteq> 0x20) s"
proof -
  from assms(1) have "sub_trailing s = s" by (rule sub_trailing_fixed)
  moreover from assms(2) have "upper (filter (\<lambda>c. c \<noteq> 0x20) s) = filter (\<lambda>c. c \<noteq> 0x20) s"
    by (intro upper_below) simp
  ultimately show ?thesis by (simp add: clean_art_def)
qed

lemma not_trailing_simps:
  "\<not> is_trailing 0x30" "\<not> is_trailing 0x31" "\<not> is_trailing 0x41" "\<not> is_trailing 0x42"
  "\<not> is_trailing 0x43" "\<not> is_trailing 0x44"
  by (simp_all add: is_trailing_def is_space_def)

lemma ex_strings:
  "strip (ustr ''AB-100'') = ustr ''AB-100''" "strip (ustr ''AB/CD'') = ustr ''AB/CD''"
  by (simp_all add: strip_def ustr_def is_space_def)

lemma split_ex:
  "split_max 0x2D 2 [0x41, 0x42, 0x2D, 0x31, 0x30, 0x30] = [[0x41, 0x42], [0x31, 0x30, 0x30]]"
  "rsplit1 0x2D [0x41, 0x42, 0x2D, 0x31, 0x30, 0x30] = [[0x41, 0x42], [0x31, 0x30, 0x30]]"
  by (simp_all add: numeral_2_eq_2 rsplit1_def)

text \<open>
  C2 does not hold of \<open>process_articul\<close>: only the normalized input itself is compared
  with the original. For \<open>"AB-100"\<close>, whose normalized original is \<open>"AB-100"\<close>, the
  first two hyphen-separated parts joined again are the original, and it is returned; for
  \<open>"AB/CD"\<close> the rewrite of the slash to \<open>" / "\<close> normalizes back to the original,
  and it is returned.
\<close>

theorem process_articul_returns_original:
  "clean_art (ustr ''AB-100'') = ustr ''AB-100'' \<and>
   process_articul (Some (ustr ''AB-100'')) (ustr ''AB-100'') = [ustr ''AB-100''] \<and>
   clean_art (ustr ''AB/CD'') = ustr ''AB/CD'' \<and>
   process_articul (Some (ustr ''AB/CD'')) (ustr ''AB/CD'') = [ustr ''AB-CD'', ustr ''AB/CD'']"
proof -
  have h: "hyphen_variants (ustr ''AB-100'') [] = [ustr ''AB-100'']"
    by (simp add: ustr_def hyphen_variants_def split_ex clean_art_below not_trailing_simps
        item0_def is_valid_art_def set_add_def Let_def)
  have s: "slash_variants (ustr ''AB/CD'') [] = [ustr ''AB-CD'', ustr ''AB/CD'']"
    by (simp add: ustr_def clean_art_below not_trailing_simps slash_variants_def
        replace_char_def split_on_def is_valid_art_def set_add_def Let_def)
  have c: "clean_art (upper (ustr ''AB-100'')) = ustr ''AB-100''"
    "clean_art (upper (ustr ''AB/CD'')) = ustr ''AB/CD''"
    "clean_art (ustr ''AB-100'') = ustr ''AB-100''" "clean_art (ustr ''AB/CD'') = ustr ''AB/CD''"
    by (simp_all add: ustr_def upper_below clean_art_below not_trailing_simps)
  have m: "0x2D \<in> set (ustr ''AB-100'')" "0x2F \<notin> set (ustr ''AB-100'')"
    "0x2D \<notin> set (ustr ''AB/CD'')" "0x2F \<in> set (ustr ''AB/CD'')"
    "is_valid_art (ustr ''AB-100'')" "is_valid_art (ustr ''AB-CD'')" "is_valid_art (ustr ''AB/CD'')"
    by (simp_all add: ustr_def is_valid_art_def)
  have a: "process_articul (Some (ustr ''AB-100'')) (ustr ''AB-100'') = [ustr ''AB-100'']"
    by (simp add: process_articul_def ex_strings c m h)
  have b: "process_articul (Some (ustr ''AB/CD'')) (ustr ''AB/CD'') = [ustr ''AB-CD'', ustr ''AB/CD'']"
    by (simp add: process_articul_def ex_strings c m s)
  from a b c show ?thesis by simp
qed

lemma foldl_set_add_filter:
  "set (foldl (\<lambda>s art. if art \<noteq> original_art then set_add art s else s) acc xs) =
     set acc \<union> {x \<in> set xs. x \<noteq> original_art}"
  by (induction xs arbitrary: acc) (auto simp: set_add_def)

text \<open>
  The caller \<open>process_row\<close> compares every variant with the original once more, so the
  row's result never contains it.
\<close>

lemma process_row_excludes_original:
  "(case articul row of None \<Rightarrow> [] | Some a \<Rightarrow> clean_art a) \<notin> set (process_row row)"
  by (simp add: process_row_def Let_def foldl_set_add_filter)

section \<open>Properties of the nomenclature extractor\<close>

lemma split_where_nonempty: "split_where P s \<noteq> []"
  by (induction s) (auto split: list.splits)

lemma item0_split_where: "item0 (split_where P s) = takeWhile (\<lambda>c. \<not> P c) s"
proof (induction s)
  case Nil
  show ?case by (simp add: item0_def)
next
  case (Cons c s)
  then show ?case
    using split_where_nonempty [of P s] by (auto simp: item0_def split: list.splits)
qed

lemma takeWhile_twice: "takeWhile P (takeWhile Q s) = takeWhile (\<lambda>c. Q c \<and> P c) s"
  by (induction s) auto

lemma first_token:
  "item0 (split_on 0x20 (item0 (split_on 0x28 (item0 (split_on 0x2F x))))) =
     takeWhile (\<lambda>c. c \<noteq> 0x2F \<and> c \<noteq> 0x28 \<and> c \<noteq> 0x20) x"
  by (simp add: split_on_def item0_split_where takeWhile_twice conj_ac)

lemma art_findall_skip:
  "\<forall>i<length pre. \<not> art_marker (drop i (pre @ t)) \<Longrightarrow> art_findall (pre @ t) = art_findall t"
proof (induction pre)
  case Nil
  show ?case by simp
next
  case (Cons c pre)
  from Cons.prems have "\<not> art_marker (drop 0 ((c # pre) @ t))" by blast
  then have a: "art_findall ((c # pre) @ t) = art_findall (pre @ t)" by simp
  have "\<forall>i<length pre. \<not> art_marker (drop i (pre @ t))"
  proof (intro allI impI)
    fix i assume "i < length pre"
    then have "Suc i < length (c # pre)" by simp
    with Cons.prems have "\<not> art_marker (drop (Suc i) ((c # pre) @ t))" by blast
    then show "\<not> art_marker (drop i (pre @ t))" by simp
  qed
  from Cons.IH [OF this] a show ?case by simp
qed

lemma art_marker_append: "length m = 3 \<Longrightarrow> art_marker m \<Longrightarrow> art_marker (m @ t)"
  by (cases m; cases "tl m"; cases "tl (tl m)") (auto simp: art_marker_def)

lemma dropWhile_run:
  "\<forall>c\<in>set ws. P c \<Longrightarrow> t = [] \<or> \<not> P (hd t) \<Longrightarrow> dropWhile P (ws @ t) = t"
  by (cases t) (auto simp: dropWhile_append)

lemma takeWhile_run:
  "\<forall>c\<in>set body. P c \<Longrightarrow> t = [] \<or> \<not> P (hd t) \<Longrightarrow> takeWhile P (body @ t) = body"
  by (cases t) (auto simp: takeWhile_append)

lemma art_findall_match:
  assumes "length m = 3" and "art_marker m"
    and "dot = [] \<or> dot = [0x2E]"
    and "dot = [] \<longrightarrow> (ws @ body @ rest = [] \<or> hd (ws @ body @ rest) \<noteq> 0x2E)"
    and "\<forall>c\<in>set ws. is_space c"
    and "body @ rest = [] \<or> \<not> is_space (hd (body @ rest))"
    and "\<forall>c\<in>set body. c \<noteq> 0x3B \<and> c \<noteq> 0x24"
    and "rest = [] \<or> hd rest = 0x3B"
  shows "art_findall (m @ dot @ ws @ body @ rest) = body # art_findall rest"
proof -
  from assms(1) obtain a r t where m: "m = [a, r, t]"
    by (cases m; cases "tl m"; cases "tl (tl m)") auto
  let ?tail = "ws @ body @ rest"
  have mk: "art_marker (a # r # t # dot @ ?tail)"
    using art_marker_append [OF assms(1,2), of "dot @ ?tail"] by (simp add: m)
  have r2: "(case dot @ ?tail of [] \<Rightarrow> dot @ ?tail | d # r \<Rightarrow> if d = 0x2E then r else dot @ ?tail) = ?tail"
    using assms(3,4) by (cases ?tail) auto
  have r3: "dropWhile is_space ?tail = body @ rest"
    using assms(5,6) by (rule dropWhile_run)
  have stop: "rest = [] \<or> \<not> (hd rest \<noteq> 0x3B \<and> hd rest \<noteq> 0x24)"
    using assms(8) by auto
  have tk: "takeWhile (\<lambda>x. x \<noteq> 0x3B \<and> x \<noteq> 0x24) (body @ rest) = body"
    using assms(7) stop by (rule takeWhile_run)
  have dr: "dropWhile (\<lambda>x. x \<noteq> 0x3B \<and> x \<noteq> 0x24) (body @ rest) = rest"
    using assms(7) stop by (rule dropWhile_run)
  have "art_findall (a # r # t # dot @ ?tail) = body # art_findall rest"
    by (subst art_findall.simps) (simp only: mk if_True drop_Suc_Cons drop_0 numeral_2_eq_2 r2 r3 tk dr Let_def)
  then show ?thesis by (simp add: m)
qed

lemma art_articuls_iff:
  "a \<in> set (art_articuls n original_art) \<longleftrightarrow>
     (\<exists>match\<in>set (art_findall n).
        a = clean_art (takeWhile (\<lambda>c. c \<noteq> 0x2F \<and> c \<noteq> 0x28 \<and> c \<noteq> 0x20) match) \<and>
        is_valid_art a \<and> a \<noteq> original_art)"
  by (auto simp: art_articuls_def first_token Let_def)

lemma art_articuls_Cons:
  "art_findall n = match # art_findall rest \<Longrightarrow>
   art_articuls n original_art =
     (let a = clean_art (takeWhile (\<lambda>c. c \<noteq> 0x2F \<and> c \<noteq> 0x28 \<and> c \<noteq> 0x20) match)
      in if is_valid_art a \<and> a \<noteq> original_art then [a] else []) @
     art_articuls rest original_art"
  by (simp add: art_articuls_def first_token Let_def)

text \<open>
  C5, amended. Let the upper-cased nomenclature text consist of a part \<open>pre\<close> in which
  no match of the marker starts, the marker (the three letters in either case), an
  optional period, a run of white space, a text \<open>body\<close> that does not start with white
  space and contains neither \<open>;\<close> nor \<open>$\<close>, and a remainder that is empty or starts
  with \<open>;\<close>. Then the first match captures exactly \<open>body\<close>, the text from the marker up
  to the next \<open>;\<close> or the end of the string, and the search goes on in the remainder,
  so a marker inside \<open>body\<close> is not matched on its own; the extractor takes the portion
  of \<open>body\<close> before the first \<open>/\<close>, \<open>(\<close> or space, normalizes it, and keeps it if
  and only if it is valid and differs from the original value.
\<close>

theorem art_marker_capture:
  assumes "upper text = pre @ m @ dot @ ws @ body @ rest"
    and "\<forall>i<length pre. \<not> art_marker (drop i (pre @ m @ dot @ ws @ body @ rest))"
    and "length m = 3" and "art_marker m"
    and "dot = [] \<or> dot = [0x2E]"
    and "dot = [] \<longrightarrow> (ws @ body @ rest = [] \<or> hd (ws @ body @ rest) \<noteq> 0x2E)"
    and "\<forall>c\<in>set ws. is_space c"
    and "body @ rest = [] \<or> \<not> is_space (hd (body @ rest))"
    and "\<forall>c\<in>set body. c \<noteq> 0x3B \<and> c \<noteq> 0x24"
    and "rest = [] \<or> hd rest = 0x3B"
  shows "art_findall (upper text) = body # art_findall rest \<and>
         extract_from_nomenclature (Some text) original_art =
           bracket_articuls (upper text) original_art @
           (let a = clean_art (takeWhile (\<lambda>c. c \<noteq> 0x2F \<and> c \<noteq> 0x28 \<and> c \<noteq> 0x20) body)
            in if is_valid_art a \<and> a \<noteq> original_art then [a] else []) @
           art_articuls rest original_art"
proof -
  have "art_findall (pre @ m @ dot @ ws @ body @ rest) = art_findall (m @ dot @ ws @ body @ rest)"
    using assms(2) by (rule art_findall_skip)
  also have "\<dots> = body # art_findall rest"
    using assms(3-10) by (rule art_findall_match)
  finally have f: "art_findall (upper text) = body # art_findall rest"
    by (simp only: assms(1))
  from art_articuls_Cons [OF f, of original_art] f show ?thesis
    by (simp add: extract_from_nomenclature_def Let_def)
qed

text \<open>
  An instance: the marker in lower case after two characters, followed by a period, a
  space and \<open>ab12/3 (c)\<close>, then a semicolon.
\<close>

theorem art_marker_capture_witness:
  "extract_from_nomenclature
     (Some (ustr ''x '' @ [0x430, 0x440, 0x442] @ ustr ''. ab12/3 (c);y'')) [] = [ustr ''AB12''] \<and>
   art_findall (upper (ustr ''x '' @ [0x430, 0x440, 0x442] @ ustr ''. ab12/3 (c);y'')) =
     [ustr ''AB12/3 (C)'']"
proof -
  let ?text = "ustr ''x '' @ [0x430, 0x440, 0x442] @ ustr ''. ab12/3 (c);y''"
  let ?pre = "ustr ''X ''" and ?m = "[0x410, 0x420, 0x422] :: ustring" and ?dot = "ustr ''.''"
  let ?ws = "ustr '' ''" and ?body = "ustr ''AB12/3 (C)''" and ?rest = "ustr '';Y''"
  have u: "upper ?text = ?pre @ ?m @ ?dot @ ?ws @ ?body @ ?rest"
    by (simp add: upper_def upper_char_tree upper_tree_lookups ustr_def cong: tree_lookup_cong)
  have p: "\<forall>i<length ?pre. \<not> art_marker (drop i (?pre @ ?m @ ?dot @ ?ws @ ?body @ ?rest))"
    by (simp add: ustr_def All_less_Suc art_marker_def)
  have m: "length ?m = 3" "art_marker ?m"
    by (simp_all add: art_marker_def)
  have d: "?dot = [] \<or> ?dot = [0x2E]" "?dot = [] \<longrightarrow> (?ws @ ?body @ ?rest = [] \<or> hd (?ws @ ?body @ ?rest) \<noteq> 0x2E)"
    by (simp_all add: ustr_def)
  have w: "\<forall>c\<in>set ?ws. is_space c" "?body @ ?rest = [] \<or> \<not> is_space (hd (?body @ ?rest))"
    by (simp_all add: ustr_def is_space_def)
  have b: "\<forall>c\<in>set ?body. c \<noteq> 0x3B \<and> c \<noteq> 0x24" "?rest = [] \<or> hd ?rest = 0x3B"
    by (simp_all add: ustr_def)
  have r: "art_findall ?rest = []"
    by (simp add: ustr_def art_marker_def)
  have br: "bracket_findall (?pre @ ?m @ ?dot @ ?ws @ ?body @ ?rest) = [ustr ''C'']"
    by (simp add: ustr_def)
  have sp: "split_where (\<lambda>c. c = 0x2F \<or> c = 0x3B) (ustr ''C'') = [ustr ''C'']"
    by (simp add: ustr_def)
  have s: "strip (ustr ''C'') = ustr ''C''"
    by (simp add: ustr_def strip_def is_space_def)
  have as: "art_search (ustr ''C'') = Some (ustr ''C'')"
    by (simp add: ustr_def art_search_def is_art_char_def)
  have c: "clean_art (ustr ''C'') = ustr ''C''" "\<not> is_valid_art (ustr ''C'')"
    by (simp_all add: ustr_def clean_art_below is_trailing_def is_space_def is_valid_art_def)
  have bk: "bracket_articuls (upper ?text) [] = []"
    by (simp only: bracket_articuls_def u br list.map sp s as option.case Let_def c) simp
  have tk: "clean_art (takeWhile (\<lambda>c. c \<noteq> 0x2F \<and> c \<noteq> 0x28 \<and> c \<noteq> 0x20) ?body) = ustr ''AB12''"
    by (simp add: ustr_def clean_art_below is_trailing_def is_space_def)
  have v: "is_valid_art (ustr ''AB12'')" "ustr ''AB12'' \<noteq> []"
    by (simp_all add: ustr_def is_valid_art_def)
  have ar: "art_articuls ?rest [] = []"
    by (simp only: art_articuls_def r) simp
  from art_marker_capture [OF u p m d w b, of "[]"]
  have "art_findall (upper ?text) = ?body # art_findall ?rest"
    and "extract_from_nomenclature (Some ?text) [] =
           bracket_articuls (upper ?text) [] @
           (let a = clean_art (takeWhile (\<lambda>c. c \<noteq> 0x2F \<and> c \<noteq> 0x28 \<and> c \<noteq> 0x20) ?body)
            in if is_valid_art a \<and> a \<noteq> [] then [a] else []) @
           art_articuls ?rest []"
    by blast+
  then have "art_findall (upper ?text) = [?body]"
    and "extract_from_nomenclature (Some ?text) [] =
           [] @ (if is_valid_art (ustr ''AB12'') \<and> ustr ''AB12'' \<noteq> [] then [ustr ''AB12''] else []) @ []"
    unfolding r bk tk ar Let_def by blast+
  with v show ?thesis by simp
qed

text \<open>
  C5, as stated, fails: the matches do not overlap. In a text with two markers and no
  semicolon between them the second marker (at index 10) lies inside the text captured
  for the first, so it is not matched, and the valid part number after it is not kept.
\<close>

theorem art_marker_overlap_counterexample:
  "art_marker (drop 10 (upper ([0x430, 0x440, 0x442] @ ustr ''. 1234 '' @ [0x430, 0x440, 0x442] @ ustr ''. 5678''))) \<and>
   is_valid_art (ustr ''5678'') \<and>
   extract_from_nomenclature
     (Some ([0x430, 0x440, 0x442] @ ustr ''. 1234 '' @ [0x430, 0x440, 0x442] @ ustr ''. 5678'')) [] =
     [ustr ''1234'']"
proof -
  let ?text = "[0x430, 0x440, 0x442] @ ustr ''. 1234 '' @ [0x430, 0x440, 0x442] @ ustr ''. 5678''"
  let ?up = "[0x410, 0x420, 0x422] @ ustr ''. 1234 '' @ [0x410, 0x420, 0x422] @ ustr ''. 5678''"
  have u: "upper ?text = ?up"
    by (simp add: upper_def upper_char_tree upper_tree_lookups ustr_def cong: tree_lookup_cong)
  have a: "art_marker (drop 10 ?up)"
    by (simp add: ustr_def art_marker_def)
  have f: "art_findall ?up = [ustr ''1234 '' @ [0x410, 0x420, 0x422] @ ustr ''. 5678'']"
    by (simp add: ustr_def art_marker_def is_space_def)
  have b: "bracket_findall ?up = []"
    by (simp add: ustr_def)
  have tk: "clean_art (takeWhile (\<lambda>c. c \<noteq> 0x2F \<and> c \<noteq> 0x28 \<and> c \<noteq> 0x20)
              (ustr ''1234 '' @ [0x410, 0x420, 0x422] @ ustr ''. 5678'')) = ustr ''1234''"
    by (simp add: ustr_def clean_art_below is_trailing_def is_space_def)
  have v: "is_valid_art (ustr ''1234'')" "ustr ''1234'' \<noteq> []" "is_valid_art (ustr ''5678'')"
    by (simp_all add: ustr_def is_valid_art_def)
  have e: "extract_from_nomenclature (Some ?text) [] = bracket_articuls ?up [] @ art_articuls ?up []"
    by (simp only: extract_from_nomenclature_def Let_def option.case u)
  have eb: "bracket_articuls ?up [] = []"
    by (simp only: bracket_articuls_def b) simp
  have "art_articuls ?up [] =
          (if is_valid_art (ustr ''1234'') \<and> ustr ''1234'' \<noteq> [] then [ustr ''1234''] else [])"
    by (simp only: art_articuls_def f first_token Let_def list.map concat.simps tk append_Nil2)
  with v have ea: "art_articuls ?up [] = [ustr ''1234'']"
    by simp
  have "extract_from_nomenclature (Some ?text) [] = [ustr ''1234'']"
    unfolding e eb ea by simp
  moreover from a have "art_marker (drop 10 (upper ?text))"
    by (simp only: u)
  ultimately show ?thesis using v(3) by blast
qed

end
